theory Spec2Isabelle
  imports Complex_Main "HOL-Library.Sublist"
begin

section \<open>Strings of the source language\<close>

text \<open>
  A JavaScript string is a finite sequence of UTF-16 code units, and \<open>length\<close>,
  \<open>includes\<close>, \<open>endsWith\<close> and the regular expressions of the source (none of which
  carries the \<open>u\<close> flag) all work on code units. A text is therefore a list of code-unit
  values; the literals of the source are written out as such lists (for instance
  \<open>[0x30A2, 0x30D7, 0x30C7]\<close> is the katakana word a-pu-de). The short ASCII labels that
  the source uses as enumeration values (\<open>'request'\<close>, \<open>'business'\<close>, ...) are kept as
  ordinary \<open>string\<close>s.
\<close>

type_synonym jsstring = "nat list"

text \<open>\<open>String.prototype.includes\<close>; also \<open>RegExp.prototype.test\<close> for a pattern that is
  a plain literal.\<close>

fun js_includes :: "jsstring \<Rightarrow> jsstring \<Rightarrow> bool" where
  "js_includes [] p = (p = [])"
| "js_includes (x # xs) p = (prefix p (x # xs) \<or> js_includes xs p)"

text \<open>\<open>String.prototype.endsWith\<close>.\<close>

definition js_endsWith :: "jsstring \<Rightarrow> jsstring \<Rightarrow> bool" where
  "js_endsWith text p = suffix p text"

text \<open>The code units of an ASCII label, for the places where a label is spliced into a text.\<close>

definition ascii :: "string \<Rightarrow> jsstring" where
  "ascii s = map of_char s"

section \<open>ContextAnalyzer\<close>

subsection \<open>Pattern tables\<close>

text \<open>Every pattern of the analyzer is a regular expression without metacharacters (the
  one escape, \<open>/\?/\<close>, denotes the literal question mark), so each is given by the literal
  it matches. The tables keep the insertion order of the object literals, which is the
  order \<open>Object.entries\<close> and \<open>Object.keys\<close> enumerate.\<close>

definition intentPatterns :: "(string \<times> jsstring list) list" where
  "intentPatterns =
    [(''request'',
        [[0x3057, 0x3066], [0x3057, 0x3066, 0x304F, 0x3060, 0x3055, 0x3044], [0x304A, 0x9858, 0x3044], [0x983C, 0x3080], [0x3084, 0x3063, 0x3066], [0x78BA, 0x8A8D], [0x30C1, 0x30A7, 0x30C3, 0x30AF],
         [0x898B, 0x3066], [0x6559, 0x3048, 0x3066], [0x9001, 0x3063, 0x3066], [0x4F5C, 0x3063, 0x3066], [0x4FEE, 0x6B63], [0x5BFE, 0x5FDC], [0x51E6, 0x7406]]),
     (''question'',
        [[0x003F], [0xFF1F], [0x3069, 0x3046], [0x3044, 0x304B, 0x304C], [0x3069, 0x3053], [0x3044, 0x3064], [0x306A, 0x305C], [0x306A, 0x306B], [0x3069, 0x308C],
         [0x5927, 0x4E08, 0x592B], [0x53EF, 0x80FD], [0x3067, 0x304D, 0x308B], [0x308F, 0x304B, 0x308B], [0x77E5, 0x3063, 0x3066]]),
     (''report'',
        [[0x5831, 0x544A], [0x304A, 0x77E5, 0x3089, 0x305B], [0x5B8C, 0x4E86], [0x7D42, 0x4E86], [0x6E08, 0x307F], [0x3067, 0x304D, 0x307E, 0x3057, 0x305F], [0x3057, 0x307E, 0x3057, 0x305F],
         [0x9032, 0x6357], [0x72B6, 0x6CC1], [0x7D50, 0x679C], [0x306B, 0x3064, 0x3044, 0x3066], [0x4EF6, 0x3067]]),
     (''apology'',
        [[0x3059, 0x307F, 0x307E, 0x305B, 0x3093], [0x7533, 0x3057, 0x8A33], [0x3054, 0x3081, 0x3093], [0x5931, 0x793C], [0x9045, 0x308C], [0x30DF, 0x30B9], [0x9593, 0x9055, 0x3044],
         [0x5FD8, 0x308C], [0x3067, 0x304D, 0x307E, 0x305B, 0x3093], [0x56F0, 0x3063, 0x3066]]),
     (''greeting'',
        [[0x304A, 0x306F, 0x3088, 0x3046], [0x3053, 0x3093, 0x306B, 0x3061, 0x306F], [0x3053, 0x3093, 0x3070, 0x3093, 0x306F], [0x304A, 0x75B2, 0x308C], [0x5931, 0x793C, 0x3057, 0x307E, 0x3059],
         [0x3088, 0x308D, 0x3057, 0x304F], [0x3042, 0x308A, 0x304C, 0x3068, 0x3046], [0x611F, 0x8B1D]]),
     (''complaint'',
        [[0x554F, 0x984C], [0x56F0, 0x308B], [0x304A, 0x304B, 0x3057, 0x3044], [0x5909], [0x30C0, 0x30E1], [0x4E0D, 0x5177, 0x5408], [0x30A8, 0x30E9, 0x30FC],
         [0x52D5, 0x304B, 0x306A, 0x3044], [0x3067, 0x304D, 0x306A, 0x3044], [0x9045, 0x3044]])]"

definition urgencyIndicators :: "(string \<times> jsstring list) list" where
  "urgencyIndicators =
    [(''urgent'',
        [[0x6025], [0x7DCA, 0x6025], [0x81F3, 0x6025], [0x0041, 0x0053, 0x0041, 0x0050], [0x4ECA, 0x3059, 0x3050], [0x3059, 0x3050, 0x306B], [0x65E9, 0x304F], [0x6025, 0x3044, 0x3067],
         [0x5F85, 0x3063, 0x3066], [0x30E4, 0x30D0, 0x3044], [0x30DE, 0x30B8, 0x3067], [0x672C, 0x5F53, 0x306B], [0x5927, 0x5909], [0x5371, 0x967A]]),
     (''normal'',
        [[0x3088, 0x308D, 0x3057, 0x304F], [0x304A, 0x9858, 0x3044], [0x3044, 0x3064, 0x3067, 0x3082], [0x53EF, 0x80FD, 0x3067, 0x3057, 0x305F, 0x3089], [0x304A, 0x6642, 0x9593]]),
     (''relaxed'',
        [[0x3086, 0x3063, 0x304F, 0x308A], [0x306E, 0x3093, 0x3073, 0x308A], [0x7A7A, 0x3044, 0x3066, 0x308B, 0x6642], [0x4F59, 0x88D5], [0x5F8C, 0x3067], [0x4ECA, 0x5EA6],
         [0x3044, 0x3064, 0x304B], [0x305D, 0x306E, 0x3046, 0x3061]])]"

definition relationshipIndicators :: "(string \<times> jsstring list) list" where
  "relationshipIndicators =
    [(''superior'',
        [[0x90E8, 0x9577], [0x8AB2, 0x9577], [0x793E, 0x9577], [0x304A, 0x75B2, 0x308C, 0x69D8], [0x6050, 0x308C, 0x5165, 0x308A], [0x5931, 0x793C], [0x7533, 0x3057, 0x8A33],
         [0x3044, 0x3064, 0x3082, 0x304A, 0x4E16, 0x8A71], [0x3042, 0x308A, 0x304C, 0x3068, 0x3046, 0x3054, 0x3056, 0x3044, 0x307E, 0x3059]]),
     (''colleague'',
        [[0x3055, 0x3093], [0x541B], [0x3088, 0x308D, 0x3057, 0x304F], [0x4E00, 0x7DD2, 0x306B], [0x624B, 0x4F1D], [0x76F8, 0x8AC7], [0x3069, 0x3046, 0x601D, 0x3046]]),
     (''subordinate'',
        [[0x983C, 0x3080], [0x3084, 0x3063, 0x3066], [0x78BA, 0x8A8D, 0x3057, 0x3066], [0x6025, 0x3044, 0x3067], [0x5927, 0x4E08, 0x592B, 0xFF1F]]),
     (''customer'',
        [[0x304A, 0x5BA2], [0x3054, 0x5229, 0x7528], [0x30B5, 0x30FC, 0x30D3, 0x30B9], [0x304A, 0x554F, 0x3044, 0x5408, 0x308F, 0x305B], [0x3054, 0x8CEA, 0x554F], [0x3054, 0x4E0D, 0x660E]])]"

definition analyzer_casualWords :: "jsstring list" where
  "analyzer_casualWords =
    [[0x30A2, 0x30D7, 0x30C7], [0x30D0, 0x30B0], [0x30EC, 0x30B9], [0x30EA, 0x30B9, 0x30B1], [0x30B0, 0x30B0, 0x308B], [0x30E4, 0x30D0, 0x3044], [0x30DE, 0x30B8, 0x3067],
     [0x3084, 0x3063, 0x3066], [0x3057, 0x3066], [0x30C0, 0x30E1], [0x30AA, 0x30C3, 0x30B1, 0x30FC], [0x004E, 0x0047], [0x004F, 0x004B], [0x30C1, 0x30A7, 0x30C3, 0x30AF]]"

definition businessKeywords :: "jsstring list" where
  "businessKeywords =
    [[0x4F1A, 0x8B70], [0x8CC7, 0x6599], [0x4F01, 0x753B], [0x30D7, 0x30ED, 0x30B8, 0x30A7, 0x30AF, 0x30C8], [0x58F2, 0x4E0A], [0x4E88, 0x7B97], [0x5951, 0x7D04],
     [0x30AF, 0x30E9, 0x30A4, 0x30A2, 0x30F3, 0x30C8], [0x9867, 0x5BA2], [0x55B6, 0x696D], [0x90E8, 0x7F72], [0x30C1, 0x30FC, 0x30E0]]"

definition technicalKeywords :: "jsstring list" where
  "technicalKeywords =
    [[0x30B7, 0x30B9, 0x30C6, 0x30E0], [0x30A2, 0x30D7, 0x30EA], [0x30B5, 0x30FC, 0x30D0, 0x30FC], [0x30C7, 0x30FC, 0x30BF, 0x30D9, 0x30FC, 0x30B9], [0x0041, 0x0050, 0x0049], [0x30D0, 0x30B0],
     [0x30C7, 0x30D7, 0x30ED, 0x30A4], [0x30C6, 0x30B9, 0x30C8], [0x5B9F, 0x88C5], [0x8A2D, 0x8A08]]"

definition casualKeywords :: "jsstring list" where
  "casualKeywords =
    [[0x98F2, 0x307F], [0x30E9, 0x30F3, 0x30C1], [0x4F11, 0x61A9], [0x8DA3, 0x5473], [0x6620, 0x753B], [0x30B2, 0x30FC, 0x30E0], [0x65C5, 0x884C],
     [0x9031, 0x672B], [0x30D7, 0x30E9, 0x30A4, 0x30D9, 0x30FC, 0x30C8]]"

definition formalIndicators :: "jsstring list" where
  "formalIndicators =
    [[0x3067, 0x3059], [0x307E, 0x3059], [0x3054, 0x3056, 0x3044, 0x307E, 0x3059], [0x3044, 0x305F, 0x3060, 0x304D], [0x3044, 0x305F, 0x3057, 0x307E, 0x3059], [0x7533, 0x3057, 0x4E0A, 0x3052],
     [0x6050, 0x308C, 0x5165, 0x308A], [0x5931, 0x793C], [0x304A, 0x4E16, 0x8A71, 0x306B, 0x306A, 0x3063, 0x3066, 0x304A, 0x308A, 0x307E, 0x3059]]"

definition casualIndicators :: "jsstring list" where
  "casualIndicators =
    [[0x3060, 0x3088], [0x3060, 0x306D], [0x3058, 0x3083, 0x3093], [0x3063, 0x3066], [0x3084, 0x3064], [0x3059, 0x3052, 0x30FC], [0x30DE, 0x30B8, 0x3067],
     [0x30E4, 0x30D0, 0x3044], [0x30AA, 0x30C3, 0x30B1, 0x30FC]]"

definition timePatterns :: "(string \<times> jsstring list) list" where
  "timePatterns =
    [(''morning'', [[0x304A, 0x306F, 0x3088, 0x3046], [0x671D], [0x5348, 0x524D], [0x4ECA, 0x671D]]),
     (''afternoon'', [[0x3053, 0x3093, 0x306B, 0x3061, 0x306F], [0x5348, 0x5F8C], [0x663C], [0x30E9, 0x30F3, 0x30C1]]),
     (''evening'', [[0x3053, 0x3093, 0x3070, 0x3093, 0x306F], [0x5915, 0x65B9], [0x591C], [0x304A, 0x75B2, 0x308C, 0x69D8]]),
     (''general'', [[0x4ECA, 0x65E5], [0x660E, 0x65E5], [0x6628, 0x65E5], [0x4ECA, 0x9031], [0x6765, 0x9031]])]"

subsection \<open>Scoring by pattern matches\<close>

text \<open>\<open>(text.match(pattern) || []).length\<close> for a pattern without the \<open>g\<close> flag and
  without capture groups: the match array holds the one matched text, so the value is 1
  when the pattern occurs and 0 otherwise, however often it occurs.\<close>

definition match_length :: "jsstring \<Rightarrow> jsstring \<Rightarrow> nat" where
  "match_length text pattern = (if js_includes text pattern then 1 else 0)"

definition category_scores :: "(string \<times> jsstring list) list \<Rightarrow> jsstring \<Rightarrow> (string \<times> nat) list" where
  "category_scores table text =
     map (\<lambda>(category, patterns). (category, sum_list (map (match_length text) patterns))) table"

text \<open>\<open>Math.max(...Object.values(scores))\<close>. The tables are not empty; for no argument
  at all JavaScript gives \<open>-Infinity\<close>, which this model does not represent.\<close>

definition math_max :: "nat list \<Rightarrow> nat" where
  "math_max values = fold max values 0"

text \<open>\<open>Object.keys(scores).find(key => scores[key] === maxScore)\<close>, after the early
  return of \<open>'unknown'\<close> for a maximum of zero. \<open>find\<close> yields \<open>undefined\<close> when no key
  qualifies; the maximum is always attained, so that branch is dead, and it is kept here
  under the label \<open>undefined\<close>.\<close>

definition highest_scoring :: "(string \<times> nat) list \<Rightarrow> string" where
  "highest_scoring scores =
     (let maxScore = math_max (map snd scores) in
      if maxScore = 0 then ''unknown''
      else (case List.find (\<lambda>(key, score). score = maxScore) scores of
              Some (key, score) \<Rightarrow> key
            | None \<Rightarrow> ''undefined''))"

definition analyzeIntent :: "jsstring \<Rightarrow> string" where
  "analyzeIntent text = highest_scoring (category_scores intentPatterns text)"

definition estimateRelationship :: "jsstring \<Rightarrow> string" where
  "estimateRelationship text = highest_scoring (category_scores relationshipIndicators text)"

text \<open>The two nested loops of \<open>detectUrgency\<close> and \<open>detectTimeContext\<close> return the
  category of the first pattern, in table order, that occurs in the text.\<close>

definition first_matching :: "(string \<times> jsstring list) list \<Rightarrow> jsstring \<Rightarrow> string option" where
  "first_matching table text =
     map_option fst (List.find (\<lambda>(category, patterns). list_ex (js_includes text) patterns) table)"

definition detectUrgency :: "jsstring \<Rightarrow> string" where
  "detectUrgency text =
     (case first_matching urgencyIndicators text of Some level \<Rightarrow> level | None \<Rightarrow> ''normal'')"

definition detectSituation :: "jsstring \<Rightarrow> string" where
  "detectSituation text =
     (if list_ex (js_includes text) businessKeywords then ''business''
      else if list_ex (js_includes text) technicalKeywords then ''technical''
      else if list_ex (js_includes text) casualKeywords then ''casual''
      else ''general'')"

definition formalityScore :: "jsstring \<Rightarrow> int" where
  "formalityScore text =
     int (sum_list (map (\<lambda>p. match_length text p * 2) formalIndicators))
     - int (sum_list (map (\<lambda>p. match_length text p * 3) casualIndicators))"

definition assessFormality :: "jsstring \<Rightarrow> string" where
  "assessFormality text =
     (let score = formalityScore text in
      if score \<ge> 3 then ''very-formal''
      else if score \<ge> 1 then ''formal''
      else if score \<ge> - 2 then ''neutral''
      else if score \<ge> - 5 then ''casual''
      else ''very-casual'')"

text \<open>\<open>detectTimeContext\<close> reads the wall clock when no time pattern occurs:
  \<open>new Date().getHours()\<close> is the parameter \<open>hour\<close>.\<close>

definition detectTimeContext :: "nat \<Rightarrow> jsstring \<Rightarrow> string" where
  "detectTimeContext hour text =
     (case first_matching timePatterns text of
        Some time \<Rightarrow> time
      | None \<Rightarrow> if hour < 12 then ''morning'' else if hour < 18 then ''afternoon'' else ''evening'')"

definition findCasualWords :: "jsstring \<Rightarrow> jsstring list" where
  "findCasualWords text = filter (js_includes text) analyzer_casualWords"

text \<open>The result of \<open>needsImprovement\<close>. The fallback response of the engine builds such an
  object without a severity, hence the option.\<close>

record improvement =
  flagged :: bool
  issues :: "string list"
  severity :: "string option"

text \<open>\<open>/^[...]/.test(text)\<close> for the three-character class of \<open>needsImprovement\<close>.\<close>

definition starts_with_direct :: "jsstring \<Rightarrow> bool" where
  "starts_with_direct text =
     (case text of [] \<Rightarrow> False | c # rest \<Rightarrow> c \<in> set [0x3084, 0x3057, 0x3066])"

definition needsImprovement :: "jsstring \<Rightarrow> improvement" where
  "needsImprovement text =
     (let issues0 = (if length (findCasualWords text) > 0 then [''casual_language''] else []);
          issues1 = issues0 @
            (if \<not> js_includes text [0x304A, 0x75B2, 0x308C] \<and> \<not> js_includes text [0x3088, 0x308D, 0x3057, 0x304F] \<and>
                \<not> js_includes text [0x3042, 0x308A, 0x304C, 0x3068, 0x3046] \<and> \<not> js_includes text [0x3059, 0x307F, 0x307E, 0x305B, 0x3093]
             then [''lacks_politeness_markers''] else []);
          issues2 = issues1 @ (if length text < 10 then [''too_brief''] else []);
          issues3 = issues2 @ (if starts_with_direct text then [''too_direct''] else [])
      in \<lparr> flagged = length issues3 > 0,
           issues = issues3,
           severity = Some (if length issues3 \<ge> 3 then ''high''
                            else if length issues3 \<ge> 1 then ''medium'' else ''low'') \<rparr>)"

text \<open>The context descriptor. The field \<open>needsImprovement.needsImprovement\<close> of the
  source is \<open>flagged (improvementNeeds c)\<close> here.\<close>

record descriptor =
  intent :: string
  urgency :: string
  relationship :: string
  situation :: string
  formalityLevel :: string
  timeContext :: string
  improvementNeeds :: improvement
  casualWords :: "jsstring list"

definition analyzeContext :: "nat \<Rightarrow> jsstring \<Rightarrow> descriptor" where
  "analyzeContext hour text =
     \<lparr> intent = analyzeIntent text,
       urgency = detectUrgency text,
       relationship = estimateRelationship text,
       situation = detectSituation text,
       formalityLevel = assessFormality text,
       timeContext = detectTimeContext hour text,
       improvementNeeds = needsImprovement text,
       casualWords = findCasualWords text \<rparr>"


section \<open>Regular-expression replacement on texts\<close>

text \<open>\<open>text.replace(new RegExp(key, 'g'), rep)\<close> for a key without metacharacters: the text
  is scanned from the left, every occurrence found is replaced and the scan resumes behind
  it, so occurrences never overlap and the replacement text is not scanned again. All keys
  of the source are non-empty; for an empty key (which JavaScript matches between any two
  code units) the function below is not a model.\<close>

fun replace_all :: "'a list \<Rightarrow> 'a list \<Rightarrow> 'a list \<Rightarrow> 'a list" where
  "replace_all key rep [] = []"
| "replace_all key rep (c # cs) =
     (if prefix key (c # cs) then rep @ replace_all key rep (drop (length key - 1) cs)
      else c # replace_all key rep cs)"

text \<open>\<open>text.match(new RegExp(key, 'g')).length\<close>: the number of occurrences that scan
  finds.\<close>

fun count_matches :: "'a list \<Rightarrow> 'a list \<Rightarrow> nat" where
  "count_matches key [] = 0"
| "count_matches key (c # cs) =
     (if prefix key (c # cs) then Suc (count_matches key (drop (length key - 1) cs))
      else count_matches key cs)"

text \<open>The same scan for an alternation \<open>/a|b|c/g\<close> of literals: at each position the
  alternatives are tried in the order written.\<close>

fun replace_alts :: "'a list list \<Rightarrow> 'a list \<Rightarrow> 'a list \<Rightarrow> 'a list" where
  "replace_alts alts rep [] = []"
| "replace_alts alts rep (c # cs) =
     (case List.find (\<lambda>a. prefix a (c # cs)) alts of
        Some a \<Rightarrow> rep @ replace_alts alts rep (drop (length a - 1) cs)
      | None \<Rightarrow> c # replace_alts alts rep cs)"

text \<open>\<open>text.match(/a|b|c/g) || []\<close>: the matched texts in order.\<close>

fun match_alts :: "'a list list \<Rightarrow> 'a list \<Rightarrow> 'a list list" where
  "match_alts alts [] = []"
| "match_alts alts (c # cs) =
     (case List.find (\<lambda>a. prefix a (c # cs)) alts of
        Some a \<Rightarrow> a # match_alts alts (drop (length a - 1) cs)
      | None \<Rightarrow> match_alts alts cs)"

text \<open>\<open>/a|b|c/.test(text)\<close>.\<close>

definition test_alts :: "jsstring list \<Rightarrow> jsstring \<Rightarrow> bool" where
  "test_alts alts text = list_ex (js_includes text) alts"

text \<open>The code units the dot of a regular expression does not match (line terminators),
  and the white space of \<open>\s\<close> and of \<open>trim\<close>.\<close>

definition line_terminator :: "nat \<Rightarrow> bool" where
  "line_terminator c = (c \<in> {0x000A, 0x000D, 0x2028, 0x2029})"

definition js_whitespace :: "nat \<Rightarrow> bool" where
  "js_whitespace c =
     (c \<in> {0x0009, 0x000A, 0x000B, 0x000C, 0x000D, 0x0020, 0x00A0, 0x1680, 0x2028, 0x2029,
            0x202F, 0x205F, 0x3000, 0xFEFF}
      \<or> (0x2000 \<le> c \<and> c \<le> 0x200A))"

definition trim :: "jsstring \<Rightarrow> jsstring" where
  "trim text = rev (dropWhile js_whitespace (rev (dropWhile js_whitespace text)))"

text \<open>\<open>text.replace(/\s+/g, ' ')\<close>: every maximal run of white space becomes one
  space.\<close>

function collapse_whitespace :: "jsstring \<Rightarrow> jsstring" where
  "collapse_whitespace [] = []"
| "collapse_whitespace (c # cs) =
     (if js_whitespace c then 0x0020 # collapse_whitespace (dropWhile js_whitespace cs)
      else c # collapse_whitespace cs)"
  by pat_completeness auto
termination
  by (relation "measure length") (auto simp: le_imp_less_Suc length_dropWhile_le)

text \<open>The greedy group \<open>(.+)\<close> followed by a literal: tried at the start of \<open>text\<close>, the
  group first takes every code unit up to the next line terminator and then gives them
  back one at a time until the literal follows; the result is the length the group ends
  up with, if any.\<close>

definition greedy_dot_plus :: "jsstring \<Rightarrow> jsstring \<Rightarrow> nat option" where
  "greedy_dot_plus suf text =
     List.find (\<lambda>m. prefix suf (drop m text))
       (rev [1 ..< Suc (length (takeWhile (\<lambda>c. \<not> line_terminator c) text))])"

text \<open>A global replace with the pattern \<open>pre(.+)suf\<close>: the text is cut into the code
  units that are copied and the matches, each match being recorded by what its group
  captured.\<close>

datatype piece = Copied nat | Matched jsstring

fun scan_group :: "jsstring \<Rightarrow> jsstring \<Rightarrow> jsstring \<Rightarrow> piece list" where
  "scan_group pre suf [] = []"
| "scan_group pre suf (c # cs) =
     (if prefix pre (c # cs) then
        (case greedy_dot_plus suf (drop (length pre) (c # cs)) of
           Some m \<Rightarrow> Matched (take m (drop (length pre) (c # cs)))
                     # scan_group pre suf (drop (length pre + m + length suf - 1) cs)
         | None \<Rightarrow> Copied c # scan_group pre suf cs)
      else Copied c # scan_group pre suf cs)"

text \<open>Decimal digits of a number spliced into a template string.\<close>

fun decimal :: "nat \<Rightarrow> jsstring" where
  "decimal n = (if n < 10 then [0x0030 + n] else decimal (n div 10) @ [0x0030 + n mod 10])"

section \<open>WordConverter\<close>

subsection \<open>Conversion data\<close>

definition conversion_words :: "(jsstring \<times> jsstring) list" where
  "conversion_words =
    [([0x30A2, 0x30D7, 0x30C7], [0x30A2, 0x30C3, 0x30D7, 0x30C7, 0x30FC, 0x30C8]),
     ([0x30D0, 0x30B0], [0x4E0D, 0x5177, 0x5408]),
     ([0x30EC, 0x30B9], [0x304A, 0x8FD4, 0x4E8B]),
     ([0x30EA, 0x30B9, 0x30B1], [0x30B9, 0x30B1, 0x30B8, 0x30E5, 0x30FC, 0x30EB, 0x5909, 0x66F4]),
     ([0x30B0, 0x30B0, 0x308B], [0x691C, 0x7D22, 0x3059, 0x308B]),
     ([0x30E4, 0x30D0, 0x3044], [0x5927, 0x5909, 0x306A, 0x72B6, 0x6CC1]),
     ([0x30DE, 0x30B8, 0x3067], [0x975E, 0x5E38, 0x306B]),
     ([0x30AA, 0x30C3, 0x30B1, 0x30FC], [0x627F, 0x77E5, 0x3044, 0x305F, 0x3057, 0x307E, 0x3057, 0x305F]),
     ([0x004E, 0x0047], [0x304A, 0x53D7, 0x3051, 0x3067, 0x304D, 0x307E, 0x305B, 0x3093]),
     ([0x30C1, 0x30A7, 0x30C3, 0x30AF], [0x78BA, 0x8A8D]),
     ([0x30D5, 0x30A3, 0x30C3, 0x30AF, 0x30B9], [0x4FEE, 0x6B63]),
     ([0x30C7, 0x30D0, 0x30C3, 0x30B0], [0x4E0D, 0x5177, 0x5408, 0x8ABF, 0x67FB]),
     ([0x30EA, 0x30EA, 0x30FC, 0x30B9], [0x516C, 0x958B]),
     ([0x30C7, 0x30D7, 0x30ED, 0x30A4], [0x914D, 0x7F6E]),
     ([0x30BF, 0x30B9, 0x30AF], [0x4F5C, 0x696D]),
     ([0x30A2, 0x30B5, 0x30A4, 0x30F3], [0x62C5, 0x5F53, 0x6307, 0x5B9A]),
     ([0x30A2, 0x30DD], [0x304A, 0x7D04, 0x675F]),
     ([0x30DF, 0x30FC, 0x30C6, 0x30A3, 0x30F3, 0x30B0], [0x4F1A, 0x8B70]),
     ([0x30D7, 0x30EC, 0x30BC, 0x30F3], [0x767A, 0x8868]),
     ([0x30EC, 0x30D3, 0x30E5, 0x30FC], [0x78BA, 0x8A8D]),
     ([0x30D5, 0x30A3, 0x30FC, 0x30C9, 0x30D0, 0x30C3, 0x30AF], [0x3054, 0x610F, 0x898B]),
     ([0x30C7, 0x30C3, 0x30C9, 0x30E9, 0x30A4, 0x30F3], [0x671F, 0x9650]),
     ([0x30B9, 0x30B1, 0x30B8, 0x30E5, 0x30FC, 0x30EB], [0x4E88, 0x5B9A]),
     ([0x30B9, 0x30C6, 0x30FC, 0x30BF, 0x30B9], [0x72B6, 0x6CC1]),
     ([0x30A4, 0x30B7, 0x30E5, 0x30FC], [0x8AB2, 0x984C]),
     ([0x30EA, 0x30AF, 0x30A8, 0x30B9, 0x30C8], [0x3054, 0x4F9D, 0x983C]),
     ([0x30EC, 0x30B9, 0x30DD, 0x30F3, 0x30B9], [0x304A, 0x8FD4, 0x4E8B]),
     ([0x30B5, 0x30DD, 0x30FC, 0x30C8], [0x652F, 0x63F4]),
     ([0x30D8, 0x30EB, 0x30D7], [0x304A, 0x624B, 0x4F1D, 0x3044])]"

definition conversion_phrases :: "(jsstring \<times> jsstring) list" where
  "conversion_phrases =
    [([0x3084, 0x3063, 0x3066], [0x3084, 0x3063, 0x3066, 0x3044, 0x305F, 0x3060, 0x3051, 0x307E, 0x305B, 0x3093, 0x304B]),
     ([0x3057, 0x3066], [0x3057, 0x3066, 0x3044, 0x305F, 0x3060, 0x3051, 0x307E, 0x305B, 0x3093, 0x304B]),
     ([0x78BA, 0x8A8D, 0x3057, 0x3066], [0x3054, 0x78BA, 0x8A8D, 0x3044, 0x305F, 0x3060, 0x3051, 0x307E, 0x3059, 0x3067, 0x3057, 0x3087, 0x3046, 0x304B]),
     ([0x30C1, 0x30A7, 0x30C3, 0x30AF, 0x3057, 0x3066], [0x304A, 0x78BA, 0x304B, 0x3081, 0x3044, 0x305F, 0x3060, 0x3051, 0x307E, 0x3059, 0x3067, 0x3057, 0x3087, 0x3046, 0x304B]),
     ([0x6559, 0x3048, 0x3066], [0x6559, 0x3048, 0x3066, 0x3044, 0x305F, 0x3060, 0x3051, 0x307E, 0x305B, 0x3093, 0x304B]),
     ([0x9001, 0x3063, 0x3066], [0x304A, 0x9001, 0x308A, 0x3044, 0x305F, 0x3060, 0x3051, 0x307E, 0x305B, 0x3093, 0x304B]),
     ([0x4F5C, 0x3063, 0x3066], [0x4F5C, 0x6210, 0x3057, 0x3066, 0x3044, 0x305F, 0x3060, 0x3051, 0x307E, 0x305B, 0x3093, 0x304B]),
     ([0x4FEE, 0x6B63, 0x3057, 0x3066], [0x4FEE, 0x6B63, 0x3057, 0x3066, 0x3044, 0x305F, 0x3060, 0x3051, 0x307E, 0x305B, 0x3093, 0x304B]),
     ([0x5BFE, 0x5FDC, 0x3057, 0x3066], [0x3054, 0x5BFE, 0x5FDC, 0x3044, 0x305F, 0x3060, 0x3051, 0x307E, 0x305B, 0x3093, 0x304B]),
     ([0x898B, 0x3066], [0x3054, 0x89A7, 0x3044, 0x305F, 0x3060, 0x3051, 0x307E, 0x305B, 0x3093, 0x304B]),
     ([0x8AAD, 0x3093, 0x3067], [0x304A, 0x8AAD, 0x307F, 0x3044, 0x305F, 0x3060, 0x3051, 0x307E, 0x305B, 0x3093, 0x304B]),
     ([0x9023, 0x7D61, 0x3057, 0x3066], [0x3054, 0x9023, 0x7D61, 0x3044, 0x305F, 0x3060, 0x3051, 0x307E, 0x305B, 0x3093, 0x304B]),
     ([0x5831, 0x544A, 0x3057, 0x3066], [0x3054, 0x5831, 0x544A, 0x3044, 0x305F, 0x3060, 0x3051, 0x307E, 0x305B, 0x3093, 0x304B]),
     ([0x624B, 0x4F1D, 0x3063, 0x3066], [0x304A, 0x624B, 0x4F1D, 0x3044, 0x3044, 0x305F, 0x3060, 0x3051, 0x307E, 0x305B, 0x3093, 0x304B]),
     ([0x5F85, 0x3063, 0x3066], [0x304A, 0x5F85, 0x3061, 0x3044, 0x305F, 0x3060, 0x3051, 0x307E, 0x305B, 0x3093, 0x304B]),
     ([0x5909, 0x66F4, 0x3057, 0x3066], [0x5909, 0x66F4, 0x3057, 0x3066, 0x3044, 0x305F, 0x3060, 0x3051, 0x307E, 0x305B, 0x3093, 0x304B]),
     ([0x66F4, 0x65B0, 0x3057, 0x3066], [0x66F4, 0x65B0, 0x3057, 0x3066, 0x3044, 0x305F, 0x3060, 0x3051, 0x307E, 0x305B, 0x3093, 0x304B])]"

definition contextual_business :: "(jsstring \<times> jsstring) list" where
  "contextual_business =
    [([0x3084, 0x3063, 0x3066], [0x304A, 0x5FD9, 0x3057, 0x3044, 0x4E2D, 0x6050, 0x7E2E, 0x3067, 0x3059, 0x304C, 0x3001, 0x5BFE, 0x5FDC, 0x3057, 0x3066, 0x3044, 0x305F, 0x3060, 0x3051, 0x307E, 0x3059, 0x3067, 0x3057, 0x3087, 0x3046, 0x304B]),
     ([0x78BA, 0x8A8D, 0x3057, 0x3066], [0x304A, 0x6642, 0x9593, 0x306E, 0x3042, 0x308B, 0x969B, 0x306B, 0x3001, 0x3054, 0x78BA, 0x8A8D, 0x3044, 0x305F, 0x3060, 0x3051, 0x308B, 0x3068, 0x52A9, 0x304B, 0x308A, 0x307E, 0x3059]),
     ([0x6559, 0x3048, 0x3066], [0x3082, 0x3057, 0x3088, 0x308D, 0x3057, 0x3051, 0x308C, 0x3070, 0x3001, 0x6559, 0x3048, 0x3066, 0x3044, 0x305F, 0x3060, 0x3051, 0x307E, 0x305B, 0x3093, 0x3067, 0x3057, 0x3087, 0x3046, 0x304B])]"

definition contextual_urgent :: "(jsstring \<times> jsstring) list" where
  "contextual_urgent =
    [([0x3084, 0x3063, 0x3066], [0x6025, 0x304E, 0x3067, 0x6050, 0x7E2E, 0x3067, 0x3059, 0x304C, 0x3001, 0x5BFE, 0x5FDC, 0x3057, 0x3066, 0x3044, 0x305F, 0x3060, 0x3051, 0x307E, 0x305B, 0x3093, 0x3067, 0x3057, 0x3087, 0x3046, 0x304B]),
     ([0x78BA, 0x8A8D, 0x3057, 0x3066], [0x81F3, 0x6025, 0x78BA, 0x8A8D, 0x3057, 0x3066, 0x3044, 0x305F, 0x3060, 0x3051, 0x307E, 0x3059, 0x3067, 0x3057, 0x3087, 0x3046, 0x304B]),
     ([0x6559, 0x3048, 0x3066], [0x7DCA, 0x6025, 0x3067, 0x304A, 0x805E, 0x304D, 0x3057, 0x305F, 0x3044, 0x3053, 0x3068, 0x304C, 0x3042, 0x308B, 0x306E, 0x3067, 0x3059, 0x304C])]"

definition contextual_superior :: "(jsstring \<times> jsstring) list" where
  "contextual_superior =
    [([0x3084, 0x3063, 0x3066], [0x304A, 0x5FD9, 0x3057, 0x3044, 0x4E2D, 0x7533, 0x3057, 0x8A33, 0x3054, 0x3056, 0x3044, 0x307E, 0x305B, 0x3093, 0x304C, 0x3001, 0x5BFE, 0x5FDC, 0x3057, 0x3066, 0x3044, 0x305F, 0x3060, 0x3051, 0x307E, 0x3059, 0x3067, 0x3057, 0x3087, 0x3046, 0x304B]),
     ([0x78BA, 0x8A8D, 0x3057, 0x3066], [0x6050, 0x308C, 0x5165, 0x308A, 0x307E, 0x3059, 0x304C, 0x3001, 0x3054, 0x78BA, 0x8A8D, 0x3044, 0x305F, 0x3060, 0x3051, 0x307E, 0x3059, 0x3067, 0x3057, 0x3087, 0x3046, 0x304B]),
     ([0x6559, 0x3048, 0x3066], [0x4E0D, 0x8EBE, 0x306A, 0x8CEA, 0x554F, 0x3067, 0x7533, 0x3057, 0x8A33, 0x3054, 0x3056, 0x3044, 0x307E, 0x305B, 0x3093, 0x304C, 0x3001, 0x6559, 0x3048, 0x3066, 0x3044, 0x305F, 0x3060, 0x3051, 0x307E, 0x305B, 0x3093, 0x3067, 0x3057, 0x3087, 0x3046, 0x304B])]"

subsection \<open>The conversion log\<close>

text \<open>One entry of the \<open>conversions\<close> array. Entries of the word and phrase passes carry a
  count, entries of the pattern pass do not; only phrase entries carry a context.\<close>

record log_entry =
  entry_type :: string
  entry_original :: jsstring
  entry_converted :: jsstring
  entry_count :: "nat option"
  entry_reason :: jsstring
  entry_context :: "jsstring option"

subsection \<open>First pass: words\<close>

text \<open>The loop of \<open>convertWords\<close> over \<open>Object.entries\<close> of the dictionary, with the text
  and the log threaded through. \<open>regex.test(result)\<close> leaves \<open>lastIndex\<close> behind the
  first match, but \<open>match\<close> and \<open>replace\<close> with a global expression both start over from
  zero, so the count and the replacement see the whole text.\<close>

fun convertWords_loop ::
  "(jsstring \<times> jsstring) list \<Rightarrow> jsstring \<Rightarrow> log_entry list \<Rightarrow> jsstring \<times> log_entry list" where
  "convertWords_loop [] result conversions = (result, conversions)"
| "convertWords_loop ((casual, polite) # entries) result conversions =
     (if js_includes result casual
      then convertWords_loop entries (replace_all casual polite result)
             (conversions @
                [\<lparr> entry_type = ''word'', entry_original = casual, entry_converted = polite,
                   entry_count = Some (count_matches casual result),
                   entry_reason = [0x30AB, 0x30B8, 0x30E5, 0x30A2, 0x30EB, 0x306A, 0x8868, 0x73FE, 0x3092, 0x4E01, 0x5BE7, 0x306A, 0x8A00, 0x8449, 0x306B, 0x5909, 0x63DB],
                   entry_context = None \<rparr>])
      else convertWords_loop entries result conversions)"

definition convertWords :: "jsstring \<Rightarrow> log_entry list \<Rightarrow> jsstring \<times> log_entry list" where
  "convertWords text conversions = convertWords_loop conversion_words text conversions"

subsection \<open>Second pass: phrases\<close>

text \<open>The object spread \<open>{ ...a, ...b }\<close>: the keys of \<open>a\<close> keep their place and take the
  value \<open>b\<close> gives them, if any; the keys only \<open>b\<close> has follow in the order of \<open>b\<close>.\<close>

definition object_spread :: "('k \<times> 'v) list \<Rightarrow> ('k \<times> 'v) list \<Rightarrow> ('k \<times> 'v) list" where
  "object_spread a b =
     map (\<lambda>(k, v). (k, case map_of b k of Some v' \<Rightarrow> v' | None \<Rightarrow> v)) a
     @ filter (\<lambda>(k, v). map_of a k = None) b"

text \<open>The phrase set \<open>convertPhrases\<close> chooses. The context may be missing
  (\<open>context && ...\<close>); the three contextual tables always exist.\<close>

definition phraseSet :: "descriptor option \<Rightarrow> (jsstring \<times> jsstring) list" where
  "phraseSet context =
     (let set0 = conversion_phrases;
          set1 = (if (case context of Some c \<Rightarrow> situation c = ''business'' | None \<Rightarrow> False)
                  then object_spread set0 contextual_business else set0);
          set2 = (if (case context of Some c \<Rightarrow> urgency c = ''urgent'' | None \<Rightarrow> False)
                  then object_spread set1 contextual_urgent else set1);
          set3 = (if (case context of Some c \<Rightarrow> relationship c = ''superior'' | None \<Rightarrow> False)
                  then object_spread set2 contextual_superior else set2)
      in set3)"

definition phrase_context_note :: "descriptor option \<Rightarrow> jsstring" where
  "phrase_context_note context =
     (case context of
        Some c \<Rightarrow> ascii (situation c) @ [0x0020, 0x002F, 0x0020] @ ascii (urgency c) @ [0x0020, 0x002F, 0x0020] @ ascii (relationship c)
      | None \<Rightarrow> [])"

fun convertPhrases_loop ::
  "descriptor option \<Rightarrow> (jsstring \<times> jsstring) list \<Rightarrow> jsstring \<Rightarrow> log_entry list
     \<Rightarrow> jsstring \<times> log_entry list" where
  "convertPhrases_loop context [] result conversions = (result, conversions)"
| "convertPhrases_loop context ((casual, polite) # entries) result conversions =
     (if js_includes result casual
      then convertPhrases_loop context entries (replace_all casual polite result)
             (conversions @
                [\<lparr> entry_type = ''phrase'', entry_original = casual, entry_converted = polite,
                   entry_count = Some (count_matches casual result),
                   entry_reason = [0x76F4, 0x63A5, 0x7684, 0x306A, 0x8868, 0x73FE, 0x3092, 0x4E01, 0x5BE7, 0x306A, 0x4F9D, 0x983C, 0x5F62, 0x306B, 0x5909, 0x63DB],
                   entry_context = Some (phrase_context_note context) \<rparr>])
      else convertPhrases_loop context entries result conversions)"

definition convertPhrases ::
  "jsstring \<Rightarrow> descriptor option \<Rightarrow> log_entry list \<Rightarrow> jsstring \<times> log_entry list" where
  "convertPhrases text context conversions =
     convertPhrases_loop context (phraseSet context) text conversions"

subsection \<open>Third pass: special patterns\<close>

text \<open>One global replace of \<open>handleSpecialPatterns\<close> with a pattern \<open>pre(.+)suf\<close>: each
  match is replaced by \<open>pre' + group + suf'\<close> and logged with the given reason.\<close>

definition render_piece :: "jsstring \<Rightarrow> jsstring \<Rightarrow> piece \<Rightarrow> jsstring" where
  "render_piece pre' suf' p =
     (case p of Copied c \<Rightarrow> [c] | Matched content \<Rightarrow> pre' @ content @ suf')"

definition pattern_entries ::
  "jsstring \<Rightarrow> jsstring \<Rightarrow> jsstring \<Rightarrow> jsstring \<Rightarrow> jsstring \<Rightarrow> piece list \<Rightarrow> log_entry list" where
  "pattern_entries pre suf pre' suf' why pieces =
     concat (map (\<lambda>p. case p of
                         Copied c \<Rightarrow> []
                       | Matched content \<Rightarrow>
                           [\<lparr> entry_type = ''pattern'', entry_original = pre @ content @ suf,
                              entry_converted = pre' @ content @ suf', entry_count = None,
                              entry_reason = why, entry_context = None \<rparr>]) pieces)"

definition rewrite_pattern ::
  "jsstring \<Rightarrow> jsstring \<Rightarrow> jsstring \<Rightarrow> jsstring \<Rightarrow> jsstring
     \<Rightarrow> jsstring \<times> log_entry list \<Rightarrow> jsstring \<times> log_entry list" where
  "rewrite_pattern pre suf pre' suf' why state =
     (let pieces = scan_group pre suf (fst state)
      in (concat (map (render_piece pre' suf') pieces),
          snd state @ pattern_entries pre suf pre' suf' why pieces))"

text \<open>The character class of pattern 6: hiragana, katakana and the long-vowel mark.\<close>

definition kana :: "nat \<Rightarrow> bool" where
  "kana c = ((0x3041 \<le> c \<and> c \<le> 0x3093) \<or> (0x30A1 \<le> c \<and> c \<le> 0x30F6) \<or> c = 0x30FC)"

text \<open>Pattern 6, \<open>/^([kana]+)$/g\<close>: without the \<open>m\<close> flag the anchors are the two ends
  of the text, so the only possible match is the whole text.\<close>

definition simple_command :: "jsstring \<times> log_entry list \<Rightarrow> jsstring \<times> log_entry list" where
  "simple_command state =
     (let result = fst state in
      if result \<noteq> [] \<and> list_all kana result then
        (if js_endsWith result [0x3057, 0x3066] \<or> js_endsWith result [0x3084, 0x3063, 0x3066] then state
         else (result @ [0x3092, 0x304A, 0x9858, 0x3044, 0x3057, 0x307E, 0x3059],
               snd state @
                 [\<lparr> entry_type = ''pattern'', entry_original = result,
                    entry_converted = result @ [0x3092, 0x304A, 0x9858, 0x3044, 0x3057, 0x307E, 0x3059], entry_count = None,
                    entry_reason = [0x7C21, 0x6F54, 0x3059, 0x304E, 0x308B, 0x8868, 0x73FE, 0x306B, 0x4E01, 0x5BE7, 0x306A, 0x4F9D, 0x983C, 0x5F62, 0x3092, 0x8FFD, 0x52A0],
                    entry_context = None \<rparr>]))
      else state)"

definition handleSpecialPatterns ::
  "jsstring \<Rightarrow> descriptor option \<Rightarrow> log_entry list \<Rightarrow> jsstring \<times> log_entry list" where
  "handleSpecialPatterns text context conversions =
     (let s1 = rewrite_pattern [] [0x3060, 0x3063, 0x3051, 0xFF1F] [] [0x3067, 0x3057, 0x305F, 0x3067, 0x3057, 0x3087, 0x3046, 0x304B, 0xFF1F]
                 [0x30AB, 0x30B8, 0x30E5, 0x30A2, 0x30EB, 0x306A, 0x7591, 0x554F, 0x6587, 0x3092, 0x4E01, 0x5BE7, 0x306A, 0x8868, 0x73FE, 0x306B, 0x5909, 0x63DB] (text, conversions);
          s2 = rewrite_pattern [] [0x3058, 0x3083, 0x3093] [] [0x3067, 0x3059, 0x306D]
                 [0x30AB, 0x30B8, 0x30E5, 0x30A2, 0x30EB, 0x306A, 0x6587, 0x672B, 0x3092, 0x4E01, 0x5BE7, 0x8A9E, 0x306B, 0x5909, 0x63DB] s1;
          s3 = rewrite_pattern [] [0x3060, 0x3088, 0x306D] [] [0x3067, 0x3059, 0x3088, 0x306D]
                 [0x30AB, 0x30B8, 0x30E5, 0x30A2, 0x30EB, 0x306A, 0x540C, 0x610F, 0x8868, 0x73FE, 0x3092, 0x4E01, 0x5BE7, 0x8A9E, 0x306B, 0x5909, 0x63DB] s2;
          s4 = rewrite_pattern [] [0x3063, 0x3066, 0x8A00, 0x3063, 0x3066] [] [0x3068, 0x304A, 0x4F1D, 0x3048, 0x304F, 0x3060, 0x3055, 0x3044]
                 [0x30AB, 0x30B8, 0x30E5, 0x30A2, 0x30EB, 0x306A, 0x4F1D, 0x8A00, 0x8868, 0x73FE, 0x3092, 0x4E01, 0x5BE7, 0x8A9E, 0x306B, 0x5909, 0x63DB] s3;
          s5 = rewrite_pattern [0x306A, 0x3093, 0x3067] [0xFF1F] [0x306A, 0x305C] [0x306E, 0x3067, 0x3057, 0x3087, 0x3046, 0x304B, 0xFF1F]
                 [0x30AB, 0x30B8, 0x30E5, 0x30A2, 0x30EB, 0x306A, 0x8CEA, 0x554F, 0x3092, 0x4E01, 0x5BE7, 0x306A, 0x7591, 0x554F, 0x6587, 0x306B, 0x5909, 0x63DB] s4
      in simple_command s5)"

subsection \<open>The three passes\<close>

record word_conversion =
  wc_text :: jsstring
  wc_conversions :: "log_entry list"
  originalLength :: nat
  convertedLength :: nat

definition wordConverter_convertText :: "jsstring \<Rightarrow> descriptor option \<Rightarrow> word_conversion" where
  "wordConverter_convertText text context =
     (let (t1, log1) = convertWords text [];
          (t2, log2) = convertPhrases t1 context log1;
          (t3, log3) = handleSpecialPatterns t2 context log2
      in \<lparr> wc_text = t3, wc_conversions = log3,
           originalLength = length text, convertedLength = length t3 \<rparr>)"

subsection \<open>Suggestions of the word converter\<close>

definition remaining_casual_patterns :: "jsstring list" where
  "remaining_casual_patterns =
    [[0x3084, 0x3063, 0x3071, 0x308A], [0x3084, 0x3063, 0x3071], [0x3066, 0x304B], [0x3068, 0x3044, 0x3046, 0x304B], [0x3064, 0x30FC, 0x304B], [0x307E, 0x3058], [0x3084, 0x3070, 0x3044],
     [0x3059, 0x3052, 0x30FC], [0x3067, 0x304B, 0x3044], [0x3061, 0x3063, 0x3061, 0x3083, 0x3044], [0x3046, 0x3056, 0x3044], [0x3080, 0x304B, 0x3064, 0x304F], [0x3060, 0x308A, 0x30FC]]"

text \<open>\<open>findCasualWords\<close> of the word converter: the dictionary keys the text contains,
  then the other casual patterns it contains, without duplicates (\<open>[...new Set(xs)]\<close>
  keeps the first occurrence of each).\<close>

definition wordConverter_findCasualWords :: "jsstring \<Rightarrow> jsstring list" where
  "wordConverter_findCasualWords text =
     rev (remdups (rev (filter (js_includes text) (map fst conversion_words)
                        @ filter (js_includes text) remaining_casual_patterns)))"

definition politenessMarkers :: "jsstring list" where
  "politenessMarkers =
    [[0x304A, 0x75B2, 0x308C], [0x3088, 0x308D, 0x3057, 0x304F], [0x3042, 0x308A, 0x304C, 0x3068, 0x3046], [0x3059, 0x307F, 0x307E, 0x305B, 0x3093], [0x6050, 0x7E2E], [0x5931, 0x793C],
     [0x304A, 0x5FD9, 0x3057, 0x3044], [0x6050, 0x308C, 0x5165, 0x308A], [0x7533, 0x3057, 0x8A33], [0x3044, 0x3064, 0x3082, 0x304A, 0x4E16, 0x8A71]]"

text \<open>\<open>isAbrupt\<close>. The direct-command patterns are anchored at the start of the text.\<close>

definition isAbrupt :: "jsstring \<Rightarrow> bool" where
  "isAbrupt text =
     (let hasMarkers = list_ex (js_includes text) politenessMarkers;
          hasDirectCommands =
            (starts_with_direct text
             \<or> list_ex (\<lambda>p. prefix p text) [[0x78BA, 0x8A8D], [0x9001], [0x4F5C], [0x4FEE, 0x6B63], [0x5BFE, 0x5FDC]])
      in \<not> hasMarkers \<and> (hasDirectCommands \<or> length text < 15))"

text \<open>A suggestion object; the optional properties (\<open>words\<close>, \<open>examples\<close>, \<open>action\<close>) are
  empty when absent.\<close>

record suggestion =
  suggestion_type :: string
  message :: jsstring
  suggestion_words :: "jsstring list"
  examples :: "jsstring list"
  action :: "string option"

text \<open>\<open>Array.prototype.join\<close>.\<close>

fun join :: "jsstring \<Rightarrow> jsstring list \<Rightarrow> jsstring" where
  "join sep [] = []"
| "join sep [x] = x"
| "join sep (x # y # rest) = x @ sep @ join sep (y # rest)"

definition wordConverter_getSuggestions :: "jsstring \<Rightarrow> descriptor option \<Rightarrow> suggestion list" where
  "wordConverter_getSuggestions text context =
     (let found = wordConverter_findCasualWords text;
          s1 = (if length found > 0
                then [\<lparr> suggestion_type = ''improvement'',
                         message = [0x4EE5, 0x4E0B, 0x306E, 0x30AB, 0x30B8, 0x30E5, 0x30A2, 0x30EB, 0x306A, 0x8868, 0x73FE, 0x304C, 0x6B8B, 0x3063, 0x3066, 0x3044, 0x307E, 0x3059, 0x003A, 0x0020] @ join [0x002C, 0x0020] found,
                         suggestion_words = found, examples = [], action = None \<rparr>]
                else []);
          s2 = (if isAbrupt text
                then [\<lparr> suggestion_type = ''tone'',
                         message = [0x6587, 0x7AE0, 0x304C, 0x3084, 0x3084, 0x76F4, 0x63A5, 0x7684, 0x3067, 0x3059, 0x3002, 0x30AF, 0x30C3, 0x30B7, 0x30E7, 0x30F3, 0x8A00, 0x8449, 0x3092, 0x8FFD, 0x52A0, 0x3059, 0x308B, 0x3053, 0x3068, 0x3092, 0x304A, 0x52E7, 0x3081, 0x3057, 0x307E, 0x3059, 0x3002],
                         suggestion_words = [],
                         examples = [[0x304A, 0x5FD9, 0x3057, 0x3044, 0x4E2D, 0x6050, 0x7E2E, 0x3067, 0x3059, 0x304C], [0x3082, 0x3057, 0x3088, 0x308D, 0x3057, 0x3051, 0x308C, 0x3070], [0x304A, 0x6642, 0x9593, 0x306E, 0x3042, 0x308B, 0x6642, 0x306B]],
                         action = None \<rparr>]
                else []);
          s3 = (case context of
                  None \<Rightarrow> []
                | Some c \<Rightarrow>
                    (if urgency c = ''urgent'' \<and> \<not> js_includes text [0x6025] \<and> \<not> js_includes text [0x81F3, 0x6025]
                     then [\<lparr> suggestion_type = ''urgency'',
                              message = [0x7DCA, 0x6025, 0x6027, 0x3092, 0x793A, 0x3059, 0x8868, 0x73FE, 0x3092, 0x8FFD, 0x52A0, 0x3059, 0x308B, 0x3053, 0x3068, 0x3092, 0x304A, 0x52E7, 0x3081, 0x3057, 0x307E, 0x3059, 0x3002],
                              suggestion_words = [],
                              examples = [[0x6025, 0x304E, 0x3067, 0x6050, 0x7E2E, 0x3067, 0x3059, 0x304C], [0x81F3, 0x6025, 0x304A, 0x9858, 0x3044, 0x3057, 0x305F, 0x3044, 0x306E, 0x3067, 0x3059, 0x304C]],
                              action = None \<rparr>]
                     else [])
                    @ (if relationship c = ''superior'' \<and> \<not> js_includes text [0x6050, 0x308C, 0x5165, 0x308A]
                          \<and> \<not> js_includes text [0x7533, 0x3057, 0x8A33]
                       then [\<lparr> suggestion_type = ''relationship'',
                                message = [0x4E0A, 0x53F8, 0x3078, 0x306E, 0x656C, 0x610F, 0x3092, 0x793A, 0x3059, 0x8868, 0x73FE, 0x3092, 0x8FFD, 0x52A0, 0x3059, 0x308B, 0x3053, 0x3068, 0x3092, 0x304A, 0x52E7, 0x3081, 0x3057, 0x307E, 0x3059, 0x3002],
                                suggestion_words = [],
                                examples = [[0x6050, 0x308C, 0x5165, 0x308A, 0x307E, 0x3059, 0x304C], [0x7533, 0x3057, 0x8A33, 0x3054, 0x3056, 0x3044, 0x307E, 0x305B, 0x3093, 0x304C],
                                            [0x304A, 0x5FD9, 0x3057, 0x3044, 0x4E2D, 0x7533, 0x3057, 0x8A33, 0x3054, 0x3056, 0x3044, 0x307E, 0x305B, 0x3093, 0x304C]],
                                action = None \<rparr>]
                       else []))
      in s1 @ s2 @ s3)"


section \<open>JavaScript numbers\<close>

text \<open>A JavaScript number is an IEEE-754 binary64 value: a finite double, one of the two
  infinities, or \<open>NaN\<close>. A finite double is modelled by the real number it denotes; the two
  zeros are one number here, as they are for \<open>===\<close>, for the comparisons and for every
  sum, product and quotient below whose divisor is not zero.\<close>

datatype js_number = Finite real | PlusInfinity | MinusInfinity | NotANumber

text \<open>The binary exponent of a non-zero real: \<open>e\<close> with \<open>2^e \<le> |x| < 2^(e+1)\<close>, found by
  halving or doubling. It is not searched below -1022, the exponent of the subnormal
  numbers, nor above 1024, where every number overflows.\<close>

fun exponent_up :: "nat \<Rightarrow> real \<Rightarrow> int" where
  "exponent_up 0 x = 0"
| "exponent_up (Suc k) x = (if x < 2 then 0 else exponent_up k (x / 2) + 1)"

fun exponent_down :: "nat \<Rightarrow> real \<Rightarrow> int" where
  "exponent_down 0 x = 0"
| "exponent_down (Suc k) x = (if 1 \<le> x then 0 else exponent_down k (x * 2) - 1)"

definition exponent :: "real \<Rightarrow> int" where
  "exponent x =
     (if 1 \<le> \<bar>x\<bar> then exponent_up 1024 \<bar>x\<bar> else exponent_down 1022 \<bar>x\<bar>)"

definition pow2 :: "int \<Rightarrow> real" where
  "pow2 e = (if 0 \<le> e then 2 ^ nat e else 1 / 2 ^ nat (- e))"

text \<open>Rounding to the nearest integer, a tie going to the even one.\<close>

definition round_half_even :: "real \<Rightarrow> int" where
  "round_half_even y =
     (let f = \<lfloor>y\<rfloor>
      in if y - of_int f < 1 / 2 then f
         else if 1 / 2 < y - of_int f then f + 1
         else if even f then f else f + 1)"

text \<open>The double nearest to a real number (round to nearest, ties to even): the number is
  rounded to a multiple of the spacing of the doubles around it, which is \<open>2^(e-52)\<close>, and
  a result of magnitude \<open>2^1024\<close> or more is an infinity. This is the value of a decimal
  literal of the source, and the result of an arithmetic operation on finite doubles is
  the rounded exact result.\<close>

definition binary64 :: "real \<Rightarrow> js_number" where
  "binary64 x =
     (let ulp = pow2 (exponent x - 52);
          r = of_int (round_half_even (x / ulp)) * ulp
      in if 2 ^ 1024 \<le> r then PlusInfinity
         else if r \<le> - (2 ^ 1024) then MinusInfinity
         else Finite r)"

text \<open>The infinity with the sign of a number, \<open>NaN\<close> for zero.\<close>

definition signed_infinity :: "real \<Rightarrow> js_number" where
  "signed_infinity x =
     (if 0 < x then PlusInfinity else if x < 0 then MinusInfinity else NotANumber)"

text \<open>The operators \<open>+\<close>, \<open>*\<close> and \<open>/\<close> on numbers. A zero divisor is taken to be the
  positive zero.\<close>

fun js_add :: "js_number \<Rightarrow> js_number \<Rightarrow> js_number" where
  "js_add (Finite a) (Finite b) = binary64 (a + b)"
| "js_add NotANumber b = NotANumber"
| "js_add a NotANumber = NotANumber"
| "js_add PlusInfinity MinusInfinity = NotANumber"
| "js_add MinusInfinity PlusInfinity = NotANumber"
| "js_add PlusInfinity b = PlusInfinity"
| "js_add a PlusInfinity = PlusInfinity"
| "js_add MinusInfinity b = MinusInfinity"
| "js_add a MinusInfinity = MinusInfinity"

fun js_mul :: "js_number \<Rightarrow> js_number \<Rightarrow> js_number" where
  "js_mul (Finite a) (Finite b) = binary64 (a * b)"
| "js_mul NotANumber b = NotANumber"
| "js_mul a NotANumber = NotANumber"
| "js_mul (Finite a) PlusInfinity = signed_infinity a"
| "js_mul (Finite a) MinusInfinity = signed_infinity (- a)"
| "js_mul PlusInfinity (Finite b) = signed_infinity b"
| "js_mul MinusInfinity (Finite b) = signed_infinity (- b)"
| "js_mul PlusInfinity PlusInfinity = PlusInfinity"
| "js_mul MinusInfinity MinusInfinity = PlusInfinity"
| "js_mul PlusInfinity MinusInfinity = MinusInfinity"
| "js_mul MinusInfinity PlusInfinity = MinusInfinity"

fun js_div :: "js_number \<Rightarrow> js_number \<Rightarrow> js_number" where
  "js_div (Finite a) (Finite b) = (if b = 0 then signed_infinity a else binary64 (a / b))"
| "js_div NotANumber b = NotANumber"
| "js_div a NotANumber = NotANumber"
| "js_div (Finite a) PlusInfinity = Finite 0"
| "js_div (Finite a) MinusInfinity = Finite 0"
| "js_div PlusInfinity (Finite b) = (if 0 \<le> b then PlusInfinity else MinusInfinity)"
| "js_div MinusInfinity (Finite b) = (if 0 \<le> b then MinusInfinity else PlusInfinity)"
| "js_div PlusInfinity PlusInfinity = NotANumber"
| "js_div PlusInfinity MinusInfinity = NotANumber"
| "js_div MinusInfinity PlusInfinity = NotANumber"
| "js_div MinusInfinity MinusInfinity = NotANumber"

text \<open>The comparisons \<open><\<close>, \<open>>\<close> and \<open>>=\<close>; each is false when an operand is \<open>NaN\<close>.\<close>

fun js_less :: "js_number \<Rightarrow> js_number \<Rightarrow> bool" where
  "js_less (Finite a) (Finite b) = (a < b)"
| "js_less NotANumber b = False"
| "js_less a NotANumber = False"
| "js_less a MinusInfinity = False"
| "js_less MinusInfinity b = True"
| "js_less PlusInfinity b = False"
| "js_less a PlusInfinity = True"

definition js_gt :: "js_number \<Rightarrow> js_number \<Rightarrow> bool" where
  "js_gt a b = js_less b a"

definition js_ge :: "js_number \<Rightarrow> js_number \<Rightarrow> bool" where
  "js_ge a b = (a \<noteq> NotANumber \<and> b \<noteq> NotANumber \<and> \<not> js_less a b)"

text \<open>A number is truthy unless it is zero or \<open>NaN\<close>.\<close>

definition truthy :: "js_number \<Rightarrow> bool" where
  "truthy a = (a \<noteq> Finite 0 \<and> a \<noteq> NotANumber)"

text \<open>The property names every plain object inherits from \<open>Object.prototype\<close>. Each of them
  names a function, except \<open>__proto__\<close>, which names the prototype object itself.\<close>

definition object_prototype_keys :: "string list" where
  "object_prototype_keys =
     [''constructor'', ''__defineGetter__'', ''__defineSetter__'', ''hasOwnProperty'',
      ''__lookupGetter__'', ''__lookupSetter__'', ''isPrototypeOf'', ''propertyIsEnumerable'',
      ''toString'', ''valueOf'', ''__proto__'', ''toLocaleString'']"

section \<open>QualityAssessment\<close>

text \<open>\<open>this.weights\<close>, a plain object with four own properties.\<close>

definition quality_weights :: "(string \<times> js_number) list" where
  "quality_weights =
    [(''naturalness'', binary64 0.3),
     (''intentPreservation'', binary64 0.3),
     (''appropriateness'', binary64 0.25),
     (''completeness'', binary64 0.15)]"

text \<open>\<open>this.weights[metric] || 0.25\<close>. An own weight is used unless it is falsy; a metric
  that is no property at all gets 0.25; a metric named like a member of \<open>Object.prototype\<close>
  finds that member, a function or an object, which is truthy and is no number: the
  result is then \<open>None\<close>.\<close>

definition weight_of :: "string \<Rightarrow> js_number option" where
  "weight_of metric =
     (case map_of quality_weights metric of
        Some w \<Rightarrow> Some (if truthy w then w else binary64 0.25)
      | None \<Rightarrow> if metric \<in> set object_prototype_keys then None else Some (binary64 0.25))"

text \<open>The loop of \<open>calculateOverallScore\<close> over \<open>Object.entries(scores)\<close>, carrying
  \<open>weightedSum\<close> and \<open>totalWeight\<close>. With a weight that is no number the product
  \<open>score * weight\<close> is \<open>NaN\<close>, and \<open>totalWeight += weight\<close> concatenates strings: from then
  on \<open>totalWeight\<close> is a string (\<open>None\<close> here) that contains the source text of a
  function, or \<open>[object Object]\<close>, and so does not read as a number.\<close>

fun weighted_totals ::
  "(string \<times> js_number) list \<Rightarrow> js_number \<times> js_number option
     \<Rightarrow> js_number \<times> js_number option" where
  "weighted_totals [] acc = acc"
| "weighted_totals ((metric, score) # entries) (weightedSum, totalWeight) =
     weighted_totals entries
       (case weight_of metric of
          Some weight \<Rightarrow>
            (js_add weightedSum (js_mul score weight),
             map_option (\<lambda>w. js_add w weight) totalWeight)
        | None \<Rightarrow> (NotANumber, None))"

text \<open>\<open>totalWeight > 0 ? weightedSum / totalWeight : 0.5\<close>; a string that does not read as
  a number is not greater than 0.\<close>

definition calculateOverallScore :: "(string \<times> js_number) list \<Rightarrow> js_number" where
  "calculateOverallScore scores =
     (let (weightedSum, totalWeight) = weighted_totals scores (Finite 0, Some (Finite 0))
      in case totalWeight of
           Some w \<Rightarrow> if js_gt w (Finite 0) then js_div weightedSum w else binary64 0.5
         | None \<Rightarrow> binary64 0.5)"

text \<open>The \<open>scores\<close> object \<open>assessConversion\<close> fills, one entry per evaluator in the order
  of \<open>this.metrics\<close>.\<close>

definition axis_scores ::
  "js_number \<Rightarrow> js_number \<Rightarrow> js_number \<Rightarrow> js_number \<Rightarrow> (string \<times> js_number) list" where
  "axis_scores naturalness intentPreservation appropriateness completeness =
    [(''naturalness'', naturalness),
     (''intentPreservation'', intentPreservation),
     (''appropriateness'', appropriateness),
     (''completeness'', completeness)]"

definition getQualityGrade :: "js_number \<Rightarrow> string" where
  "getQualityGrade score =
     (if js_ge score (binary64 0.9) then ''A+''
      else if js_ge score (binary64 0.8) then ''A''
      else if js_ge score (binary64 0.7) then ''B+''
      else if js_ge score (binary64 0.6) then ''B''
      else if js_ge score (binary64 0.5) then ''C+''
      else if js_ge score (binary64 0.4) then ''C''
      else if js_ge score (binary64 0.3) then ''D''
      else ''F'')"


section \<open>SentenceGenerator\<close>

subsection \<open>The random source\<close>

text \<open>\<open>Math.random()\<close> is an oracle: a stream of numbers, consumed one per call. Whatever
  the stream holds, the value handed out is its fractional part, so that it lies in
  \<open>[0, 1)\<close> as the language guarantees.\<close>

type_synonym rng = "nat \<Rightarrow> real"

definition Math_random :: "rng \<Rightarrow> real \<times> rng" where
  "Math_random g = (frac (g 0), (\<lambda>n. g (Suc n)))"

text \<open>\<open>array[Math.floor(Math.random() * array.length)]\<close>. Every array the source passes
  is a non-empty constant, so the index is in range.\<close>

definition getRandomElement :: "'a list \<Rightarrow> rng \<Rightarrow> 'a \<times> rng" where
  "getRandomElement array g =
     (let (r, g') = Math_random g
      in (array ! nat \<lfloor>r * real (length array)\<rfloor>, g'))"

subsection \<open>Expression data\<close>

definition greetings :: "(string \<times> jsstring list) list" where
  "greetings =
    [(''morning'', [[0x304A, 0x306F, 0x3088, 0x3046, 0x3054, 0x3056, 0x3044, 0x307E, 0x3059], [0x304A, 0x75B2, 0x308C, 0x69D8, 0x3067, 0x3059], [0x671D, 0x304B, 0x3089, 0x304A, 0x5FD9, 0x3057, 0x3044, 0x4E2D]]),
     (''afternoon'', [[0x304A, 0x75B2, 0x308C, 0x69D8, 0x3067, 0x3059], [0x3044, 0x3064, 0x3082, 0x304A, 0x4E16, 0x8A71, 0x306B, 0x306A, 0x3063, 0x3066, 0x304A, 0x308A, 0x307E, 0x3059], [0x5348, 0x5F8C, 0x3082, 0x304A, 0x5FD9, 0x3057, 0x3044, 0x4E2D]]),
     (''evening'', [[0x304A, 0x75B2, 0x308C, 0x69D8, 0x3067, 0x3057, 0x305F], [0x9045, 0x3044, 0x6642, 0x9593, 0x306B, 0x6050, 0x7E2E, 0x3067, 0x3059], [0x672C, 0x65E5, 0x3082, 0x304A, 0x75B2, 0x308C, 0x69D8, 0x3067, 0x3059]]),
     (''general'', [[0x3044, 0x3064, 0x3082, 0x304A, 0x4E16, 0x8A71, 0x306B, 0x306A, 0x3063, 0x3066, 0x304A, 0x308A, 0x307E, 0x3059], [0x304A, 0x75B2, 0x308C, 0x69D8, 0x3067, 0x3059], [0x6050, 0x308C, 0x5165, 0x308A, 0x307E, 0x3059]])]"

definition greetings_general :: "jsstring list" where
  "greetings_general = [[0x3044, 0x3064, 0x3082, 0x304A, 0x4E16, 0x8A71, 0x306B, 0x306A, 0x3063, 0x3066, 0x304A, 0x308A, 0x307E, 0x3059], [0x304A, 0x75B2, 0x308C, 0x69D8, 0x3067, 0x3059], [0x6050, 0x308C, 0x5165, 0x308A, 0x307E, 0x3059]]"

definition cushions_request :: "jsstring list" where
  "cushions_request =
    [[0x304A, 0x5FD9, 0x3057, 0x3044, 0x4E2D, 0x6050, 0x7E2E, 0x3067, 0x3059, 0x304C], [0x3082, 0x3057, 0x3088, 0x308D, 0x3057, 0x3051, 0x308C, 0x3070], [0x304A, 0x624B, 0x6570, 0x3092, 0x304A, 0x304B, 0x3051, 0x3057, 0x307E, 0x3059, 0x304C],
     [0x3054, 0x90FD, 0x5408, 0x304C, 0x3064, 0x304F, 0x969B, 0x306B], [0x304A, 0x6642, 0x9593, 0x306E, 0x3042, 0x308B, 0x6642, 0x306B], [0x6050, 0x308C, 0x5165, 0x308A, 0x307E, 0x3059, 0x304C]]"

definition cushions_urgent :: "jsstring list" where
  "cushions_urgent =
    [[0x6025, 0x304E, 0x3067, 0x6050, 0x7E2E, 0x3067, 0x3059, 0x304C], [0x7DCA, 0x6025, 0x3067, 0x304A, 0x9858, 0x3044, 0x304C, 0x3042, 0x308A, 0x307E, 0x3059], [0x81F3, 0x6025, 0x3067, 0x7533, 0x3057, 0x8A33, 0x3054, 0x3056, 0x3044, 0x307E, 0x305B, 0x3093, 0x304C],
     [0x5927, 0x5909, 0x6050, 0x7E2E, 0x3067, 0x3059, 0x304C, 0x6025, 0x304E, 0x3067], [0x304A, 0x5FD9, 0x3057, 0x3044, 0x4E2D, 0x7533, 0x3057, 0x8A33, 0x3054, 0x3056, 0x3044, 0x307E, 0x305B, 0x3093, 0x304C, 0x7DCA, 0x6025, 0x3067]]"

definition cushions_superior :: "jsstring list" where
  "cushions_superior =
    [[0x304A, 0x5FD9, 0x3057, 0x3044, 0x4E2D, 0x7533, 0x3057, 0x8A33, 0x3054, 0x3056, 0x3044, 0x307E, 0x305B, 0x3093, 0x304C], [0x6050, 0x308C, 0x5165, 0x308A, 0x307E, 0x3059, 0x304C], [0x4E0D, 0x8EBE, 0x306A, 0x304A, 0x9858, 0x3044, 0x3067, 0x7533, 0x3057, 0x8A33, 0x3054, 0x3056, 0x3044, 0x307E, 0x305B, 0x3093, 0x304C],
     [0x3054, 0x591A, 0x5FD9, 0x4E2D, 0x6050, 0x7E2E, 0x3067, 0x3059, 0x304C], [0x304A, 0x6642, 0x9593, 0x3092, 0x3044, 0x305F, 0x3060, 0x304D, 0x6050, 0x7E2E, 0x3067, 0x3059, 0x304C]]"

definition cushions_casual :: "jsstring list" where
  "cushions_casual =
    [[0x3088, 0x308D, 0x3057, 0x3051, 0x308C, 0x3070], [0x3082, 0x3057, 0x304A, 0x6642, 0x9593, 0x304C, 0x3042, 0x308B, 0x3068, 0x304D, 0x306B], [0x304A, 0x75B2, 0x308C, 0x69D8, 0x3067, 0x3059],
     [0x3044, 0x3064, 0x3082, 0x3042, 0x308A, 0x304C, 0x3068, 0x3046, 0x3054, 0x3056, 0x3044, 0x307E, 0x3059]]"

definition closings_request :: "jsstring list" where
  "closings_request =
    [[0x3088, 0x308D, 0x3057, 0x304F, 0x304A, 0x9858, 0x3044, 0x3044, 0x305F, 0x3057, 0x307E, 0x3059], [0x3054, 0x691C, 0x8A0E, 0x306E, 0x307B, 0x3069, 0x3088, 0x308D, 0x3057, 0x304F, 0x304A, 0x9858, 0x3044, 0x3057, 0x307E, 0x3059],
     [0x304A, 0x5FD9, 0x3057, 0x3044, 0x4E2D, 0x3042, 0x308A, 0x304C, 0x3068, 0x3046, 0x3054, 0x3056, 0x3044, 0x307E, 0x3059], [0x3069, 0x3046, 0x305E, 0x3088, 0x308D, 0x3057, 0x304F, 0x304A, 0x9858, 0x3044, 0x3057, 0x307E, 0x3059]]"

definition closings_question :: "jsstring list" where
  "closings_question =
    [[0x304A, 0x6559, 0x3048, 0x3044, 0x305F, 0x3060, 0x3051, 0x307E, 0x3059, 0x3068, 0x5E78, 0x3044, 0x3067, 0x3059], [0x3054, 0x56DE, 0x7B54, 0x3044, 0x305F, 0x3060, 0x3051, 0x308C, 0x3070, 0x3068, 0x601D, 0x3044, 0x307E, 0x3059],
     [0x304A, 0x805E, 0x304B, 0x305B, 0x3044, 0x305F, 0x3060, 0x3051, 0x307E, 0x305B, 0x3093, 0x3067, 0x3057, 0x3087, 0x3046, 0x304B], [0x3054, 0x610F, 0x898B, 0x3092, 0x304A, 0x805E, 0x304B, 0x305B, 0x304F, 0x3060, 0x3055, 0x3044]]"

definition closings_urgent :: "jsstring list" where
  "closings_urgent =
    [[0x6025, 0x304E, 0x3067, 0x7533, 0x3057, 0x8A33, 0x3054, 0x3056, 0x3044, 0x307E, 0x305B, 0x3093, 0x304C, 0x3001, 0x3088, 0x308D, 0x3057, 0x304F, 0x304A, 0x9858, 0x3044, 0x3057, 0x307E, 0x3059],
     [0x304A, 0x5FD9, 0x3057, 0x3044, 0x4E2D, 0x6050, 0x7E2E, 0x3067, 0x3059, 0x304C, 0x3001, 0x304A, 0x6025, 0x304E, 0x3067, 0x304A, 0x9858, 0x3044, 0x3057, 0x307E, 0x3059],
     [0x81F3, 0x6025, 0x5BFE, 0x5FDC, 0x3057, 0x3066, 0x3044, 0x305F, 0x3060, 0x3051, 0x307E, 0x3059, 0x3068, 0x52A9, 0x304B, 0x308A, 0x307E, 0x3059]]"

definition closings_gratitude :: "jsstring list" where
  "closings_gratitude =
    [[0x3044, 0x3064, 0x3082, 0x3042, 0x308A, 0x304C, 0x3068, 0x3046, 0x3054, 0x3056, 0x3044, 0x307E, 0x3059], [0x304A, 0x5FD9, 0x3057, 0x3044, 0x4E2D, 0x3042, 0x308A, 0x304C, 0x3068, 0x3046, 0x3054, 0x3056, 0x3044, 0x307E, 0x3057, 0x305F],
     [0x3054, 0x5354, 0x529B, 0x3044, 0x305F, 0x3060, 0x304D, 0x3042, 0x308A, 0x304C, 0x3068, 0x3046, 0x3054, 0x3056, 0x3044, 0x307E, 0x3059], [0x5FC3, 0x3088, 0x308A, 0x611F, 0x8B1D, 0x7533, 0x3057, 0x4E0A, 0x3052, 0x307E, 0x3059]]"

definition emojis :: "(string \<times> jsstring list) list" where
  "emojis =
    [(''request'', [[0xD83D, 0xDE4F], [0xD83D, 0xDCA6], [0x2728]]),
     (''question'', [[0x2753], [0xD83E, 0xDD14], [0xD83D, 0xDCAD]]),
     (''urgent'', [[0x26A1], [0xD83D, 0xDD25], [0xD83D, 0xDCA6]]),
     (''grateful'', [[0xD83D, 0xDE0A], [0xD83D, 0xDE4F], [0x2728]]),
     (''general'', [[0xD83D, 0xDE0A], [0x2728], [0xD83C, 0xDF38]])]"

definition emojis_general :: "jsstring list" where
  "emojis_general = [[0xD83D, 0xDE0A], [0x2728], [0xD83C, 0xDF38]]"

definition wordMappings :: "(jsstring \<times> jsstring) list" where
  "wordMappings =
    [([0x30A2, 0x30D7, 0x30C7], [0x30A2, 0x30C3, 0x30D7, 0x30C7, 0x30FC, 0x30C8]),
     ([0x30D0, 0x30B0], [0x4E0D, 0x5177, 0x5408]),
     ([0x30C1, 0x30A7, 0x30C3, 0x30AF], [0x3054, 0x78BA, 0x8A8D]),
     ([0x3084, 0x3063, 0x3066], [0x3054, 0x5BFE, 0x5FDC]),
     ([0x3057, 0x3066], [0x3057, 0x3066, 0x3044, 0x305F, 0x3060, 0x304F]),
     ([0x30DE, 0x30B8, 0x3067], [0x975E, 0x5E38, 0x306B]),
     ([0x30E4, 0x30D0, 0x3044], [0x5927, 0x5909, 0x306A, 0x72B6, 0x6CC1])]"

subsection \<open>Components of the input\<close>

record keyword_groups =
  kw_business :: "jsstring list"
  kw_technical :: "jsstring list"
  kw_time :: "jsstring list"
  kw_all :: "jsstring list"

record components =
  mainContent :: jsstring
  requestType :: string
  keyWords :: keyword_groups
  emotionalTone :: string
  hasQuestion :: bool
  hasRequest :: bool
  inputLength :: nat

definition extractMainContent :: "jsstring \<Rightarrow> jsstring" where
  "extractMainContent text =
     trim (replace_alts [[0x3060, 0x3088, 0x306D], [0x3058, 0x3083, 0x3093], [0x3060, 0x3063, 0x3051]] []
             (replace_alts [[0x3061, 0x3087, 0x3063, 0x3068], [0x3084, 0x3063, 0x3071, 0x308A], [0x3068, 0x308A, 0x3042, 0x3048, 0x305A]] [] text))"

definition identifyRequestType :: "jsstring \<Rightarrow> string" where
  "identifyRequestType text =
     (if test_alts [[0x78BA, 0x8A8D], [0x30C1, 0x30A7, 0x30C3, 0x30AF], [0x898B, 0x3066]] text then ''verification''
      else if test_alts [[0x6559, 0x3048, 0x3066], [0x805E, 0x304D, 0x305F, 0x3044], [0x8CEA, 0x554F]] text then ''information''
      else if test_alts [[0x4F5C, 0x3063, 0x3066], [0x3084, 0x3063, 0x3066], [0x5BFE, 0x5FDC]] text then ''action''
      else if test_alts [[0x9001, 0x3063, 0x3066], [0x5171, 0x6709]] text then ''sharing''
      else if test_alts [[0x4F1A, 0x8B70], [0x6253, 0x3061, 0x5408, 0x308F, 0x305B], [0x30DF, 0x30FC, 0x30C6, 0x30A3, 0x30F3, 0x30B0]] text then ''meeting''
      else if test_alts [[0x5831, 0x544A], [0x9023, 0x7D61], [0x304A, 0x77E5, 0x3089, 0x305B]] text then ''notification''
      else ''general'')"

definition extractKeywords :: "jsstring \<Rightarrow> keyword_groups" where
  "extractKeywords text =
     (let businessKeywords =
            match_alts [[0x4F1A, 0x8B70], [0x8CC7, 0x6599], [0x30D7, 0x30ED, 0x30B8, 0x30A7, 0x30AF, 0x30C8], [0x30B7, 0x30B9, 0x30C6, 0x30E0], [0x30C7, 0x30FC, 0x30BF], [0x5206, 0x6790], [0x58F2, 0x4E0A], [0x4E88, 0x7B97]] text;
          technicalKeywords =
            match_alts [[0x30A2, 0x30D7, 0x30C7], [0x30D0, 0x30B0], [0x30C7, 0x30D7, 0x30ED, 0x30A4], [0x0041, 0x0050, 0x0049], [0x30B5, 0x30FC, 0x30D0, 0x30FC], [0x30C7, 0x30FC, 0x30BF, 0x30D9, 0x30FC, 0x30B9]] text;
          timeKeywords =
            match_alts [[0x660E, 0x65E5], [0x4ECA, 0x65E5], [0x6765, 0x9031], [0x6708, 0x66DC], [0x706B, 0x66DC], [0x6C34, 0x66DC], [0x6728, 0x66DC], [0x91D1, 0x66DC], [0x571F, 0x66DC], [0x65E5, 0x66DC]] text
      in \<lparr> kw_business = businessKeywords, kw_technical = technicalKeywords,
           kw_time = timeKeywords,
           kw_all = businessKeywords @ technicalKeywords @ timeKeywords \<rparr>)"

definition detectEmotionalTone :: "jsstring \<Rightarrow> string" where
  "detectEmotionalTone text =
     (if test_alts [[0x6025], [0x7DCA, 0x6025], [0x81F3, 0x6025], [0x30E4, 0x30D0, 0x3044], [0x30DE, 0x30B8, 0x3067]] text then ''urgent''
      else if test_alts [[0x3042, 0x308A, 0x304C, 0x3068, 0x3046], [0x611F, 0x8B1D], [0x52A9, 0x304B, 0x308B]] text then ''grateful''
      else if test_alts [[0x3059, 0x307F, 0x307E, 0x305B, 0x3093], [0x7533, 0x3057, 0x8A33], [0x3054, 0x3081, 0x3093]] text then ''apologetic''
      else if test_alts [[0x56F0, 0x3063, 0x3066], [0x554F, 0x984C], [0x30C8, 0x30E9, 0x30D6, 0x30EB]] text then ''troubled''
      else if test_alts [[0x3088, 0x308D, 0x3057, 0x304F], [0x304A, 0x9858, 0x3044]] text then ''requesting''
      else ''neutral'')"

definition analyzeTextComponents :: "jsstring \<Rightarrow> components" where
  "analyzeTextComponents text =
     \<lparr> mainContent = extractMainContent text,
       requestType = identifyRequestType text,
       keyWords = extractKeywords text,
       emotionalTone = detectEmotionalTone text,
       hasQuestion = (js_includes text [0xFF1F] \<or> js_includes text [0x003F]),
       hasRequest = test_alts [[0x3057, 0x3066], [0x3084, 0x3063, 0x3066], [0x304A, 0x9858, 0x3044]] text,
       inputLength = length text \<rparr>"

subsection \<open>Planning the sentence\<close>

text \<open>The generator is always handed the descriptor of the analyzer (or a copy with some
  fields replaced), so its guards against a missing context are not modelled. The level is
  a JavaScript number.\<close>

definition selectGreeting :: "descriptor \<Rightarrow> rng \<Rightarrow> jsstring \<times> rng" where
  "selectGreeting context g =
     (if timeContext context = [] then getRandomElement greetings_general g
      else getRandomElement
             (case map_of greetings (timeContext context) of
                Some timeGreetings \<Rightarrow> timeGreetings
              | None \<Rightarrow> greetings_general) g)"

definition selectCushion :: "components \<Rightarrow> descriptor \<Rightarrow> real \<Rightarrow> rng \<Rightarrow> jsstring option \<times> rng" where
  "selectCushion comps context level g =
     (if level \<le> 2 then (None, g)
      else
        (let (chosen, g') =
               (if emotionalTone comps = ''urgent'' then getRandomElement cushions_urgent g
                else if relationship context = ''superior'' then getRandomElement cushions_superior g
                else if requestType comps = ''action'' \<or> hasRequest comps
                  then getRandomElement cushions_request g
                else getRandomElement cushions_casual g)
         in (Some chosen, g')))"

definition applyWordTransformations :: "jsstring \<Rightarrow> jsstring" where
  "applyWordTransformations text =
     fold (\<lambda>(casual, polite) result. replace_all casual polite result) wordMappings text"

definition applyPhraseTransformations :: "jsstring \<Rightarrow> real \<Rightarrow> jsstring" where
  "applyPhraseTransformations text level =
     (let r1 = replace_all [0x78BA, 0x8A8D, 0x3057, 0x3066]
                 (if level \<ge> 4 then [0x3054, 0x78BA, 0x8A8D, 0x3044, 0x305F, 0x3060, 0x3051, 0x307E, 0x3059, 0x3067, 0x3057, 0x3087, 0x3046, 0x304B] else [0x3054, 0x78BA, 0x8A8D, 0x304F, 0x3060, 0x3055, 0x3044]) text;
          r2 = replace_all [0x6559, 0x3048, 0x3066]
                 (if level \<ge> 3 then [0x304A, 0x6559, 0x3048, 0x3044, 0x305F, 0x3060, 0x3051, 0x307E, 0x305B, 0x3093, 0x3067, 0x3057, 0x3087, 0x3046, 0x304B] else [0x304A, 0x6559, 0x3048, 0x304F, 0x3060, 0x3055, 0x3044]) r1;
          r3 = replace_all [0x9001, 0x3063, 0x3066]
                 (if level \<ge> 3 then [0x304A, 0x9001, 0x308A, 0x3044, 0x305F, 0x3060, 0x3051, 0x307E, 0x305B, 0x3093, 0x3067, 0x3057, 0x3087, 0x3046, 0x304B] else [0x304A, 0x9001, 0x308A, 0x304F, 0x3060, 0x3055, 0x3044]) r2
      in r3)"

definition applySentenceAdjustments :: "jsstring \<Rightarrow> components \<Rightarrow> real \<Rightarrow> jsstring" where
  "applySentenceAdjustments text comps level =
     (if \<not> js_endsWith text [0x3002] \<and> \<not> js_endsWith text [0xFF1F]
         \<and> \<not> js_endsWith text [0x3067, 0x3059] \<and> \<not> js_endsWith text [0x307E, 0x3059]
      then (if hasQuestion comps
            then text @ (if level \<ge> 3 then [0x3067, 0x3057, 0x3087, 0x3046, 0x304B, 0xFF1F] else [0x3067, 0x3059, 0x304B, 0xFF1F])
            else text @ (if level \<ge> 3 then [0x3044, 0x305F, 0x3060, 0x3051, 0x307E, 0x3059, 0x3067, 0x3057, 0x3087, 0x3046, 0x304B, 0x3002] else [0x304A, 0x9858, 0x3044, 0x3057, 0x307E, 0x3059, 0x3002]))
      else text)"

definition transformMainContent :: "components \<Rightarrow> descriptor \<Rightarrow> real \<Rightarrow> jsstring" where
  "transformMainContent comps context level =
     applySentenceAdjustments
       (applyPhraseTransformations (applyWordTransformations (mainContent comps)) level)
       comps level"

definition selectClosing :: "components \<Rightarrow> descriptor \<Rightarrow> real \<Rightarrow> rng \<Rightarrow> jsstring option \<times> rng" where
  "selectClosing comps context level g =
     (if level \<le> 2 then (None, g)
      else
        (let (chosen, g') =
               (if hasQuestion comps then getRandomElement closings_question g
                else if emotionalTone comps = ''urgent'' then getRandomElement closings_urgent g
                else if emotionalTone comps = ''grateful'' then getRandomElement closings_gratitude g
                else getRandomElement closings_request g)
         in (Some chosen, g')))"

definition addCourtesyElements :: "descriptor \<Rightarrow> rng \<Rightarrow> jsstring option \<times> rng" where
  "addCourtesyElements context g =
     (let (r, g') = Math_random g;
          elements =
            (if r > 0.5 then [[0x4F55, 0x304B, 0x3054, 0x4E0D, 0x660E, 0x306A, 0x70B9, 0x304C, 0x3054, 0x3056, 0x3044, 0x307E, 0x3057, 0x305F, 0x3089, 0x3001, 0x304A, 0x6C17, 0x8EFD, 0x306B, 0x304A, 0x58F0, 0x304B, 0x3051, 0x304F, 0x3060, 0x3055, 0x3044, 0x3002]] else [])
            @ (if relationship context = ''superior''
               then [[0x3054, 0x591A, 0x5FD9, 0x4E2D, 0x306B, 0x3082, 0x95A2, 0x308F, 0x3089, 0x305A, 0x3001, 0x3044, 0x3064, 0x3082, 0x3042, 0x308A, 0x304C, 0x3068, 0x3046, 0x3054, 0x3056, 0x3044, 0x307E, 0x3059, 0x3002]] else [])
      in (if length elements > 0 then Some (join [0x0020] elements) else None, g'))"

record sentence_structure =
  greeting :: jsstring
  cushion :: "jsstring option"
  mainBody :: jsstring
  closing :: "jsstring option"
  additionalCourtesy :: "jsstring option"

text \<open>The properties of the structure are computed in the order written, which fixes the
  order of the draws from the random source.\<close>

definition planSentenceStructure ::
  "components \<Rightarrow> descriptor \<Rightarrow> real \<Rightarrow> rng \<Rightarrow> sentence_structure \<times> rng" where
  "planSentenceStructure comps context level g =
     (let (gr, g1) = selectGreeting context g;
          (cu, g2) = selectCushion comps context level g1;
          body = transformMainContent comps context level;
          (cl, g3) = selectClosing comps context level g2;
          (co, g4) = (if level \<ge> 4 then addCourtesyElements context g3 else (None, g3))
      in (\<lparr> greeting = gr, cushion = cu, mainBody = body, closing = cl,
            additionalCourtesy = co \<rparr>, g4))"

subsection \<open>Assembling the sentence\<close>

definition determineEmojiContext :: "jsstring \<Rightarrow> string" where
  "determineEmojiContext text =
     (if test_alts [[0x304A, 0x9858, 0x3044], [0x3044, 0x305F, 0x3060, 0x3051]] text then ''request''
      else if test_alts [[0x3067, 0x3057, 0x3087, 0x3046, 0x304B], [0x307E, 0x3059, 0x304B]] text then ''question''
      else if test_alts [[0x6025], [0x81F3, 0x6025], [0x7DCA, 0x6025]] text then ''urgent''
      else if test_alts [[0x3042, 0x308A, 0x304C, 0x3068, 0x3046], [0x611F, 0x8B1D]] text then ''grateful''
      else ''general'')"

definition addEmoji :: "jsstring \<Rightarrow> descriptor \<Rightarrow> rng \<Rightarrow> jsstring \<times> rng" where
  "addEmoji text context g =
     (let availableEmojis =
            (case map_of emojis (determineEmojiContext text) of
               Some es \<Rightarrow> es | None \<Rightarrow> emojis_general);
          (selectedEmoji, g') = getRandomElement availableEmojis g
      in (text @ [0x0020] @ selectedEmoji, g'))"

text \<open>A part is pushed only when its string is truthy, that is, present and not empty.\<close>

definition truthy_part :: "jsstring option \<Rightarrow> jsstring \<Rightarrow> jsstring list" where
  "truthy_part part mark =
     (case part of None \<Rightarrow> [] | Some s \<Rightarrow> if s = [] then [] else [s @ mark])"

definition assembleSentence ::
  "sentence_structure \<Rightarrow> descriptor \<Rightarrow> real \<Rightarrow> rng \<Rightarrow> jsstring \<times> rng" where
  "assembleSentence structure context level g =
     (let parts =
            (if level \<ge> 3 \<and> greeting structure \<noteq> [] then [greeting structure @ [0x3002]] else [])
            @ truthy_part (cushion structure) [0x3001]
            @ [mainBody structure]
            @ truthy_part (closing structure) [0x3002]
            @ truthy_part (additionalCourtesy structure) [];
          result = trim (collapse_whitespace (join [0x0020] parts))
      in if level \<ge> 4 then addEmoji result context g else (result, g))"

definition generatePoliteVersion :: "jsstring \<Rightarrow> descriptor \<Rightarrow> real \<Rightarrow> rng \<Rightarrow> jsstring \<times> rng" where
  "generatePoliteVersion originalText context level g =
     (let comps = analyzeTextComponents originalText;
          (structure, g') = planSentenceStructure comps context level g
      in assembleSentence structure context level g')"

subsection \<open>Variations\<close>

definition getLevelDescription :: "real \<Rightarrow> jsstring" where
  "getLevelDescription level =
     (if level = 1 then [0x57FA, 0x672C, 0x7684, 0x306A, 0x4E01, 0x5BE7, 0x8A9E]
      else if level = 2 then [0x6A19, 0x6E96, 0x7684, 0x306A, 0x656C, 0x8A9E]
      else if level = 3 then [0x4E01, 0x5BE7, 0x3067, 0x6C17, 0x9063, 0x3044, 0x306E, 0x3042, 0x308B, 0x8868, 0x73FE]
      else if level = 4 then [0x975E, 0x5E38, 0x306B, 0x4E01, 0x5BE7, 0x3067, 0x914D, 0x616E, 0x6DF1, 0x3044, 0x8868, 0x73FE]
      else if level = 5 then [0x6700, 0x9AD8, 0x30EC, 0x30D9, 0x30EB, 0x306E, 0x656C, 0x8A9E, 0x3068, 0x7D75, 0x6587, 0x5B57, 0x4ED8, 0x304D]
      else [0x6A19, 0x6E96])"

definition getLevelCharacteristics :: "real \<Rightarrow> jsstring list" where
  "getLevelCharacteristics level =
     (if level = 1 then [[0x3067, 0x3059, 0x30FB, 0x307E, 0x3059, 0x8ABF], [0x57FA, 0x672C, 0x7684, 0x306A, 0x656C, 0x8A9E]]
      else if level = 2 then [[0x30AF, 0x30C3, 0x30B7, 0x30E7, 0x30F3, 0x8A00, 0x8449], [0x3088, 0x308A, 0x4E01, 0x5BE7, 0x306A, 0x8868, 0x73FE]]
      else if level = 3 then [[0x6328, 0x62F6, 0x4ED8, 0x304D], [0x914D, 0x616E, 0x8868, 0x73FE], [0x9069, 0x5207, 0x306A, 0x7DE0, 0x3081]]
      else if level = 4 then [[0x9AD8, 0x5EA6, 0x306A, 0x656C, 0x8A9E], [0x8FFD, 0x52A0, 0x306E, 0x6C17, 0x9063, 0x3044], [0x7D75, 0x6587, 0x5B57]]
      else if level = 5 then [[0x6700, 0x9AD8, 0x656C, 0x8A9E], [0x8907, 0x6570, 0x306E, 0x914D, 0x616E, 0x8868, 0x73FE], [0x611F, 0x60C5, 0x8C4A, 0x304B, 0x306A, 0x7D75, 0x6587, 0x5B57]]
      else [])"

text \<open>A variation. Those of the level loop carry characteristics, those of
  \<open>generateStyleVariations\<close> a style.\<close>

record variation =
  v_level :: real
  v_text :: jsstring
  v_description :: jsstring
  v_characteristics :: "jsstring list option"
  v_style :: "string option"

definition generateStyleVariations ::
  "jsstring \<Rightarrow> descriptor \<Rightarrow> real \<Rightarrow> rng \<Rightarrow> variation list \<times> rng" where
  "generateStyleVariations originalText context level g =
     (let businessContext = context\<lparr>situation := ''business'', relationship := ''superior''\<rparr>;
          (businessVersion, g1) = generatePoliteVersion originalText businessContext level g;
          friendlyContext = context\<lparr>situation := ''casual'', relationship := ''colleague''\<rparr>;
          (friendlyVersion, g2) = generatePoliteVersion originalText friendlyContext level g1
      in ([\<lparr> v_level = level, v_text = businessVersion, v_description = [0x30D3, 0x30B8, 0x30CD, 0x30B9, 0x8ABF],
              v_characteristics = None, v_style = Some ''business'' \<rparr>,
           \<lparr> v_level = level, v_text = friendlyVersion, v_description = [0x89AA, 0x3057, 0x307F, 0x3084, 0x3059, 0x3044, 0x4E01, 0x5BE7, 0x8ABF],
              v_characteristics = None, v_style = Some ''friendly'' \<rparr>], g2))"

text \<open>The loop \<open>for (level = 2; level <= 5; level++)\<close> of \<open>generateVariations\<close>.\<close>

fun level_variations ::
  "jsstring \<Rightarrow> descriptor \<Rightarrow> real list \<Rightarrow> rng \<Rightarrow> variation list \<times> rng" where
  "level_variations originalText context [] g = ([], g)"
| "level_variations originalText context (level # levels) g =
     (let (variation, g1) = generatePoliteVersion originalText context level g;
          (others, g2) = level_variations originalText context levels g1
      in (\<lparr> v_level = level, v_text = variation,
            v_description = getLevelDescription level,
            v_characteristics = Some (getLevelCharacteristics level),
            v_style = None \<rparr> # others, g2))"

definition generateVariations ::
  "jsstring \<Rightarrow> descriptor \<Rightarrow> real \<Rightarrow> rng \<Rightarrow> variation list \<times> rng" where
  "generateVariations originalText context baseLevel g =
     (let (variations, g1) = level_variations originalText context [2, 3, 4, 5] g;
          (styleVariations, g2) = generateStyleVariations originalText context baseLevel g1
      in (variations @ styleVariations, g2))"

subsection \<open>Quality of a generated sentence\<close>

record sentence_quality =
  q_improvements :: "jsstring list"
  q_strengths :: "jsstring list"
  q_suggestions :: "jsstring list"
  q_score :: nat

text \<open>\<open>analyzeSentenceQuality\<close> fills \<open>improvements\<close> and \<open>strengths\<close>; nothing is ever
  pushed onto \<open>suggestions\<close>.\<close>

definition analyzeSentenceQuality :: "jsstring \<Rightarrow> jsstring \<Rightarrow> descriptor \<Rightarrow> sentence_quality" where
  "analyzeSentenceQuality originalText generatedText context =
     (let hasMarkers = list_ex (js_includes generatedText)
                         [[0x304A, 0x75B2, 0x308C], [0x3044, 0x3064, 0x3082, 0x304A, 0x4E16, 0x8A71], [0x3088, 0x308D, 0x3057, 0x304F], [0x3042, 0x308A, 0x304C, 0x3068, 0x3046], [0x3059, 0x307F, 0x307E, 0x305B, 0x3093]];
          urgent = (urgency context = ''urgent'' \<and> js_includes generatedText [0x6025]);
          longer = (real (length generatedText) > real (length originalText) * 1.5);
          score = (if hasMarkers then 20 else 0) + (if urgent then 15 else 0)
                  + (if longer then 25 else 0)
      in \<lparr> q_improvements =
             (if hasMarkers then [] else [[0x6328, 0x62F6, 0x3084, 0x7DE0, 0x3081, 0x306E, 0x8A00, 0x8449, 0x3092, 0x8FFD, 0x52A0, 0x3059, 0x308B, 0x3068, 0x66F4, 0x306B, 0x4E01, 0x5BE7, 0x306B, 0x306A, 0x308A, 0x307E, 0x3059]]),
           q_strengths =
             (if hasMarkers then [[0x9069, 0x5207, 0x306A, 0x6328, 0x62F6, 0x30FB, 0x7DE0, 0x3081, 0x306E, 0x8A00, 0x8449, 0x304C, 0x542B, 0x307E, 0x308C, 0x3066, 0x3044, 0x307E, 0x3059]] else [])
             @ (if urgent then [[0x7DCA, 0x6025, 0x6027, 0x304C, 0x9069, 0x5207, 0x306B, 0x8868, 0x73FE, 0x3055, 0x308C, 0x3066, 0x3044, 0x307E, 0x3059]] else [])
             @ (if longer then [[0x5143, 0x306E, 0x6587, 0x7AE0, 0x3088, 0x308A, 0x5341, 0x5206, 0x306B, 0x4E01, 0x5BE7, 0x306A, 0x8868, 0x73FE, 0x306B, 0x306A, 0x308A, 0x307E, 0x3057, 0x305F]] else []),
           q_suggestions = [],
           q_score = min 100 (score + 40) \<rparr>)"


section \<open>EnhancedConversionEngine\<close>

subsection \<open>Data\<close>

text \<open>The options of a conversion request. Levels are JavaScript numbers.\<close>

record options =
  opt_level :: "real option"
  opt_preferredApproach :: "string option"

record user_preferences =
  defaultLevel :: real
  preferredApproach :: "string option"
  enableEmoji :: bool
  contextSensitivity :: string

text \<open>A conversion candidate. Only the word-level candidate has details, only the level
  variations may have characteristics.\<close>

record conversion =
  approach :: string
  conv_text :: jsstring
  level :: real
  confidence :: real
  description :: jsstring
  details :: "log_entry list option"
  characteristics :: "jsstring list option"

record conversion_record =
  rec_timestamp :: jsstring
  rec_original :: jsstring
  rec_converted :: jsstring
  rec_context :: descriptor
  rec_level :: real
  rec_approach :: string
  rec_userOptions :: options
  rec_confidence :: real

text \<open>The mutable state of an engine instance.\<close>

record engine_state =
  conversionHistory :: "conversion_record list"
  userPreferences :: user_preferences

definition loadUserPreferences :: user_preferences where
  "loadUserPreferences =
     \<lparr> defaultLevel = 3, preferredApproach = None, enableEmoji = True,
       contextSensitivity = ''high'' \<rparr>"

definition initial_engine :: engine_state where
  "initial_engine = \<lparr> conversionHistory = [], userPreferences = loadUserPreferences \<rparr>"

text \<open>What the clock shows at the five places one conversion reads it: \<open>Date.now()\<close> on
  entry, the hour the analyzer may ask for, the time stamp of the history record,
  \<open>Date.now()\<close> for the processing time, and the time stamp of the result.\<close>

record clock =
  startTime :: int
  clock_hour :: nat
  storeTimestamp :: jsstring
  endTime :: int
  resultTimestamp :: jsstring

text \<open>The context of a result: the analyzer's descriptor, or the three properties the
  fallback response fills in.\<close>

datatype context_info = Analyzed descriptor | Minimal string string string

record analysis =
  processingTime :: int
  result_confidence :: real
  improvements :: "jsstring list"
  detectedIssues :: improvement

record metadata =
  conversions_count :: nat
  timestamp :: jsstring
  engine :: string
  error :: "jsstring option"

record conversion_result =
  original :: jsstring
  converted :: jsstring
  result_context :: context_info
  result_level :: real
  variations :: "conversion list"
  suggestions :: "suggestion list"
  result_analysis :: analysis
  result_metadata :: metadata

text \<open>The exceptions the engine can meet are the \<open>TypeError\<close>s of reading a property of
  \<open>null\<close> or \<open>undefined\<close>; an error object carries its message.\<close>

datatype js_error = TypeError jsstring

fun error_message :: "js_error \<Rightarrow> jsstring" where
  "error_message (TypeError m) = m"

subsection \<open>Target level\<close>

text \<open>The automatic part of \<open>determineTargetLevel\<close>: the default of 3, raised by the
  context and by the learned default level, and capped at 5.\<close>

definition autoTargetLevel :: "engine_state \<Rightarrow> descriptor \<Rightarrow> real" where
  "autoTargetLevel st context =
     (let t0 = 3;
          t1 = (if relationship context = ''superior'' then max t0 4
                else if relationship context = ''subordinate'' then max t0 2
                else t0);
          t2 = (if urgency context = ''urgent'' then max t1 3 else t1);
          t3 = (if situation context = ''business'' then max t2 3 else t2);
          t4 = (if formalityLevel context = ''very-casual'' then max t3 4 else t3);
          t5 = (if defaultLevel (userPreferences st) \<noteq> 0
                then max t4 (defaultLevel (userPreferences st)) else t4)
      in min 5 t5)"

text \<open>\<open>options.level && options.level >= 1 && options.level <= 5\<close>: a level that is
  missing, zero or outside the range does not count as specified.\<close>

definition determineTargetLevel :: "engine_state \<Rightarrow> descriptor \<Rightarrow> options \<Rightarrow> real" where
  "determineTargetLevel st context options =
     (case opt_level options of
        Some l \<Rightarrow> if l \<noteq> 0 \<and> l \<ge> 1 \<and> l \<le> 5 then l else autoTargetLevel st context
      | None \<Rightarrow> autoTargetLevel st context)"

subsection \<open>Candidates\<close>

definition variation_candidate :: "variation \<Rightarrow> conversion" where
  "variation_candidate v =
     \<lparr> approach = ''level-variation'', conv_text = v_text v, level = v_level v,
       confidence = 0.80, description = v_description v, details = None,
       characteristics = v_characteristics v \<rparr>"

text \<open>\<open>generateContextOptimizedVersion\<close> copies the context, overwriting three fields with
  their own values, and runs the sentence generator on the copy.\<close>

definition generateContextOptimizedVersion ::
  "jsstring \<Rightarrow> descriptor \<Rightarrow> real \<Rightarrow> rng \<Rightarrow> jsstring \<times> rng" where
  "generateContextOptimizedVersion originalText context targetLevel g =
     (let optimizedContext =
            context\<lparr>situation := situation context, intent := intent context,
                    relationship := relationship context\<rparr>
      in generatePoliteVersion originalText optimizedContext targetLevel g)"

definition generateConversions ::
  "jsstring \<Rightarrow> descriptor \<Rightarrow> real \<Rightarrow> rng \<Rightarrow> conversion list \<times> rng" where
  "generateConversions originalText context targetLevel g =
     (let wordConversion = wordConverter_convertText originalText (Some context);
          c1 = \<lparr> approach = ''word-level'', conv_text = wc_text wordConversion,
                 level = targetLevel, confidence = 0.75,
                 description = [0x5358, 0x8A9E, 0x30FB, 0x30D5, 0x30EC, 0x30FC, 0x30BA, 0x30EC, 0x30D9, 0x30EB, 0x306E, 0x4E01, 0x5BE7, 0x8A9E, 0x5909, 0x63DB],
                 details = Some (wc_conversions wordConversion), characteristics = None \<rparr>;
          (sentenceConversion, g1) = generatePoliteVersion originalText context targetLevel g;
          c2 = \<lparr> approach = ''sentence-generation'', conv_text = sentenceConversion,
                 level = targetLevel, confidence = 0.90,
                 description = [0x30D5, 0x30EB, 0x6587, 0x7AE0, 0x518D, 0x69CB, 0x7BC9, 0x306B, 0x3088, 0x308B, 0x81EA, 0x7136, 0x306A, 0x4E01, 0x5BE7, 0x8A9E],
                 details = None, characteristics = None \<rparr>;
          (vs, g2) = generateVariations originalText context targetLevel g1;
          c3 = map variation_candidate vs
      in if situation context \<noteq> ''general''
         then (let (contextOptimized, g3) =
                     generateContextOptimizedVersion originalText context targetLevel g2
               in ([c1, c2] @ c3 @
                   [\<lparr> approach = ''context-optimized'', conv_text = contextOptimized,
                       level = targetLevel, confidence = 0.85,
                       description = ascii (situation context) @ [0x30B3, 0x30F3, 0x30C6, 0x30AD, 0x30B9, 0x30C8, 0x6700, 0x9069, 0x5316, 0x7248],
                       details = None, characteristics = None \<rparr>], g3))
         else ([c1, c2] @ c3, g2))"

subsection \<open>Selection\<close>

definition scoreConversion :: "engine_state \<Rightarrow> conversion \<Rightarrow> descriptor \<Rightarrow> options \<Rightarrow> real" where
  "scoreConversion st c context options =
     (let s0 = confidence c * 100;
          s1 = (if approach c = ''sentence-generation'' then s0 + 10 else s0);
          s2 = (if approach c = ''context-optimized'' then s1 + 15 else s1);
          targetLevel = determineTargetLevel st context options;
          levelDifference = \<bar>level c - targetLevel\<bar>;
          s3 = s2 - levelDifference * 5;
          s4 = (if flagged (improvementNeeds context)
                   \<and> length (conv_text c) > length (issues (improvementNeeds context)) * 20
                then s3 + 20 else s3)
      in s4)"

text \<open>\<open>selectBestConversion\<close>. A preferred approach that is present decides; otherwise the
  candidates are sorted by descending score (\<open>Array.prototype.sort\<close> is stable) and the
  first is taken. On an empty array the result is \<open>undefined\<close>.\<close>

definition selectBestConversion ::
  "engine_state \<Rightarrow> conversion list \<Rightarrow> descriptor \<Rightarrow> options \<Rightarrow> conversion option" where
  "selectBestConversion st conversions context options =
     (let preferred =
            (case opt_preferredApproach options of
               Some a \<Rightarrow> if a \<noteq> [] then List.find (\<lambda>c. approach c = a) conversions else None
             | None \<Rightarrow> None)
      in case preferred of
           Some c \<Rightarrow> Some c
         | None \<Rightarrow>
             (case sort_key (\<lambda>c. - scoreConversion st c context options) conversions of
                [] \<Rightarrow> None
              | best # others \<Rightarrow> Some best))"

subsection \<open>Suggestions and improvements\<close>

definition contextAnalyzer_generateSuggestions :: "descriptor \<Rightarrow> jsstring list" where
  "contextAnalyzer_generateSuggestions context =
     (let found = issues (improvementNeeds context)
      in (if ''casual_language'' \<in> set found
          then [[0x30AB, 0x30B8, 0x30E5, 0x30A2, 0x30EB, 0x306A, 0x8868, 0x73FE, 0x3092, 0x3088, 0x308A, 0x4E01, 0x5BE7, 0x306A, 0x8A00, 0x8449, 0x306B, 0x5909, 0x63DB, 0x3059, 0x308B, 0x3053, 0x3068, 0x3092, 0x304A, 0x52E7, 0x3081, 0x3057, 0x307E, 0x3059]] else [])
         @ (if ''lacks_politeness_markers'' \<in> set found
            then [[0x6328, 0x62F6, 0x3084, 0x7DE0, 0x3081, 0x306E, 0x8A00, 0x8449, 0x3092, 0x8FFD, 0x52A0, 0x3059, 0x308B, 0x3068, 0x3001, 0x3088, 0x308A, 0x4E01, 0x5BE7, 0x306A, 0x5370, 0x8C61, 0x306B, 0x306A, 0x308A, 0x307E, 0x3059]] else [])
         @ (if ''too_brief'' \<in> set found
            then [[0x3082, 0x3046, 0x5C11, 0x3057, 0x8A73, 0x3057, 0x3044, 0x8AAC, 0x660E, 0x3092, 0x52A0, 0x3048, 0x308B, 0x3068, 0x3001, 0x76F8, 0x624B, 0x306B, 0x6C17, 0x9063, 0x3044, 0x304C, 0x4F1D, 0x308F, 0x308A, 0x307E, 0x3059]] else [])
         @ (if ''too_direct'' \<in> set found
            then [[0x76F4, 0x63A5, 0x7684, 0x306A, 0x8868, 0x73FE, 0x3092, 0x67D4, 0x3089, 0x304B, 0x3044, 0x4F9D, 0x983C, 0x5F62, 0x306B, 0x5909, 0x66F4, 0x3059, 0x308B, 0x3053, 0x3068, 0x3092, 0x304A, 0x52E7, 0x3081, 0x3057, 0x307E, 0x3059]] else []))"

definition plain_suggestion :: "string \<Rightarrow> jsstring \<Rightarrow> suggestion" where
  "plain_suggestion kind m =
     \<lparr> suggestion_type = kind, message = m, suggestion_words = [], examples = [],
       action = None \<rparr>"

definition generateSuggestions :: "jsstring \<Rightarrow> conversion \<Rightarrow> descriptor \<Rightarrow> suggestion list" where
  "generateSuggestions originalText selectedConversion context =
     (let contextSuggestions =
            map (plain_suggestion ''context'') (contextAnalyzer_generateSuggestions context);
          wordSuggestions =
            wordConverter_getSuggestions (conv_text selectedConversion) (Some context);
          qualityAnalysis =
            analyzeSentenceQuality originalText (conv_text selectedConversion) context;
          qualitySuggestions =
            (if length (q_suggestions qualityAnalysis) > 0
             then map (plain_suggestion ''quality'') (q_suggestions qualityAnalysis) else []);
          levelSuggestions =
            (if level selectedConversion < 4 \<and> relationship context = ''superior''
             then [\<lparr> suggestion_type = ''level'',
                      message = [0x4E0A, 0x53F8, 0x3078, 0x306E, 0x9023, 0x7D61, 0x306E, 0x5834, 0x5408, 0x3001, 0x30EC, 0x30D9, 0x30EB, 0x0034, 0x4EE5, 0x4E0A, 0x3092, 0x304A, 0x52E7, 0x3081, 0x3057, 0x307E, 0x3059],
                      suggestion_words = [], examples = [],
                      action = Some ''increase_level'' \<rparr>]
             else [])
      in contextSuggestions @ wordSuggestions @ qualitySuggestions @ levelSuggestions)"

definition analyzeImprovements :: "jsstring \<Rightarrow> jsstring \<Rightarrow> jsstring list" where
  "analyzeImprovements originalText convertedText =
     (let addedMarkers =
            filter (\<lambda>marker. \<not> js_includes originalText marker \<and> js_includes convertedText marker)
              [[0x304A, 0x75B2, 0x308C], [0x3088, 0x308D, 0x3057, 0x304F], [0x3042, 0x308A, 0x304C, 0x3068, 0x3046], [0x3059, 0x307F, 0x307E, 0x305B, 0x3093], [0x3044, 0x3064, 0x3082, 0x304A, 0x4E16, 0x8A71]];
          replacedWords =
            filter (\<lambda>word. js_includes originalText word \<and> \<not> js_includes convertedText word)
              [[0x30A2, 0x30D7, 0x30C7], [0x30D0, 0x30B0], [0x3084, 0x3063, 0x3066], [0x3057, 0x3066], [0x30DE, 0x30B8, 0x3067]]
      in (if real (length convertedText) > real (length originalText) * 1.3
          then [[0x6587, 0x7AE0, 0x304C, 0x5341, 0x5206, 0x306B, 0x4E01, 0x5BE7, 0x306A, 0x9577, 0x3055, 0x306B, 0x306A, 0x308A, 0x307E, 0x3057, 0x305F]] else [])
         @ (if length addedMarkers > 0
            then [[0x4E01, 0x5BE7, 0x306A, 0x8868, 0x73FE, 0x3092, 0x8FFD, 0x52A0, 0x003A, 0x0020] @ join [0x002C, 0x0020] addedMarkers] else [])
         @ (if length replacedWords > 0
            then [[0x30AB, 0x30B8, 0x30E5, 0x30A2, 0x30EB, 0x306A, 0x8868, 0x73FE, 0x3092, 0x6539, 0x5584, 0x003A, 0x0020] @ decimal (length replacedWords) @ [0x500B, 0x306E, 0x5358, 0x8A9E]]
            else []))"

subsection \<open>History and learned preferences\<close>

text \<open>\<open>Math.round\<close>: the nearest integer, a tie going up. For a double the result is a
  double again, so nothing is rounded a second time.\<close>

definition Math_round :: "js_number \<Rightarrow> js_number" where
  "Math_round x = (case x of Finite r \<Rightarrow> Finite (of_int \<lfloor>r + 1 / 2\<rfloor>) | other \<Rightarrow> other)"

text \<open>A computed level as \<open>defaultLevel\<close> keeps it. The field holds a real number: an
  infinite level is kept as \<open>2^1024\<close> with its sign, which lies beyond every double, and
  \<open>NaN\<close> as 0. \<open>determineTargetLevel\<close>, which alone reads the field, treats these as it
  treats the numbers they stand for: \<open>NaN\<close> and 0 are both falsy, and a level beyond 5 is
  cut down to 5. (An average of five levels is infinite only if levels beyond \<open>2^1021\<close>
  are among them, and it is never \<open>NaN\<close>.)\<close>

definition kept_level :: "js_number \<Rightarrow> real" where
  "kept_level x =
     (case x of
        Finite r \<Rightarrow> r
      | PlusInfinity \<Rightarrow> 2 ^ 1024
      | MinusInfinity \<Rightarrow> - (2 ^ 1024)
      | NotANumber \<Rightarrow> 0)"

text \<open>\<open>array.slice(-n)\<close>.\<close>

definition last_n :: "nat \<Rightarrow> 'a list \<Rightarrow> 'a list" where
  "last_n n xs = drop (length xs - n) xs"

text \<open>The keys of \<open>approachCounts\<close> in the order of their first appearance, and the
  \<open>reduce\<close> that keeps the running key only while its count is strictly greater.\<close>

definition most_frequent :: "string list \<Rightarrow> string option" where
  "most_frequent approaches =
     (case rev (remdups (rev approaches)) of
        [] \<Rightarrow> None
      | k # ks \<Rightarrow>
          Some (fold (\<lambda>b a. if count_list approaches a > count_list approaches b then a else b)
                  ks k))"

text \<open>\<open>updateUserPreferences\<close>: from five conversions on, the default level becomes the
  rounded average of the last five levels, summed and divided in double arithmetic as
  \<open>recentLevels.reduce((a, b) => a + b, 0) / recentLevels.length\<close> does.\<close>

definition updateUserPreferences :: "engine_state \<Rightarrow> engine_state" where
  "updateUserPreferences st =
     (if length (conversionHistory st) \<ge> 5 then
        (let recentLevels = map rec_level (last_n 5 (conversionHistory st));
             averageLevel =
               js_div (foldl (\<lambda>a b. js_add a (Finite b)) (Finite 0) recentLevels)
                 (Finite (real (length recentLevels)));
             approaches = map rec_approach (last_n 10 (conversionHistory st))
         in st\<lparr>userPreferences := (userPreferences st)
                  \<lparr>defaultLevel := kept_level (Math_round averageLevel),
                   preferredApproach := most_frequent approaches\<rparr>\<rparr>)
      else st)"

definition storeConversion ::
  "engine_state \<Rightarrow> clock \<Rightarrow> jsstring \<Rightarrow> conversion \<Rightarrow> descriptor \<Rightarrow> options \<Rightarrow> engine_state" where
  "storeConversion st clk originalText selectedConversion context options =
     (let conversionRecord =
            \<lparr> rec_timestamp = storeTimestamp clk, rec_original = originalText,
              rec_converted = conv_text selectedConversion, rec_context = context,
              rec_level = level selectedConversion, rec_approach = approach selectedConversion,
              rec_userOptions = options, rec_confidence = confidence selectedConversion \<rparr>;
          history = conversionHistory st @ [conversionRecord];
          kept = (if length history > 100 then last_n 100 history else history)
      in updateUserPreferences (st\<lparr>conversionHistory := kept\<rparr>))"

subsection \<open>The conversion\<close>

definition createFallbackResponse :: "clock \<Rightarrow> jsstring \<Rightarrow> js_error \<Rightarrow> conversion_result" where
  "createFallbackResponse clk originalText err =
     \<lparr> original = originalText,
       converted = originalText @ [0x3092, 0x304A, 0x9858, 0x3044, 0x3057, 0x307E, 0x3059, 0x3002],
       result_context = Minimal ''unknown'' ''normal'' ''unknown'',
       result_level = 2,
       variations = [],
       suggestions =
         [plain_suggestion ''error''
            [0x30B7, 0x30B9, 0x30C6, 0x30E0, 0x30A8, 0x30E9, 0x30FC, 0x304C, 0x767A, 0x751F, 0x3057, 0x307E, 0x3057, 0x305F, 0x3002, 0x30B7, 0x30F3, 0x30D7, 0x30EB, 0x306A, 0x5909, 0x63DB, 0x3092, 0x9069, 0x7528, 0x3057, 0x307E, 0x3057, 0x305F, 0x3002]],
       result_analysis =
         \<lparr> processingTime = 0, result_confidence = 0.3, improvements = [],
           detectedIssues =
             \<lparr> flagged = True, issues = [''processing_error''], severity = None \<rparr> \<rparr>,
       result_metadata =
         \<lparr> conversions_count = 1, timestamp = resultTimestamp clk, engine = ''fallback'',
           error = Some (error_message err) \<rparr> \<rparr>"

text \<open>The body of the \<open>try\<close> block of \<open>convertText\<close>. The options are \<open>None\<close> when the
  caller passes \<open>null\<close> (an omitted argument is replaced by the empty object before the
  block is entered). The block raises in two places: reading \<open>options.level\<close> of \<open>null\<close>,
  and reading \<open>selectedConversion.text\<close> when the selection returned \<open>undefined\<close>. The
  message texts are those of V8. What the block has done to the engine and to the random
  source before it raises stays done.\<close>

definition convertText_body ::
  "clock \<Rightarrow> engine_state \<Rightarrow> rng \<Rightarrow> jsstring \<Rightarrow> options option
     \<Rightarrow> (js_error \<times> engine_state \<times> rng) + (conversion_result \<times> engine_state \<times> rng)" where
  "convertText_body clk st g originalText maybe_options =
     (let context = analyzeContext (clock_hour clk) originalText
      in case maybe_options of
           None \<Rightarrow> Inl (TypeError [0x0043, 0x0061, 0x006E, 0x006E, 0x006F, 0x0074, 0x0020, 0x0072, 0x0065, 0x0061, 0x0064, 0x0020, 0x0070, 0x0072, 0x006F, 0x0070, 0x0065, 0x0072, 0x0074, 0x0069, 0x0065, 0x0073, 0x0020, 0x006F, 0x0066, 0x0020, 0x006E, 0x0075, 0x006C, 0x006C, 0x0020, 0x0028, 0x0072, 0x0065, 0x0061, 0x0064, 0x0069, 0x006E, 0x0067, 0x0020, 0x0027, 0x006C, 0x0065, 0x0076, 0x0065, 0x006C, 0x0027, 0x0029], st, g)
         | Some options \<Rightarrow>
             (let targetLevel = determineTargetLevel st context options;
                  (conversions, g1) = generateConversions originalText context targetLevel g
              in case selectBestConversion st conversions context options of
                   None \<Rightarrow>
                     Inl (TypeError [0x0043, 0x0061, 0x006E, 0x006E, 0x006F, 0x0074, 0x0020, 0x0072, 0x0065, 0x0061, 0x0064, 0x0020, 0x0070, 0x0072, 0x006F, 0x0070, 0x0065, 0x0072, 0x0074, 0x0069, 0x0065, 0x0073, 0x0020, 0x006F, 0x0066, 0x0020, 0x0075, 0x006E, 0x0064, 0x0065, 0x0066, 0x0069, 0x006E, 0x0065, 0x0064, 0x0020, 0x0028, 0x0072, 0x0065, 0x0061, 0x0064, 0x0069, 0x006E, 0x0067, 0x0020, 0x0027, 0x0074, 0x0065, 0x0078, 0x0074, 0x0027, 0x0029],
                          st, g1)
                 | Some selectedConversion \<Rightarrow>
                     (let found = generateSuggestions originalText selectedConversion context;
                          st1 = storeConversion st clk originalText selectedConversion context
                                  options
                      in Inr (\<lparr> original = originalText,
                                converted = conv_text selectedConversion,
                                result_context = Analyzed context,
                                result_level = level selectedConversion,
                                variations = conversions,
                                suggestions = found,
                                result_analysis =
                                  \<lparr> processingTime = endTime clk - startTime clk,
                                    result_confidence =
                                      (if confidence selectedConversion = 0 then 0.85
                                       else confidence selectedConversion),
                                    improvements =
                                      analyzeImprovements originalText
                                        (conv_text selectedConversion),
                                    detectedIssues = improvementNeeds context \<rparr>,
                                result_metadata =
                                  \<lparr> conversions_count = length conversions,
                                    timestamp = resultTimestamp clk,
                                    engine = ''enhanced-v2.0'', error = None \<rparr> \<rparr>,
                              st1, g1))))"

text \<open>\<open>convertText\<close>: the \<open>try\<close> block, and the \<open>catch\<close> clause that turns any exception
  into the fallback response.\<close>

definition convertText ::
  "clock \<Rightarrow> engine_state \<Rightarrow> rng \<Rightarrow> jsstring \<Rightarrow> options option
     \<Rightarrow> conversion_result \<times> engine_state \<times> rng" where
  "convertText clk st g originalText maybe_options =
     (case convertText_body clk st g originalText maybe_options of
        Inr outcome \<Rightarrow> outcome
      | Inl (err, st', g') \<Rightarrow> (createFallbackResponse clk originalText err, st', g'))"

definition no_options :: options where
  "no_options = \<lparr> opt_level = None, opt_preferredApproach = None \<rparr>"


section \<open>FeedbackLearning\<close>

subsection \<open>Pattern tests on texts\<close>

text \<open>The remainder of a text behind the first occurrence of a literal.\<close>

fun after_first :: "jsstring \<Rightarrow> jsstring \<Rightarrow> jsstring option" where
  "after_first p [] = (if p = [] then Some [] else None)"
| "after_first p (c # cs) =
     (if prefix p (c # cs) then Some (drop (length p) (c # cs)) else after_first p cs)"

text \<open>A text cut at its line terminators.\<close>

fun split_lines :: "jsstring \<Rightarrow> jsstring list" where
  "split_lines [] = [[]]"
| "split_lines (c # cs) =
     (if line_terminator c then [] # split_lines cs
      else (case split_lines cs of
              [] \<Rightarrow> [[c]]
            | l # ls \<Rightarrow> (c # l) # ls))"

text \<open>\<open>/a.*b.*c/.test(text)\<close> for literals \<open>a\<close>, \<open>b\<close>, \<open>c\<close> without line terminators: as the
  dot does not cross a line terminator, the literals must occur in this order, without
  overlap, within one line.\<close>

fun in_order :: "jsstring list \<Rightarrow> jsstring \<Rightarrow> bool" where
  "in_order [] line = True"
| "in_order (p # ps) line =
     (case after_first p line of None \<Rightarrow> False | Some rest \<Rightarrow> in_order ps rest)"

definition test_sequence :: "jsstring list \<Rightarrow> jsstring \<Rightarrow> bool" where
  "test_sequence ps text = list_ex (in_order ps) (split_lines text)"

text \<open>\<open>/[kana]+lit/.test(text)\<close>: some kana code unit stands immediately before an
  occurrence of the literal.\<close>

fun test_kana_then :: "jsstring \<Rightarrow> jsstring \<Rightarrow> bool" where
  "test_kana_then lit [] = False"
| "test_kana_then lit (c # cs) = ((kana c \<and> prefix lit cs) \<or> test_kana_then lit cs)"

text \<open>\<open>text.match(/(.{3,})\1+/g)\<close>, first element. At a position the group first takes
  the longest run without line terminator and shrinks until a copy of it follows; the
  copies that follow are then all taken.\<close>

function count_copies :: "jsstring \<Rightarrow> jsstring \<Rightarrow> nat" where
  "count_copies w s =
     (if w \<noteq> [] \<and> prefix w s then Suc (count_copies w (drop (length w) s)) else 0)"
  by pat_completeness auto
termination
  by (relation "measure (\<lambda>(w, s). length s)") (auto simp: prefix_def)

definition repeated_group :: "jsstring \<Rightarrow> nat option" where
  "repeated_group text =
     List.find (\<lambda>n. prefix (take n text) (drop n text))
       (rev [3 ..< Suc (length (takeWhile (\<lambda>c. \<not> line_terminator c) text))])"

fun first_repetition :: "jsstring \<Rightarrow> jsstring option" where
  "first_repetition [] = None"
| "first_repetition (c # cs) =
     (case repeated_group (c # cs) of
        Some n \<Rightarrow>
          Some (take (n * Suc (count_copies (take n (c # cs)) (drop n (c # cs)))) (c # cs))
      | None \<Rightarrow> first_repetition cs)"

text \<open>\<open>text.split(/\s+/)\<close>: the words between the runs of white space, with an empty
  word before a leading and behind a trailing run.\<close>

function split_whitespace :: "jsstring \<Rightarrow> jsstring list" where
  "split_whitespace [] = [[]]"
| "split_whitespace (c # cs) =
     (if js_whitespace c then [] # split_whitespace (dropWhile js_whitespace cs)
      else (case split_whitespace cs of
              [] \<Rightarrow> [[c]]
            | w # ws \<Rightarrow> (c # w) # ws))"
  by pat_completeness auto
termination
  by (relation "measure length") (auto simp: le_imp_less_Suc length_dropWhile_le)

subsection \<open>Data\<close>

text \<open>A learning pattern. For a correction the pattern is the text corrected (\<open>from\<close>),
  the kind is the type of correction, and \<open>to\<close> is present. The contexts are whatever the
  callers pass as context, here an optional label.\<close>

record learning_pattern =
  lp_type :: string
  lp_pattern :: jsstring
  lp_kind :: string
  lp_to :: "jsstring option"
  occurrences :: nat
  contexts :: "string option list"
  lp_confidence :: js_number

record feedback_payload =
  originalText :: jsstring
  convertedText :: jsstring
  userRating :: real
  userCorrection :: "jsstring option"
  fb_context :: "string option"
  fb_options :: "options option"
  fb_timestamp :: "int option"
  feedbackType :: "string option"

text \<open>The quotient of two lengths, \<open>a.length / b.length\<close>.\<close>

definition length_quotient :: "nat \<Rightarrow> nat \<Rightarrow> js_number" where
  "length_quotient a b = js_div (Finite (real a)) (Finite (real b))"

record quality_metrics =
  textLength :: nat
  conversionRatio :: js_number
  hasCorrection :: bool
  ratingCategory :: string

record stored_feedback =
  fb_id :: jsstring
  fb_payload :: feedback_payload
  stored_timestamp :: int
  stored_type :: string
  processed :: bool
  qualityMetrics :: quality_metrics

record context_preference =
  successfulPatterns :: "(string \<times> int) list"
  problematicPatterns :: "(string \<times> int) list"

record learner_preferences =
  preferredLevel :: js_number
  preferredStyle :: string
  avoidPatterns :: "jsstring list"
  favoritePatterns :: "jsstring list"
  contextPreferences :: "string \<rightharpoonup> context_preference"

text \<open>The three maps of a \<open>FeedbackLearning\<close> instance.\<close>

record learner_state =
  feedbackData :: "jsstring \<rightharpoonup> stored_feedback"
  learningPatterns :: "jsstring \<rightharpoonup> learning_pattern"
  learnerPreferences :: "string \<rightharpoonup> learner_preferences"

definition empty_learner :: learner_state where
  "empty_learner =
     \<lparr> feedbackData = Map.empty, learningPatterns = Map.empty,
       learnerPreferences = Map.empty \<rparr>"

text \<open>What the two identifying functions push: a type, a pattern and a grade (the
  severity of a problem or the quality of a success).\<close>

record identified_pattern =
  ip_type :: string
  ip_pattern :: jsstring
  ip_grade :: string

subsection \<open>Identifying patterns\<close>

definition excessive_apologies :: "jsstring \<Rightarrow> bool" where
  "excessive_apologies text = test_sequence [[0x6050, 0x308C, 0x5165, 0x308A, 0x307E, 0x3059], [0x6050, 0x7E2E], [0x7533, 0x3057, 0x8A33]] text"

text \<open>\<open>'length_ratio_' + Math.floor(lengthRatio)\<close>. The ratio is positive where the label
  is built, and the floor of a quotient of two lengths prints in plain decimal digits.\<close>

definition length_ratio_label :: "js_number \<Rightarrow> jsstring" where
  "length_ratio_label lengthRatio =
     ascii ''length_ratio_'' @
       (case lengthRatio of
          Finite q \<Rightarrow> decimal (nat \<lfloor>q\<rfloor>)
        | PlusInfinity \<Rightarrow> ascii ''Infinity''
        | MinusInfinity \<Rightarrow> ascii ''-Infinity''
        | NotANumber \<Rightarrow> ascii ''NaN'')"

definition identifyProblematicPatterns :: "jsstring \<Rightarrow> jsstring \<Rightarrow> identified_pattern list" where
  "identifyProblematicPatterns orig conv =
     (if excessive_apologies conv
      then [\<lparr> ip_type = ''excessive_politeness'', ip_pattern = ascii ''multiple_apologies'',
               ip_grade = ''high'' \<rparr>]
      else [])
     @ (case first_repetition conv of
          Some m \<Rightarrow> [\<lparr> ip_type = ''unnatural_repetition'', ip_pattern = m,
                        ip_grade = ''medium'' \<rparr>]
        | None \<Rightarrow> [])
     @ (if test_kana_then [0x3044, 0x305F, 0x3060, 0x3051, 0x307E, 0x3059, 0x3067, 0x3057, 0x3087, 0x3046, 0x304B] conv
        then [\<lparr> ip_type = ''incomplete_conversion'', ip_pattern = ascii ''casual_formal_mix'',
                 ip_grade = ''high'' \<rparr>]
        else [])
     @ (let lengthRatio = length_quotient (length conv) (length orig)
        in if js_gt lengthRatio (Finite 4)
           then [\<lparr> ip_type = ''excessive_expansion'',
                    ip_pattern = length_ratio_label lengthRatio, ip_grade = ''medium'' \<rparr>]
           else [])"

definition hasAppropriatePolitenesss :: "jsstring \<Rightarrow> bool" where
  "hasAppropriatePolitenesss text =
     (test_alts [[0x3044, 0x305F, 0x3060, 0x3051], [0x304A, 0x9858, 0x3044], [0x6050, 0x7E2E], [0x7533, 0x3057, 0x8A33]] text \<and> \<not> excessive_apologies text)"

definition hasNaturalFlow :: "jsstring \<Rightarrow> bool" where
  "hasNaturalFlow text = (\<not> test_alts [[0x3067, 0x3059, 0x3002, 0x3002], [0x307E, 0x3059, 0x3002, 0x3067, 0x3059]] text)"

definition identifySuccessfulPatterns :: "jsstring \<Rightarrow> jsstring \<Rightarrow> identified_pattern list" where
  "identifySuccessfulPatterns orig conv =
     (if test_alts [[0x3084, 0x3093], [0x3084, 0x3067], [0x3060, 0x3079]] orig \<and> test_alts [[0x3067, 0x3059], [0x307E, 0x3059]] conv
      then [\<lparr> ip_type = ''dialect_conversion'',
               ip_pattern = ascii ''successful_standardization'', ip_grade = ''high'' \<rparr>]
      else [])
     @ (if hasAppropriatePolitenesss conv
        then [\<lparr> ip_type = ''politeness_level'', ip_pattern = ascii ''appropriate_keigo'',
                 ip_grade = ''high'' \<rparr>]
        else [])
     @ (if hasNaturalFlow conv
        then [\<lparr> ip_type = ''sentence_flow'', ip_pattern = ascii ''natural_transition'',
                 ip_grade = ''high'' \<rparr>]
        else [])"

text \<open>A correction found between the output and the user's text.\<close>

record correction =
  co_type :: string
  co_from :: jsstring
  co_to :: jsstring
  co_position :: "nat option"

text \<open>\<open>words[i] || ''\<close>.\<close>

definition word_at :: "jsstring list \<Rightarrow> nat \<Rightarrow> jsstring" where
  "word_at ws i = (if i < length ws then ws ! i else [])"

definition phraseCorrections :: "(jsstring \<times> jsstring) list" where
  "phraseCorrections =
    [([0x3044, 0x305F, 0x3060, 0x3051, 0x307E, 0x3059, 0x3067, 0x3057, 0x3087, 0x3046, 0x304B], [0x304A, 0x9858, 0x3044, 0x3057, 0x307E, 0x3059]),
     ([0x6050, 0x308C, 0x5165, 0x308A, 0x307E, 0x3059, 0x304C], [0x3059, 0x307F, 0x307E, 0x305B, 0x3093, 0x304C]),
     ([0x3088, 0x308D, 0x3057, 0x304F, 0x304A, 0x9858, 0x3044, 0x3044, 0x305F, 0x3057, 0x307E, 0x3059], [0x3088, 0x308D, 0x3057, 0x304F, 0x304A, 0x9858, 0x3044, 0x3057, 0x307E, 0x3059])]"

definition findPhraseDifferences :: "jsstring \<Rightarrow> jsstring \<Rightarrow> correction list" where
  "findPhraseDifferences aiOutput correctionText =
     map (\<lambda>(f, t). \<lparr> co_type = ''phrase_correction'', co_from = f, co_to = t,
                      co_position = None \<rparr>)
       (filter (\<lambda>(f, t). js_includes aiOutput f \<and> js_includes correctionText t)
          phraseCorrections)"

definition analyzeCorrectionDifferences :: "jsstring \<Rightarrow> jsstring \<Rightarrow> correction list" where
  "analyzeCorrectionDifferences aiOutput correctionText =
     (let aiWords = split_whitespace aiOutput;
          userWords = split_whitespace correctionText;
          maxLength = max (length aiWords) (length userWords)
      in concat
           (map (\<lambda>i. let aiWord = word_at aiWords i; userWord = word_at userWords i
                      in if aiWord \<noteq> userWord \<and> aiWord \<noteq> [] \<and> userWord \<noteq> []
                         then [\<lparr> co_type = ''word_substitution'', co_from = aiWord,
                                  co_to = userWord, co_position = Some i \<rparr>]
                         else [])
              [0 ..< maxLength])
         @ findPhraseDifferences aiOutput correctionText)"

subsection \<open>Learning\<close>

text \<open>\<open>Math.min\<close> of two numbers.\<close>

definition Math_min :: "js_number \<Rightarrow> js_number \<Rightarrow> js_number" where
  "Math_min a b =
     (if a = NotANumber \<or> b = NotANumber then NotANumber
      else if js_less b a then b else a)"

text \<open>The common body of the three extraction loops: create the pattern under its key if
  the map has none, then count the occurrence, record the context and recompute the
  confidence as \<open>Math.min(cap, occurrences * step)\<close>.\<close>

definition learn ::
  "jsstring \<Rightarrow> learning_pattern \<Rightarrow> js_number \<Rightarrow> js_number \<Rightarrow> string option
     \<Rightarrow> (jsstring \<rightharpoonup> learning_pattern) \<Rightarrow> (jsstring \<rightharpoonup> learning_pattern)" where
  "learn key fresh cap step ctx patterns =
     (let existing = (case patterns key of None \<Rightarrow> fresh | Some p \<Rightarrow> p);
          n = Suc (occurrences existing)
      in patterns(key \<mapsto> existing\<lparr>occurrences := n,
                                    contexts := contexts existing @ [ctx],
                                    lp_confidence :=
                                      Math_min cap (js_mul (Finite (real n)) step)\<rparr>))"

definition negative_key :: "identified_pattern \<Rightarrow> jsstring" where
  "negative_key p = ascii ''negative_'' @ ascii (ip_type p) @ ascii ''_'' @ ip_pattern p"

definition positive_key :: "identified_pattern \<Rightarrow> jsstring" where
  "positive_key p = ascii ''positive_'' @ ascii (ip_type p) @ ascii ''_'' @ ip_pattern p"

definition correction_key :: "correction \<Rightarrow> jsstring" where
  "correction_key c = ascii ''correction_'' @ ascii (co_type c) @ ascii ''_'' @ co_from c"

definition fresh_pattern :: "string \<Rightarrow> identified_pattern \<Rightarrow> learning_pattern" where
  "fresh_pattern kind p =
     \<lparr> lp_type = kind, lp_pattern = ip_pattern p, lp_kind = ip_type p, lp_to = None,
       occurrences = 0, contexts = [], lp_confidence = Finite 0 \<rparr>"

definition fresh_correction :: "correction \<Rightarrow> learning_pattern" where
  "fresh_correction c =
     \<lparr> lp_type = ''correction'', lp_pattern = co_from c, lp_kind = co_type c,
       lp_to = Some (co_to c), occurrences = 0, contexts = [], lp_confidence = Finite 0 \<rparr>"

definition extractNegativeFeedbackPatterns ::
  "feedback_payload \<Rightarrow> (jsstring \<rightharpoonup> learning_pattern) \<Rightarrow> (jsstring \<rightharpoonup> learning_pattern)" where
  "extractNegativeFeedbackPatterns fb patterns =
     fold (\<lambda>p. learn (negative_key p) (fresh_pattern ''negative'' p) (binary64 0.95) (binary64 0.1)
             (fb_context fb))
       (identifyProblematicPatterns (originalText fb) (convertedText fb)) patterns"

definition extractPositiveFeedbackPatterns ::
  "feedback_payload \<Rightarrow> (jsstring \<rightharpoonup> learning_pattern) \<Rightarrow> (jsstring \<rightharpoonup> learning_pattern)" where
  "extractPositiveFeedbackPatterns fb patterns =
     fold (\<lambda>p. learn (positive_key p) (fresh_pattern ''positive'' p) (binary64 0.95) (binary64 0.15)
             (fb_context fb))
       (identifySuccessfulPatterns (originalText fb) (convertedText fb)) patterns"

definition extractCorrectionPatterns ::
  "feedback_payload \<Rightarrow> jsstring \<Rightarrow> (jsstring \<rightharpoonup> learning_pattern)
     \<Rightarrow> (jsstring \<rightharpoonup> learning_pattern)" where
  "extractCorrectionPatterns fb correctionText patterns =
     fold (\<lambda>c. learn (correction_key c) (fresh_correction c) (binary64 0.9) (binary64 0.2)
             (fb_context fb))
       (analyzeCorrectionDifferences (convertedText fb) correctionText) patterns"

subsection \<open>Preferences\<close>

definition default_preferences :: learner_preferences where
  "default_preferences =
     \<lparr> preferredLevel = Finite 3, preferredStyle = ''balanced'', avoidPatterns = [],
       favoritePatterns = [], contextPreferences = Map.empty \<rparr>"

text \<open>\<open>updateUserPreferences\<close> of the learner. After a rating of 4 or more it reads
  \<open>feedback.options.level\<close>, which raises when the payload has no options; the default
  entry, if it had to be created, has been stored by then. \<open>contextPreferences\<close> is a
  plain object: for a context named like a member of \<open>Object.prototype\<close> that is no own
  property, the lookup finds the inherited member, no entry is created, and pushing to its
  missing list raises. What has been assigned before an exception stays assigned.\<close>

definition learner_updateUserPreferences ::
  "learner_state \<Rightarrow> feedback_payload \<Rightarrow> int \<Rightarrow> js_error \<times> learner_state + learner_state" where
  "learner_updateUserPreferences s fb stamp =
     (let prefs0 = (case learnerPreferences s ''default'' of
                      None \<Rightarrow> default_preferences | Some p \<Rightarrow> p);
          s0 = s\<lparr>learnerPreferences := (learnerPreferences s)(''default'' \<mapsto> prefs0)\<rparr>
      in if userRating fb \<ge> 4 \<and> fb_options fb = None
         then Inl (TypeError [0x0043, 0x0061, 0x006E, 0x006E, 0x006F, 0x0074, 0x0020, 0x0072, 0x0065, 0x0061, 0x0064, 0x0020, 0x0070, 0x0072, 0x006F, 0x0070, 0x0065, 0x0072, 0x0074, 0x0069, 0x0065, 0x0073, 0x0020, 0x006F, 0x0066, 0x0020, 0x0075, 0x006E, 0x0064, 0x0065, 0x0066, 0x0069, 0x006E, 0x0065, 0x0064, 0x0020, 0x0028, 0x0072, 0x0065, 0x0061, 0x0064, 0x0069, 0x006E, 0x0067, 0x0020, 0x0027, 0x006C, 0x0065, 0x0076, 0x0065, 0x006C, 0x0027, 0x0029], s0)
         else
           (let prefs1 =
                  (if userRating fb \<ge> 4
                   then (let targetLevel =
                               (case fb_options fb of
                                  Some opts \<Rightarrow>
                                    (case opt_level opts of
                                       Some l \<Rightarrow> if l = 0 then 3 else l
                                     | None \<Rightarrow> 3)
                                | None \<Rightarrow> 3)
                         in prefs0\<lparr>preferredLevel :=
                                     Math_round
                                       (js_div (js_add (preferredLevel prefs0)
                                                  (Finite targetLevel))
                                          (Finite 2))\<rparr>)
                   else prefs0);
                s1 = s\<lparr>learnerPreferences := (learnerPreferences s)(''default'' \<mapsto> prefs1)\<rparr>;
                label = (case fb_context fb of
                           Some c \<Rightarrow> if c = [] then ''general'' else c
                         | None \<Rightarrow> ''general'')
            in if contextPreferences prefs1 label = None \<and> label \<in> set object_prototype_keys
               then (if userRating fb \<le> 2 \<or> userRating fb \<ge> 4
                     then Inl (TypeError
                                 [0x0043, 0x0061, 0x006E, 0x006E, 0x006F, 0x0074, 0x0020, 0x0072, 0x0065, 0x0061, 0x0064, 0x0020, 0x0070, 0x0072, 0x006F, 0x0070, 0x0065, 0x0072, 0x0074, 0x0069, 0x0065, 0x0073, 0x0020, 0x006F, 0x0066, 0x0020, 0x0075, 0x006E, 0x0064, 0x0065, 0x0066, 0x0069, 0x006E, 0x0065, 0x0064, 0x0020, 0x0028, 0x0072, 0x0065, 0x0061, 0x0064, 0x0069, 0x006E, 0x0067, 0x0020, 0x0027, 0x0070, 0x0075, 0x0073, 0x0068, 0x0027, 0x0029], s1)
                     else Inr s1)
               else
                 (let entry0 = (case contextPreferences prefs1 label of
                                  None \<Rightarrow> \<lparr> successfulPatterns = [], problematicPatterns = [] \<rparr>
                                | Some e \<Rightarrow> e);
                      entry1 =
                        (if userRating fb \<le> 2
                         then entry0\<lparr>problematicPatterns :=
                                        problematicPatterns entry0 @ [(''low_rating'', stamp)]\<rparr>
                         else if userRating fb \<ge> 4
                         then entry0\<lparr>successfulPatterns :=
                                        successfulPatterns entry0 @ [(''high_rating'', stamp)]\<rparr>
                         else entry0);
                      prefs2 = prefs1\<lparr>contextPreferences :=
                                        (contextPreferences prefs1)(label \<mapsto> entry1)\<rparr>
                  in Inr (s\<lparr>learnerPreferences :=
                              (learnerPreferences s)(''default'' \<mapsto> prefs2)\<rparr>))))"

subsection \<open>Collecting feedback\<close>

definition getRatingCategory :: "real \<Rightarrow> string" where
  "getRatingCategory rating =
     (if rating \<ge> 4 then ''positive'' else if rating \<le> 2 then ''negative'' else ''neutral'')"

definition calculateFeedbackMetrics :: "feedback_payload \<Rightarrow> quality_metrics" where
  "calculateFeedbackMetrics fb =
     \<lparr> textLength = length (originalText fb),
       conversionRatio = length_quotient (length (convertedText fb)) (length (originalText fb)),
       hasCorrection = (case userCorrection fb of Some c \<Rightarrow> c \<noteq> [] | None \<Rightarrow> False),
       ratingCategory = getRatingCategory (userRating fb) \<rparr>"

text \<open>\<open>processFeedback\<close>: the patterns are learned first, then the preferences are
  updated; an exception is caught and logged, leaving what was done before it and the
  \<open>processed\<close> flag unset. The result is the new state and the flag.\<close>

definition processFeedback :: "learner_state \<Rightarrow> feedback_payload \<Rightarrow> int \<Rightarrow> learner_state \<times> bool" where
  "processFeedback s fb stamp =
     (let p1 = (if userRating fb \<le> 2
                then extractNegativeFeedbackPatterns fb (learningPatterns s)
                else if userRating fb \<ge> 4
                then extractPositiveFeedbackPatterns fb (learningPatterns s)
                else learningPatterns s);
          p2 = (case userCorrection fb of
                  Some c \<Rightarrow> if c \<noteq> [] then extractCorrectionPatterns fb c p1 else p1
                | None \<Rightarrow> p1);
          s2 = s\<lparr>learningPatterns := p2\<rparr>
      in case learner_updateUserPreferences s2 fb stamp of
           Inr s3 \<Rightarrow> (s3, True)
         | Inl (err, s3) \<Rightarrow> (s3, False))"

text \<open>\<open>collectFeedback\<close>. The identifier (twelve characters of the base-64 form of the
  two texts and the time stamp) is computed by \<open>make_id\<close>, a parameter here, and \<open>now\<close> is
  what \<open>Date.now()\<close> gives when the payload has no time stamp. Writing the maps to
  \<open>localStorage\<close> changes nothing in the instance. The result is the identifier and the
  new state.\<close>

definition collectFeedback ::
  "(jsstring \<Rightarrow> jsstring \<Rightarrow> int \<Rightarrow> jsstring) \<Rightarrow> int \<Rightarrow> learner_state \<Rightarrow> feedback_payload
     \<Rightarrow> jsstring \<times> learner_state" where
  "collectFeedback make_id now s fb =
     (let stamp = (case fb_timestamp fb of Some t \<Rightarrow> t | None \<Rightarrow> now);
          kind = (case feedbackType fb of Some k \<Rightarrow> k | None \<Rightarrow> ''rating'');
          feedbackId = make_id (originalText fb) (convertedText fb) stamp;
          stored = \<lparr> fb_id = feedbackId, fb_payload = fb, stored_timestamp = stamp,
                     stored_type = kind, processed = False,
                     qualityMetrics = calculateFeedbackMetrics fb \<rparr>;
          (s1, done) = processFeedback s fb stamp
      in (feedbackId,
          s1\<lparr>feedbackData := (feedbackData s1)(feedbackId \<mapsto> stored\<lparr>processed := done\<rparr>)\<rparr>))"


section \<open>Sample inputs\<close>

text \<open>Concrete texts at which the theorems below are instantiated.\<close>

definition sample_request :: jsstring where
  "sample_request = [0x78BA, 0x8A8D, 0x3057, 0x3066, 0xFF1F]"

definition sample_morning :: jsstring where
  "sample_morning = [0x304A, 0x306F, 0x3088, 0x3046]"

definition sample_reschedule :: jsstring where
  "sample_reschedule = [0x30EA, 0x30B9, 0x30B1]"

definition sample_update :: jsstring where
  "sample_update = [0x30A2, 0x30D7, 0x30C7, 0x3057, 0x3068, 0x3044, 0x3066, 0x304F, 0x308C, 0x308B, 0xFF1F]"

definition sample_clock :: clock where
  "sample_clock =
     \<lparr> startTime = 1000, clock_hour = 9, storeTimestamp = [0x0032, 0x0030, 0x0032, 0x0034, 0x002D, 0x0030, 0x0031, 0x002D, 0x0030, 0x0031, 0x0054, 0x0030, 0x0039, 0x003A, 0x0030, 0x0030, 0x003A, 0x0030, 0x0030, 0x002E, 0x0030, 0x0030, 0x0030, 0x005A],
       endTime = 1005, resultTimestamp = [0x0032, 0x0030, 0x0032, 0x0034, 0x002D, 0x0030, 0x0031, 0x002D, 0x0030, 0x0031, 0x0054, 0x0030, 0x0039, 0x003A, 0x0030, 0x0030, 0x003A, 0x0030, 0x0030, 0x002E, 0x0030, 0x0030, 0x0035, 0x005A] \<rparr>"

definition zero_rng :: rng where
  "zero_rng = (\<lambda>n. 0)"

definition level2_options :: options where
  "level2_options = \<lparr> opt_level = Some 2, opt_preferredApproach = None \<rparr>"

definition superior_context :: descriptor where
  "superior_context =
     \<lparr> intent = ''request'', urgency = ''urgent'', relationship = ''superior'',
       situation = ''business'', formalityLevel = ''very-casual'', timeContext = ''morning'',
       improvementNeeds = \<lparr> flagged = False, issues = [], severity = Some ''low'' \<rparr>,
       casualWords = [] \<rparr>"

definition subordinate_context :: descriptor where
  "subordinate_context = superior_context\<lparr>relationship := ''subordinate''\<rparr>"


section \<open>Properties of the context analyzer\<close>

lemma math_max_attained: "math_max values = 0 \<or> math_max values \<in> set values"
proof -
  have "fold max values 0 = Max (set (0 # values))"
    by (simp only: Max.set_eq_fold)
  moreover have "Max (set (0 # values)) \<in> set (0 # values)"
    by (rule Max_in) simp_all
  ultimately show ?thesis
    by (auto simp: math_max_def)
qed

lemma math_max_upper: "v \<in> set values \<Longrightarrow> v \<le> math_max values"
proof -
  assume "v \<in> set values"
  then have "v \<le> Max (set (0 # values))"
    by (intro Max_ge) simp_all
  then show ?thesis
    by (simp only: math_max_def Max.set_eq_fold)
qed

lemma find_Some_split:
  "List.find P xs = Some x \<Longrightarrow> \<exists>pre post. xs = pre @ x # post \<and> P x \<and> (\<forall>y \<in> set pre. \<not> P y)"
proof (induction xs)
  case Nil
  then show ?case by simp
next
  case (Cons a xs)
  show ?case
  proof (cases "P a")
    case True
    with Cons.prems have "a = x" by simp
    with True have "a # xs = [] @ x # xs \<and> P x \<and> (\<forall>y \<in> set []. \<not> P y)" by simp
    then show ?thesis by blast
  next
    case False
    with Cons.prems have "List.find P xs = Some x" by simp
    from Cons.IH[OF this] obtain pre post where "xs = pre @ x # post" "P x" "\<forall>y \<in> set pre. \<not> P y"
      by blast
    with False have "a # xs = (a # pre) @ x # post \<and> P x \<and> (\<forall>y \<in> set (a # pre). \<not> P y)" by simp
    then show ?thesis by blast
  qed
qed

lemma highest_scoring_cases:
  "(math_max (map snd sc) = 0 \<and> highest_scoring sc = ''unknown'') \<or>
   (\<exists>pre k s post. sc = pre @ (k, s) # post \<and> highest_scoring sc = k \<and> s = math_max (map snd sc)
       \<and> 0 < s \<and> (\<forall>p \<in> set pre. snd p \<noteq> s))"
proof (cases "math_max (map snd sc) = 0")
  case True
  then show ?thesis by (simp add: highest_scoring_def)
next
  case False
  let ?m = "math_max (map snd sc)"
  let ?P = "\<lambda>(key, score). score = ?m"
  from False math_max_attained[of "map snd sc"] have "?m \<in> set (map snd sc)" by auto
  then obtain e where e: "e \<in> set sc" "snd e = ?m" by auto
  have "List.find ?P sc \<noteq> None"
  proof
    assume "List.find ?P sc = None"
    then show False using e by (cases e) (auto simp: find_None_iff)
  qed
  then obtain x where f: "List.find ?P sc = Some x" by auto
  obtain k s where x: "x = (k, s)" by (cases x)
  from find_Some_split[OF f] obtain pre post
    where sp: "sc = pre @ x # post" "?P x" "\<forall>y \<in> set pre. \<not> ?P y" by blast
  from sp(2) x have s: "s = ?m" by simp
  have "\<forall>p \<in> set pre. snd p \<noteq> s"
  proof
    fix p assume "p \<in> set pre"
    with sp(3) have "\<not> ?P p" by blast
    then show "snd p \<noteq> s" unfolding s by (cases p) simp
  qed
  moreover have "highest_scoring sc = k" using False f x by (simp add: highest_scoring_def)
  moreover have "sc = pre @ (k, s) # post" using sp(1) x by simp
  ultimately show ?thesis using False s by (metis neq0_conv)
qed

lemma highest_scoring_range: "highest_scoring sc \<in> insert ''unknown'' (fst ` set sc)"
proof -
  from highest_scoring_cases[of sc] show ?thesis
  proof
    assume "math_max (map snd sc) = 0 \<and> highest_scoring sc = ''unknown''"
    then show ?thesis by simp
  next
    assume "\<exists>pre k s post. sc = pre @ (k, s) # post \<and> highest_scoring sc = k \<and>
        s = math_max (map snd sc) \<and> 0 < s \<and> (\<forall>p \<in> set pre. snd p \<noteq> s)"
    then obtain pre k s post where "sc = pre @ (k, s) # post" "highest_scoring sc = k" by blast
    then have "(k, s) \<in> set sc" "highest_scoring sc = fst (k, s)" by simp_all
    then show ?thesis by (metis image_eqI insertI2)
  qed
qed

lemma first_matching_range: "first_matching table t = Some c \<Longrightarrow> c \<in> fst ` set table"
proof -
  assume "first_matching table t = Some c"
  then obtain e where f: "List.find (\<lambda>(category, patterns). list_ex (js_includes t) patterns) table = Some e"
      and c: "c = fst e"
    by (auto simp: first_matching_def)
  from find_Some_split[OF f] have "e \<in> set table" by auto
  with c show ?thesis by simp
qed

text \<open>
  C3 (as amended). For every text and every clock reading the analyzer returns a descriptor
  whose intent is one of request, question, report, apology, greeting, complaint or unknown
  (never appreciation or general), whose urgency is one of urgent, normal, relaxed, whose
  relationship is one of superior, colleague, subordinate, customer, unknown, whose
  situation is one of business, technical, casual, general and whose formality level is one
  of the five bands. The intent is unknown exactly when no intent pattern occurs; otherwise
  it is the category with the highest pattern-match count, and among categories with the
  same highest count the first in table order.
\<close>

theorem C3_descriptor_fields:
  "intent (analyzeContext hour t) \<in>
     {''request'', ''question'', ''report'', ''apology'', ''greeting'', ''complaint'', ''unknown''}
   \<and> urgency (analyzeContext hour t) \<in> {''urgent'', ''normal'', ''relaxed''}
   \<and> relationship (analyzeContext hour t) \<in>
     {''superior'', ''colleague'', ''subordinate'', ''customer'', ''unknown''}
   \<and> situation (analyzeContext hour t) \<in> {''business'', ''technical'', ''casual'', ''general''}
   \<and> formalityLevel (analyzeContext hour t) \<in>
     {''very-formal'', ''formal'', ''neutral'', ''casual'', ''very-casual''}
   \<and> ((intent (analyzeContext hour t) = ''unknown'') =
        (\<forall>p \<in> set (category_scores intentPatterns t). snd p = 0))
   \<and> (intent (analyzeContext hour t) \<noteq> ''unknown'' \<longrightarrow>
        (\<exists>before count after.
            category_scores intentPatterns t
              = before @ (intent (analyzeContext hour t), count) # after
            \<and> (\<forall>p \<in> set before. snd p < count) \<and> (\<forall>p \<in> set after. snd p \<le> count)))"
proof -
  define d where "d = analyzeContext hour t"
  define scores where "scores = category_scores intentPatterns t"
  have f1: "intent d \<in> {''request'', ''question'', ''report'', ''apology'', ''greeting'',
                      ''complaint'', ''unknown''}"
    using highest_scoring_range[of scores]
    by (auto simp: d_def scores_def analyzeContext_def analyzeIntent_def category_scores_def intentPatterns_def)
  have f2: "urgency d \<in> {''urgent'', ''normal'', ''relaxed''}"
    using first_matching_range[of urgencyIndicators t]
    by (auto simp: d_def analyzeContext_def detectUrgency_def urgencyIndicators_def split: option.splits)
  have f3: "relationship d \<in> {''superior'', ''colleague'', ''subordinate'', ''customer'', ''unknown''}"
    using highest_scoring_range[of "category_scores relationshipIndicators t"]
    by (auto simp: d_def analyzeContext_def estimateRelationship_def category_scores_def relationshipIndicators_def)
  have f4: "situation d \<in> {''business'', ''technical'', ''casual'', ''general''}"
    by (simp add: d_def analyzeContext_def detectSituation_def)
  have f5: "formalityLevel d \<in> {''very-formal'', ''formal'', ''neutral'', ''casual'', ''very-casual''}"
    by (simp add: d_def analyzeContext_def assessFormality_def Let_def)
  have keys: "''unknown'' \<notin> fst ` set scores"
    by (simp add: scores_def category_scores_def intentPatterns_def)
  have id: "intent d = highest_scoring scores"
    by (simp add: d_def scores_def analyzeContext_def analyzeIntent_def)
  from highest_scoring_cases[of scores]
  have f6: "(intent d = ''unknown'') = (\<forall>p \<in> set scores. snd p = 0)"
  proof
    assume a: "math_max (map snd scores) = 0 \<and> highest_scoring scores = ''unknown''"
    have "\<forall>p \<in> set scores. snd p = 0"
    proof
      fix p assume "p \<in> set scores"
      then have "snd p \<le> math_max (map snd scores)" by (intro math_max_upper) simp
      with a show "snd p = 0" by simp
    qed
    with a id show ?thesis by simp
  next
    assume "\<exists>pre k s post. scores = pre @ (k, s) # post \<and> highest_scoring scores = k \<and>
        s = math_max (map snd scores) \<and> 0 < s \<and> (\<forall>p \<in> set pre. snd p \<noteq> s)"
    then obtain pre k s post where b: "scores = pre @ (k, s) # post" "highest_scoring scores = k" "0 < s"
      by blast
    have mem: "(k, s) \<in> set scores" using b(1) by simp
    have "k \<noteq> ''unknown''"
    proof
      assume "k = ''unknown''"
      with mem have "''unknown'' \<in> fst ` set scores" by force
      with keys show False ..
    qed
    then show ?thesis using mem b id by force
  qed
  from highest_scoring_cases[of scores]
  have f7: "intent d \<noteq> ''unknown'' \<longrightarrow>
           (\<exists>before count after. scores = before @ (intent d, count) # after
               \<and> (\<forall>p \<in> set before. snd p < count) \<and> (\<forall>p \<in> set after. snd p \<le> count))"
  proof
    assume "math_max (map snd scores) = 0 \<and> highest_scoring scores = ''unknown''"
    with id show ?thesis by simp
  next
    assume "\<exists>pre k s post. scores = pre @ (k, s) # post \<and> highest_scoring scores = k \<and>
        s = math_max (map snd scores) \<and> 0 < s \<and> (\<forall>p \<in> set pre. snd p \<noteq> s)"
    then obtain pre k s post where b: "scores = pre @ (k, s) # post" "highest_scoring scores = k"
        "s = math_max (map snd scores)" "\<forall>p \<in> set pre. snd p \<noteq> s"
      by blast
    have le: "\<And>p. p \<in> set scores \<Longrightarrow> snd p \<le> s"
      unfolding b(3) by (intro math_max_upper) simp
    have "\<forall>p \<in> set pre. snd p < s"
    proof
      fix p assume p: "p \<in> set pre"
      then have "p \<in> set scores" using b(1) by simp
      from le[OF this] b(4) p show "snd p < s" by (simp add: le_neq_implies_less)
    qed
    moreover have "\<forall>p \<in> set post. snd p \<le> s"
    proof
      fix p assume "p \<in> set post"
      then have "p \<in> set scores" using b(1) by simp
      from le[OF this] show "snd p \<le> s" .
    qed
    ultimately have "scores = pre @ (intent d, s) # post \<and> (\<forall>p \<in> set pre. snd p < s)
        \<and> (\<forall>p \<in> set post. snd p \<le> s)"
      using b(1,2) id by simp
    then show ?thesis by blast
  qed
  from f1 f2 f3 f4 f5 f6 f7 show ?thesis
    unfolding d_def scores_def by (intro conjI)
qed

lemma sample_intent: "intent (analyzeContext 9 sample_request) = ''request''"
  by (simp add: sample_request_def analyzeContext_def analyzeIntent_def highest_scoring_def category_scores_def intentPatterns_def math_max_def match_length_def)

theorem C3_descriptor_fields_witness:
  "intent (analyzeContext 9 sample_request) \<noteq> ''unknown''
   \<and> (\<exists>before count after.
            category_scores intentPatterns sample_request
              = before @ (intent (analyzeContext 9 sample_request), count) # after
            \<and> (\<forall>p \<in> set before. snd p < count) \<and> (\<forall>p \<in> set after. snd p \<le> count))"
  using C3_descriptor_fields[of 9 sample_request] sample_intent by simp

text \<open>
  C3 as stated fails: for the empty text the intent is \<open>unknown\<close>, which is none of the
  eight values the claim enumerates.
\<close>

theorem C3_intent_counterexample:
  "intent (analyzeContext 9 []) \<notin>
     {''request'', ''question'', ''report'', ''apology'', ''greeting'', ''complaint'',
      ''appreciation'', ''general''}"
  by (simp add: analyzeContext_def analyzeIntent_def highest_scoring_def category_scores_def intentPatterns_def math_max_def match_length_def)


text \<open>
  C9 (as amended). The descriptor is a function of the text and of the hour of the wall
  clock: two readings give descriptors that agree in every field but the time context; if
  the text contains one of the time patterns the clock is not consulted and the descriptors
  are equal; otherwise the time context is the band of the current hour.
\<close>

theorem C9_analyze_reads_clock:
  "analyzeContext h1 t = (analyzeContext h2 t)\<lparr>timeContext := detectTimeContext h1 t\<rparr>
   \<and> (first_matching timePatterns t \<noteq> None \<longrightarrow> analyzeContext h1 t = analyzeContext h2 t)
   \<and> (first_matching timePatterns t = None \<longrightarrow>
        timeContext (analyzeContext h1 t)
          = (if h1 < 12 then ''morning'' else if h1 < 18 then ''afternoon'' else ''evening''))"
  by (auto simp: analyzeContext_def detectTimeContext_def)

theorem C9_analyze_reads_clock_witness:
  "first_matching timePatterns sample_morning \<noteq> None
   \<and> analyzeContext 9 sample_morning = analyzeContext 20 sample_morning
   \<and> first_matching timePatterns [] = None
   \<and> timeContext (analyzeContext 20 []) = ''evening''"
proof -
  have a: "first_matching timePatterns sample_morning \<noteq> None"
    by (simp add: first_matching_def timePatterns_def sample_morning_def)
  have b: "first_matching timePatterns [] = None"
    by (simp add: first_matching_def timePatterns_def)
  have c: "analyzeContext 9 sample_morning = analyzeContext 20 sample_morning"
    using a C9_analyze_reads_clock[of 9 sample_morning 20] by blast
  have "first_matching timePatterns [] = None \<longrightarrow>
        timeContext (analyzeContext 20 [])
          = (if (20::nat) < 12 then ''morning'' else if (20::nat) < 18 then ''afternoon'' else ''evening'')"
    using C9_analyze_reads_clock[of 20 "[]" 9] by blast
  with b have d: "timeContext (analyzeContext 20 []) = ''evening''" by simp
  from a b c d show ?thesis by blast
qed

text \<open>
  C9 as stated fails: the same (empty) text analysed at nine in the morning and at eight
  in the evening gives two different descriptors.
\<close>

theorem C9_purity_counterexample: "analyzeContext 9 [] \<noteq> analyzeContext 20 []"
  by (simp add: analyzeContext_def detectTimeContext_def first_matching_def timePatterns_def)


section \<open>Properties of the quality scorer\<close>

text \<open>How the rounding function is evaluated, and the doubles that the literals of the
  scorer denote.\<close>

lemma exponent_up_numeral:
  "exponent_up (numeral n) x = (if x < 2 then 0 else exponent_up (pred_numeral n) (x / 2) + 1)"
  by (simp add: numeral_eq_Suc)

lemma exponent_down_numeral:
  "exponent_down (numeral n) x = (if 1 \<le> x then 0 else exponent_down (pred_numeral n) (x * 2) - 1)"
  by (simp add: numeral_eq_Suc)

lemmas binary64_eval = binary64_def exponent_def exponent_up_numeral exponent_down_numeral
  pow2_def round_half_even_def Let_def

lemma literal_03: "binary64 0.3 = Finite (5404319552844595 / 2 ^ 54)"
  by (simp add: binary64_eval)
lemma literal_025: "binary64 0.25 = Finite (1 / 4)"
  by (simp add: binary64_eval)
lemma literal_015: "binary64 0.15 = Finite (5404319552844595 / 2 ^ 55)"
  by (simp add: binary64_eval)
lemma literal_05: "binary64 0.5 = Finite (1 / 2)"
  by (simp add: binary64_eval)
lemma literal_09: "binary64 0.9 = Finite (8106479329266893 / 2 ^ 53)"
  by (simp add: binary64_eval)
lemma literal_08: "binary64 0.8 = Finite (3602879701896397 / 2 ^ 52)"
  by (simp add: binary64_eval)
lemma literal_07: "binary64 0.7 = Finite (3152519739159347 / 2 ^ 52)"
  by (simp add: binary64_eval)
lemma literal_06: "binary64 0.6 = Finite (5404319552844595 / 2 ^ 53)"
  by (simp add: binary64_eval)
lemma literal_04: "binary64 0.4 = Finite (3602879701896397 / 2 ^ 53)"
  by (simp add: binary64_eval)

lemma total_weight:
  "js_add (js_add (js_add (js_add (Finite 0) (binary64 0.3)) (binary64 0.3)) (binary64 0.25))
      (binary64 0.15) = Finite 1"
  unfolding literal_03 literal_025 literal_015
  by (simp add: binary64_eval)

lemma weight_of_axes:
  "weight_of ''naturalness'' = Some (binary64 0.3)"
  "weight_of ''intentPreservation'' = Some (binary64 0.3)"
  "weight_of ''appropriateness'' = Some (binary64 0.25)"
  "weight_of ''completeness'' = Some (binary64 0.15)"
proof -
  have "truthy (binary64 0.3) \<and> truthy (binary64 0.25) \<and> truthy (binary64 0.15)"
    unfolding literal_03 literal_025 literal_015 truthy_def by simp
  then show "weight_of ''naturalness'' = Some (binary64 0.3)"
    "weight_of ''intentPreservation'' = Some (binary64 0.3)"
    "weight_of ''appropriateness'' = Some (binary64 0.25)"
    "weight_of ''completeness'' = Some (binary64 0.15)"
    by (simp_all add: weight_of_def quality_weights_def)
qed

lemma weighted_totals_axes:
  "weighted_totals (axis_scores n i a c) (Finite 0, Some (Finite 0))
     = (js_add (js_add (js_add (js_add (Finite 0) (js_mul n (binary64 0.3)))
                 (js_mul i (binary64 0.3))) (js_mul a (binary64 0.25))) (js_mul c (binary64 0.15)),
        Some (Finite 1))"
  unfolding axis_scores_def
  by (simp only: weighted_totals.simps weight_of_axes option.case prod.case option.map
      total_weight)

lemma overall_axes:
  "calculateOverallScore (axis_scores n i a c)
     = js_div (js_add (js_add (js_add (js_add (Finite 0) (js_mul n (binary64 0.3)))
                 (js_mul i (binary64 0.3))) (js_mul a (binary64 0.25))) (js_mul c (binary64 0.15)))
         (Finite 1)"
  unfolding calculateOverallScore_def weighted_totals_axes
  by (simp add: js_gt_def)

lemma exponent_down_le: "exponent_down k x \<le> 0"
proof (induction k arbitrary: x)
  case 0
  show ?case by simp
next
  case (Suc k)
  have "exponent_down k (x * 2) \<le> 0" by (rule Suc)
  then show ?case by simp
qed

lemma exponent_small: "\<bar>x\<bar> < 2 \<Longrightarrow> exponent x \<le> 0"
  by (simp add: exponent_def exponent_up_numeral exponent_down_le)

lemma pow2_pos: "0 < pow2 e"
  by (simp add: pow2_def)

lemma pow2_small: "e \<le> 0 \<Longrightarrow> pow2 (e - 52) \<le> 1 / 2 ^ 52"
proof -
  assume e: "e \<le> 0"
  then have "(52::nat) \<le> nat (52 - e)" by simp
  then have "(2::real) ^ 52 \<le> 2 ^ nat (52 - e)" by (intro power_increasing) simp_all
  with e show ?thesis by (simp add: pow2_def frac_le)
qed

lemma round_half_even_close: "\<bar>of_int (round_half_even y) - y\<bar> \<le> 1 / 2"
  unfolding round_half_even_def Let_def by (auto; linarith)

lemma binary64_close:
  assumes "\<bar>x\<bar> < 2"
  shows "\<exists>r. binary64 x = Finite r \<and> \<bar>r - x\<bar> \<le> 1 / 2 ^ 53"
proof -
  define u where "u = pow2 (exponent x - 52)"
  define q where "q = round_half_even (x / u)"
  have u0: "0 < u" by (simp add: u_def pow2_pos)
  have u1: "u \<le> 1 / 2 ^ 52" unfolding u_def by (rule pow2_small[OF exponent_small[OF assms]])
  have "\<bar>of_int q - x / u\<bar> \<le> 1 / 2" unfolding q_def by (rule round_half_even_close)
  then have "\<bar>of_int q - x / u\<bar> * u \<le> 1 / 2 * u" using u0 by (simp add: mult_right_mono)
  moreover have "\<bar>of_int q - x / u\<bar> * u = \<bar>of_int q * u - x\<bar>"
  proof -
    have "of_int q * u - x = (of_int q - x / u) * u" using u0 by (simp add: field_simps)
    then show ?thesis using u0 by (simp add: abs_mult)
  qed
  ultimately have c: "\<bar>of_int q * u - x\<bar> \<le> 1 / 2 ^ 53" using u1 by simp
  have "(1::real) / 2 ^ 53 \<le> 1" by simp
  with c have "\<bar>of_int q * u\<bar> < 3" using assms by linarith
  moreover have "(3::real) \<le> 2 ^ 1024" by simp
  ultimately have "\<not> 2 ^ 1024 \<le> of_int q * u" "\<not> of_int q * u \<le> - (2 ^ 1024)"
    by linarith+
  then have "binary64 x = Finite (of_int q * u)"
    by (simp add: binary64_def Let_def u_def q_def)
  with c show ?thesis by blast
qed


lemma js_mul_close:
  "\<bar>a * b\<bar> < 2 \<Longrightarrow> \<exists>r. js_mul (Finite a) (Finite b) = Finite r \<and> \<bar>r - a * b\<bar> \<le> 1 / 2 ^ 53"
  unfolding js_mul.simps by (rule binary64_close)

lemma js_add_close:
  "\<bar>a + b\<bar> < 2 \<Longrightarrow> \<exists>r. js_add (Finite a) (Finite b) = Finite r \<and> \<bar>r - (a + b)\<bar> \<le> 1 / 2 ^ 53"
  unfolding js_add.simps by (rule binary64_close)

lemma js_div_one: "js_div (Finite a) (Finite 1) = binary64 a"
  by simp

lemma js_div_one_close:
  "\<bar>a\<bar> < 2 \<Longrightarrow> \<exists>r. js_div (Finite a) (Finite 1) = Finite r \<and> \<bar>r - a\<bar> \<le> 1 / 2 ^ 53"
  unfolding js_div_one by (rule binary64_close)

lemma overall_close:
  assumes "0 \<le> n" "n \<le> 1" "0 \<le> i" "i \<le> 1" "0 \<le> a" "a \<le> 1" "0 \<le> c" "c \<le> 1"
  shows "\<exists>r. calculateOverallScore (axis_scores (Finite n) (Finite i) (Finite a) (Finite c))
              = Finite r
           \<and> \<bar>r - (0.3 * n + 0.3 * i + 0.25 * a + 0.15 * c) / (0.3 + 0.3 + 0.25 + 0.15)\<bar>
               \<le> 1 / 2 ^ 49"
proof -
  define e :: real where "e = 1 / 2 ^ 53"
  define w1 :: real where "w1 = 5404319552844595 / 2 ^ 54"
  define w3 :: real where "w3 = 1 / 4"
  define w4 :: real where "w4 = 5404319552844595 / 2 ^ 55"
  have e: "0 < e" "e \<le> 1 / 100" by (simp_all add: e_def)
  have w: "0 \<le> w1" "w1 \<le> 3 / 10" "3 / 10 - e \<le> w1"
          "0 \<le> w4" "w4 \<le> 3 / 20" "3 / 20 - e \<le> w4"
    by (simp_all add: w1_def w4_def e_def)
  have l: "binary64 0.3 = Finite w1" "binary64 0.25 = Finite w3" "binary64 0.15 = Finite w4"
    unfolding w1_def w3_def w4_def by (rule literal_03, rule literal_025, rule literal_015)
  have b1: "0 \<le> n * w1" "n * w1 \<le> n * (3 / 10)" "n * (3 / 10) - e \<le> n * w1"
  proof -
    show "0 \<le> n * w1" using assms(1) w(1) by simp
    show "n * w1 \<le> n * (3 / 10)" using assms(1) w(2) by (rule mult_left_mono[rotated])
    have "n * (3 / 10 - w1) \<le> 1 * e"
      using assms(1,2) w(2,3) e(1) by (intro mult_mono) simp_all
    then show "n * (3 / 10) - e \<le> n * w1" by (simp add: algebra_simps)
  qed
  have b2: "0 \<le> i * w1" "i * w1 \<le> i * (3 / 10)" "i * (3 / 10) - e \<le> i * w1"
  proof -
    show "0 \<le> i * w1" using assms(3) w(1) by simp
    show "i * w1 \<le> i * (3 / 10)" using assms(3) w(2) by (rule mult_left_mono[rotated])
    have "i * (3 / 10 - w1) \<le> 1 * e"
      using assms(3,4) w(2,3) e(1) by (intro mult_mono) simp_all
    then show "i * (3 / 10) - e \<le> i * w1" by (simp add: algebra_simps)
  qed
  have b4: "0 \<le> c * w4" "c * w4 \<le> c * (3 / 20)" "c * (3 / 20) - e \<le> c * w4"
  proof -
    show "0 \<le> c * w4" using assms(7) w(4) by simp
    show "c * w4 \<le> c * (3 / 20)" using assms(7) w(5) by (rule mult_left_mono[rotated])
    have "c * (3 / 20 - w4) \<le> 1 * e"
      using assms(7,8) w(5,6) e(1) by (intro mult_mono) simp_all
    then show "c * (3 / 20) - e \<le> c * w4" by (simp add: algebra_simps)
  qed
  have b3: "a * w3 = a / 4" by (simp add: w3_def)
  have "\<bar>n * w1\<bar> < 2" using b1 assms(1,2) by linarith
  from js_mul_close[OF this] obtain p1 where
    p1: "js_mul (Finite n) (Finite w1) = Finite p1" "\<bar>p1 - n * w1\<bar> \<le> e"
    unfolding e_def by blast
  from p1(2) have p1': "p1 \<le> n * w1 + e" "n * w1 - e \<le> p1" by linarith+
  have "\<bar>i * w1\<bar> < 2" using b2 assms(3,4) by linarith
  from js_mul_close[OF this] obtain p2 where
    p2: "js_mul (Finite i) (Finite w1) = Finite p2" "\<bar>p2 - i * w1\<bar> \<le> e"
    unfolding e_def by blast
  from p2(2) have p2': "p2 \<le> i * w1 + e" "i * w1 - e \<le> p2" by linarith+
  have "\<bar>a * w3\<bar> < 2" using b3 assms(5,6) by linarith
  from js_mul_close[OF this] obtain p3 where
    p3: "js_mul (Finite a) (Finite w3) = Finite p3" "\<bar>p3 - a * w3\<bar> \<le> e"
    unfolding e_def by blast
  from p3(2) have p3': "p3 \<le> a * w3 + e" "a * w3 - e \<le> p3" by linarith+
  have "\<bar>c * w4\<bar> < 2" using b4 assms(7,8) by linarith
  from js_mul_close[OF this] obtain p4 where
    p4: "js_mul (Finite c) (Finite w4) = Finite p4" "\<bar>p4 - c * w4\<bar> \<le> e"
    unfolding e_def by blast
  from p4(2) have p4': "p4 \<le> c * w4 + e" "c * w4 - e \<le> p4" by linarith+
  have "\<bar>0 + p1\<bar> < 2" using p1' b1 assms(1,2) e by linarith
  from js_add_close[OF this] obtain s1 where
    s1: "js_add (Finite 0) (Finite p1) = Finite s1" "\<bar>s1 - (0 + p1)\<bar> \<le> e"
    unfolding e_def by blast
  from s1(2) have s1': "s1 \<le> (0 + p1) + e" "(0 + p1) - e \<le> s1" by linarith+
  have "\<bar>s1 + p2\<bar> < 2" using s1' p1' p2' b1 b2 assms e by linarith
  from js_add_close[OF this] obtain s2 where
    s2: "js_add (Finite s1) (Finite p2) = Finite s2" "\<bar>s2 - (s1 + p2)\<bar> \<le> e"
    unfolding e_def by blast
  from s2(2) have s2': "s2 \<le> (s1 + p2) + e" "(s1 + p2) - e \<le> s2" by linarith+
  have "\<bar>s2 + p3\<bar> < 2" using s2' s1' p1' p2' p3' b1 b2 b3 assms e by linarith
  from js_add_close[OF this] obtain s3 where
    s3: "js_add (Finite s2) (Finite p3) = Finite s3" "\<bar>s3 - (s2 + p3)\<bar> \<le> e"
    unfolding e_def by blast
  from s3(2) have s3': "s3 \<le> (s2 + p3) + e" "(s2 + p3) - e \<le> s3" by linarith+
  have "\<bar>s3 + p4\<bar> < 2"
    using s3' s2' s1' p1' p2' p3' p4' b1 b2 b3 b4 assms e by linarith
  from js_add_close[OF this] obtain s4 where
    s4: "js_add (Finite s3) (Finite p4) = Finite s4" "\<bar>s4 - (s3 + p4)\<bar> \<le> e"
    unfolding e_def by blast
  from s4(2) have s4': "s4 \<le> (s3 + p4) + e" "(s3 + p4) - e \<le> s4" by linarith+
  have "\<bar>s4\<bar> < 2"
    using s4' s3' s2' s1' p1' p2' p3' p4' b1 b2 b3 b4 assms e by linarith
  from js_div_one_close[OF this] obtain r where
    r: "js_div (Finite s4) (Finite 1) = Finite r" "\<bar>r - s4\<bar> \<le> e"
    unfolding e_def by blast
  from r(2) have r': "r \<le> s4 + e" "s4 - e \<le> r" by linarith+
  have v: "calculateOverallScore (axis_scores (Finite n) (Finite i) (Finite a) (Finite c))
      = Finite r"
    unfolding overall_axes l p1 p2 p3 p4 s1 s2 s3 s4 r ..
  have "\<bar>r - (n * (3 / 10) + i * (3 / 10) + a / 4 + c * (3 / 20))\<bar> \<le> 16 * e"
    using r' s4' s3' s2' s1' p1' p2' p3' p4' b1 b2 b3 b4 e by linarith
  moreover have "(0.3 * n + 0.3 * i + 0.25 * a + 0.15 * c) / (0.3 + 0.3 + 0.25 + 0.15)
      = n * (3 / 10) + i * (3 / 10) + a / 4 + c * (3 / 20)" by simp
  moreover have "16 * e = 1 / 2 ^ 49" by (simp add: e_def)
  ultimately have "\<bar>r - (0.3 * n + 0.3 * i + 0.25 * a + 0.15 * c) / (0.3 + 0.3 + 0.25 + 0.15)\<bar>
               \<le> 1 / 2 ^ 49" by (simp only:)
  with v show ?thesis by blast
qed

lemma grade_bands:
  "(getQualityGrade s = ''A+'') = js_ge s (binary64 0.9)"
  "(getQualityGrade s = ''A'') = (js_ge s (binary64 0.8) \<and> \<not> js_ge s (binary64 0.9))"
  "(getQualityGrade s = ''B+'') = (js_ge s (binary64 0.7) \<and> \<not> js_ge s (binary64 0.8))"
  "(getQualityGrade s = ''B'') = (js_ge s (binary64 0.6) \<and> \<not> js_ge s (binary64 0.7))"
  "(getQualityGrade s = ''C+'') = (js_ge s (binary64 0.5) \<and> \<not> js_ge s (binary64 0.6))"
  "(getQualityGrade s = ''C'') = (js_ge s (binary64 0.4) \<and> \<not> js_ge s (binary64 0.5))"
  "(getQualityGrade s = ''D'') = (js_ge s (binary64 0.3) \<and> \<not> js_ge s (binary64 0.4))"
  "(getQualityGrade s = ''F'') = (\<not> js_ge s (binary64 0.3))"
  unfolding getQualityGrade_def literal_09 literal_08 literal_07 literal_06 literal_05
    literal_04 literal_03
  by (cases s; simp add: js_ge_def; linarith?)+

lemma four_times_08:
  "calculateOverallScore
      (axis_scores (binary64 0.8) (binary64 0.8) (binary64 0.8) (binary64 0.8))
     = Finite (7205759403792793 / 2 ^ 53)"
  unfolding overall_axes literal_08 literal_03 literal_025 literal_015
  by (simp add: binary64_eval)

lemma inherited_weight:
  "metric \<in> set object_prototype_keys
     \<Longrightarrow> calculateOverallScore (before @ (metric, score) # after) = binary64 0.5"
proof -
  assume m: "metric \<in> set object_prototype_keys"
  then have w: "weight_of metric = None"
    by (auto simp: weight_of_def quality_weights_def object_prototype_keys_def)
  have stay: "\<exists>s. weighted_totals entries (x, None) = (s, None)" for entries x
  proof (induction entries arbitrary: x)
    case Nil
    show ?case by simp
  next
    case (Cons e entries)
    obtain k v where e: "e = (k, v)" by (cases e)
    show ?case unfolding e using Cons[of "js_add x (js_mul v (the (weight_of k)))"] Cons[of NotANumber]
      by (cases "weight_of k") simp_all
  qed
  have "\<exists>s. weighted_totals (before @ (metric, score) # after) acc = (s, None)" for acc
  proof (induction before arbitrary: acc)
    case Nil
    obtain x t where acc: "acc = (x, t)" by (cases acc)
    show ?case unfolding acc using stay[of after NotANumber] by (simp add: w)
  next
    case (Cons e before)
    obtain k v where e: "e = (k, v)" by (cases e)
    obtain x t where acc: "acc = (x, t)" by (cases acc)
    show ?case unfolding e acc using Cons by simp
  qed
  then obtain s where
    "weighted_totals (before @ (metric, score) # after) (Finite 0, Some (Finite 0)) = (s, None)"
    by blast
  then show ?thesis by (simp add: calculateOverallScore_def)
qed

text \<open>
  C8 (as amended). For any four axis scores the overall score is the weighted sum with the
  weights 0.3 (naturalness), 0.3 (intent preservation), 0.25 (appropriateness) and 0.15
  (completeness), divided by the total weight, where every product, every sum and the
  quotient is a double-precision operation (the exact result rounded to the nearest
  double); the total weight comes out as exactly 1. For finite scores between 0 and 1 the
  overall score is a finite number that differs from the exact weighted mean by at most
  \<open>2^-49\<close>. The grade of a score \<open>s\<close> is A+ when \<open>s >= 0.9\<close>, A when \<open>s >= 0.8\<close>, B+ when
  \<open>s >= 0.7\<close>, B when \<open>s >= 0.6\<close>, C+ when \<open>s >= 0.5\<close>, C when \<open>s >= 0.4\<close>, D when
  \<open>s >= 0.3\<close> and F otherwise (so also when \<open>s\<close> is \<open>NaN\<close>), the first bound that holds
  deciding; the bounds are the doubles that these literals denote.
\<close>

theorem C8_overall_score_and_grade:
  "calculateOverallScore (axis_scores n i a c)
     = js_div
         (js_add (js_add (js_add (js_add (Finite 0) (js_mul n (binary64 0.3)))
            (js_mul i (binary64 0.3))) (js_mul a (binary64 0.25))) (js_mul c (binary64 0.15)))
         (js_add (js_add (js_add (js_add (Finite 0) (binary64 0.3)) (binary64 0.3))
            (binary64 0.25)) (binary64 0.15))
   \<and> js_add (js_add (js_add (js_add (Finite 0) (binary64 0.3)) (binary64 0.3))
         (binary64 0.25)) (binary64 0.15) = Finite 1
   \<and> (0 \<le> x \<and> x \<le> 1 \<and> 0 \<le> y \<and> y \<le> 1 \<and> 0 \<le> z \<and> z \<le> 1 \<and> 0 \<le> u \<and> u \<le> 1 \<longrightarrow>
        (\<exists>r. calculateOverallScore (axis_scores (Finite x) (Finite y) (Finite z) (Finite u))
               = Finite r
           \<and> \<bar>r - (0.3 * x + 0.3 * y + 0.25 * z + 0.15 * u) / (0.3 + 0.3 + 0.25 + 0.15)\<bar>
               \<le> 1 / 2 ^ 49))
   \<and> (getQualityGrade s = ''A+'') = js_ge s (binary64 0.9)
   \<and> (getQualityGrade s = ''A'') = (js_ge s (binary64 0.8) \<and> \<not> js_ge s (binary64 0.9))
   \<and> (getQualityGrade s = ''B+'') = (js_ge s (binary64 0.7) \<and> \<not> js_ge s (binary64 0.8))
   \<and> (getQualityGrade s = ''B'') = (js_ge s (binary64 0.6) \<and> \<not> js_ge s (binary64 0.7))
   \<and> (getQualityGrade s = ''C+'') = (js_ge s (binary64 0.5) \<and> \<not> js_ge s (binary64 0.6))
   \<and> (getQualityGrade s = ''C'') = (js_ge s (binary64 0.4) \<and> \<not> js_ge s (binary64 0.5))
   \<and> (getQualityGrade s = ''D'') = (js_ge s (binary64 0.3) \<and> \<not> js_ge s (binary64 0.4))
   \<and> (getQualityGrade s = ''F'') = (\<not> js_ge s (binary64 0.3))"
proof -
  note t = total_weight
  have e: "calculateOverallScore (axis_scores n i a c)
     = js_div
         (js_add (js_add (js_add (js_add (Finite 0) (js_mul n (binary64 0.3)))
            (js_mul i (binary64 0.3))) (js_mul a (binary64 0.25))) (js_mul c (binary64 0.15)))
         (js_add (js_add (js_add (js_add (Finite 0) (binary64 0.3)) (binary64 0.3))
            (binary64 0.25)) (binary64 0.15))"
    unfolding t by (rule overall_axes)
  have b: "0 \<le> x \<and> x \<le> 1 \<and> 0 \<le> y \<and> y \<le> 1 \<and> 0 \<le> z \<and> z \<le> 1 \<and> 0 \<le> u \<and> u \<le> 1 \<longrightarrow>
        (\<exists>r. calculateOverallScore (axis_scores (Finite x) (Finite y) (Finite z) (Finite u))
               = Finite r
           \<and> \<bar>r - (0.3 * x + 0.3 * y + 0.25 * z + 0.15 * u) / (0.3 + 0.3 + 0.25 + 0.15)\<bar>
               \<le> 1 / 2 ^ 49)"
    using overall_close[of x y z u] by blast
  show ?thesis by (intro conjI e t b grade_bands)
qed

theorem C8_overall_score_and_grade_witness:
  "0 \<le> (1 / 2 :: real) \<and> (1 / 2 :: real) \<le> 1
   \<and> (\<exists>r. calculateOverallScore
              (axis_scores (Finite (1 / 2)) (Finite (1 / 2)) (Finite (1 / 2)) (Finite (1 / 2)))
            = Finite r
          \<and> \<bar>r - (0.3 * (1 / 2) + 0.3 * (1 / 2) + 0.25 * (1 / 2) + 0.15 * (1 / 2))
                    / (0.3 + 0.3 + 0.25 + 0.15)\<bar> \<le> 1 / 2 ^ 49)"
proof -
  have h: "0 \<le> (1 / 2 :: real) \<and> (1 / 2 :: real) \<le> 1" by simp
  with C8_overall_score_and_grade[where x = "1 / 2" and y = "1 / 2" and z = "1 / 2" and u = "1 / 2"]
  show ?thesis by blast
qed

text \<open>
  C8 as stated fails: when each of the four axis scores is 0.8, the weighted sum divided by
  the total weight is 0.8, a score of grade A; the overall score computed is
  0.7999999999999999, the double just below, and its grade is B+.
\<close>

theorem C8_weighted_mean_counterexample:
  "binary64 0.8 = Finite (3602879701896397 / 2 ^ 52)
   \<and> (0.3 * (3602879701896397 / 2 ^ 52) + 0.3 * (3602879701896397 / 2 ^ 52)
        + 0.25 * (3602879701896397 / 2 ^ 52) + 0.15 * (3602879701896397 / 2 ^ 52))
       / (0.3 + 0.3 + 0.25 + 0.15) = (3602879701896397 / 2 ^ 52 :: real)
   \<and> calculateOverallScore
        (axis_scores (binary64 0.8) (binary64 0.8) (binary64 0.8) (binary64 0.8))
       = Finite (7205759403792793 / 2 ^ 53)
   \<and> calculateOverallScore
        (axis_scores (binary64 0.8) (binary64 0.8) (binary64 0.8) (binary64 0.8))
       \<noteq> binary64 0.8
   \<and> getQualityGrade (binary64 0.8) = ''A''
   \<and> getQualityGrade
        (calculateOverallScore
           (axis_scores (binary64 0.8) (binary64 0.8) (binary64 0.8) (binary64 0.8))) = ''B+''"
proof -
  have m: "(0.3 * (3602879701896397 / 2 ^ 52) + 0.3 * (3602879701896397 / 2 ^ 52)
        + 0.25 * (3602879701896397 / 2 ^ 52) + 0.15 * (3602879701896397 / 2 ^ 52))
       / (0.3 + 0.3 + 0.25 + 0.15) = (3602879701896397 / 2 ^ 52 :: real)" by simp
  have n: "calculateOverallScore
        (axis_scores (binary64 0.8) (binary64 0.8) (binary64 0.8) (binary64 0.8))
       \<noteq> binary64 0.8"
  proof -
    have d: "Finite (7205759403792793 / 2 ^ 53) \<noteq> binary64 0.8" unfolding literal_08 by simp
    show ?thesis unfolding four_times_08 by (rule d)
  qed
  have a: "getQualityGrade (binary64 0.8) = ''A''"
    unfolding getQualityGrade_def literal_09 literal_08 by (simp add: js_ge_def)
  have b: "getQualityGrade
        (calculateOverallScore
           (axis_scores (binary64 0.8) (binary64 0.8) (binary64 0.8) (binary64 0.8))) = ''B+''"
  proof -
    have d: "getQualityGrade (Finite (7205759403792793 / 2 ^ 53)) = ''B+''"
      unfolding getQualityGrade_def literal_09 literal_08 literal_07 by (simp add: js_ge_def)
    show ?thesis unfolding four_times_08 by (rule d)
  qed
  show ?thesis by (intro conjI literal_08 m four_times_08 n a b)
qed

section \<open>Properties of the word converter\<close>

lemma map_of_filter_keys:
  "map_of (filter (\<lambda>(k, v). P k) xs) k = (if P k then map_of xs k else None)"
  by (induction xs) auto

lemma map_of_overridden:
  "map_of (map (\<lambda>(k, v). (k, case m k of Some v' \<Rightarrow> v' | None \<Rightarrow> v)) xs) k
     = (case map_of xs k of None \<Rightarrow> None
        | Some v \<Rightarrow> Some (case m k of Some v' \<Rightarrow> v' | None \<Rightarrow> v))"
  by (induction xs) (auto split: option.splits)

lemma map_of_object_spread: "map_of (object_spread a b) = map_of a ++ map_of b"
proof
  fix k
  show "map_of (object_spread a b) k = (map_of a ++ map_of b) k"
    by (simp add: object_spread_def map_of_filter_keys map_of_overridden map_add_def
        split: option.splits)
qed

lemma keys_object_spread:
  assumes "set (map fst b) \<subseteq> set (map fst a)"
  shows "map fst (object_spread a b) = map fst a"
proof -
  have "filter (\<lambda>(k, v). map_of a k = None) b = []"
  proof (rule filter_False, rule ballI)
    fix e assume "e \<in> set b"
    then have "fst e \<in> set (map fst a)" using assms by auto
    then have "map_of a (fst e) \<noteq> None" by (simp add: map_of_eq_None_iff)
    then show "\<not> (case e of (k, v) \<Rightarrow> map_of a k = None)" by (cases e) simp
  qed
  moreover have "map fst (map (\<lambda>(k, v). (k, case map_of b k of Some v' \<Rightarrow> v' | None \<Rightarrow> v)) a)
      = map fst a"
    by (induction a) auto
  ultimately show ?thesis by (simp add: object_spread_def)
qed

text \<open>
  C6. For every context the phrase set of the phrase pass is the base phrase map overlaid
  with the business map when the situation is business, then with the urgent map when the
  urgency is urgent, then with the superior map when the relationship is superior, a later
  overlay replacing the entry of an earlier one on a key collision; without a context it
  is the base map. The overlays only redefine keys of the base map, so the order in which
  the phrases are applied is always that of the base map.
\<close>

theorem C6_phrase_overlay:
  "map_of (phraseSet (Some c))
     = map_of conversion_phrases
       ++ (if situation c = ''business'' then map_of contextual_business else Map.empty)
       ++ (if urgency c = ''urgent'' then map_of contextual_urgent else Map.empty)
       ++ (if relationship c = ''superior'' then map_of contextual_superior else Map.empty)
   \<and> map fst (phraseSet (Some c)) = map fst conversion_phrases
   \<and> phraseSet None = conversion_phrases"
proof -
  have "map_of (phraseSet (Some c))
     = map_of conversion_phrases
       ++ (if situation c = ''business'' then map_of contextual_business else Map.empty)
       ++ (if urgency c = ''urgent'' then map_of contextual_urgent else Map.empty)
       ++ (if relationship c = ''superior'' then map_of contextual_superior else Map.empty)"
    by (simp add: phraseSet_def map_of_object_spread)
  moreover have "map fst (phraseSet (Some c)) = map fst conversion_phrases"
  proof -
    let ?base = "map fst conversion_phrases"
    have kb: "set (map fst contextual_business) \<subseteq> set ?base"
      and ku: "set (map fst contextual_urgent) \<subseteq> set ?base"
      and ks: "set (map fst contextual_superior) \<subseteq> set ?base"
      by (simp_all add: conversion_phrases_def contextual_business_def contextual_urgent_def
          contextual_superior_def)
    define s1 where "s1 = (if situation c = ''business''
        then object_spread conversion_phrases contextual_business else conversion_phrases)"
    define s2 where "s2 = (if urgency c = ''urgent''
        then object_spread s1 contextual_urgent else s1)"
    define s3 where "s3 = (if relationship c = ''superior''
        then object_spread s2 contextual_superior else s2)"
    have k1: "map fst s1 = ?base"
      unfolding s1_def using keys_object_spread[OF kb] by simp
    have "set (map fst contextual_urgent) \<subseteq> set (map fst s1)" using ku k1 by simp
    from keys_object_spread[OF this] have k2: "map fst s2 = ?base"
      unfolding s2_def using k1 by simp
    have "set (map fst contextual_superior) \<subseteq> set (map fst s2)" using ks k2 by simp
    from keys_object_spread[OF this] have k3: "map fst s3 = ?base"
      unfolding s3_def using k2 by simp
    have "phraseSet (Some c) = s3"
      by (simp add: phraseSet_def s1_def s2_def s3_def)
    with k3 show ?thesis by simp
  qed
  moreover have "phraseSet None = conversion_phrases"
    by (simp add: phraseSet_def)
  ultimately show ?thesis by blast
qed

lemma reschedule_words:
  "convertWords sample_reschedule [] =
     ([0x4E88, 0x5B9A, 0x5909, 0x66F4],
      [\<lparr> entry_type = ''word'', entry_original = [0x30EA, 0x30B9, 0x30B1], entry_converted = [0x30B9, 0x30B1, 0x30B8, 0x30E5, 0x30FC, 0x30EB, 0x5909, 0x66F4],
         entry_count = Some 1, entry_reason = [0x30AB, 0x30B8, 0x30E5, 0x30A2, 0x30EB, 0x306A, 0x8868, 0x73FE, 0x3092, 0x4E01, 0x5BE7, 0x306A, 0x8A00, 0x8449, 0x306B, 0x5909, 0x63DB],
         entry_context = None \<rparr>,
       \<lparr> entry_type = ''word'', entry_original = [0x30B9, 0x30B1, 0x30B8, 0x30E5, 0x30FC, 0x30EB], entry_converted = [0x4E88, 0x5B9A],
         entry_count = Some 1, entry_reason = [0x30AB, 0x30B8, 0x30E5, 0x30A2, 0x30EB, 0x306A, 0x8868, 0x73FE, 0x3092, 0x4E01, 0x5BE7, 0x306A, 0x8A00, 0x8449, 0x306B, 0x5909, 0x63DB],
         entry_context = None \<rparr>])"
  by (simp add: convertWords_def conversion_words_def sample_reschedule_def)

lemma reschedule_text:
  "wc_text (wordConverter_convertText sample_reschedule None) = [0x4E88, 0x5B9A, 0x5909, 0x66F4]"
proof -
  have p: "convertPhrases [0x4E88, 0x5B9A, 0x5909, 0x66F4] None log = ([0x4E88, 0x5B9A, 0x5909, 0x66F4], log)" for log
    by (simp add: convertPhrases_def phraseSet_def conversion_phrases_def)
  have g: "greedy_dot_plus suf [0x4E88, 0x5B9A, 0x5909, 0x66F4] = None"
    if "suf \<in> {[0x3060, 0x3063, 0x3051, 0xFF1F], [0x3058, 0x3083, 0x3093], [0x3060, 0x3088, 0x306D], [0x3063, 0x3066, 0x8A00, 0x3063, 0x3066]}" for suf
    using that by (auto simp: greedy_dot_plus_def line_terminator_def upt_rec)
  have h: "handleSpecialPatterns [0x4E88, 0x5B9A, 0x5909, 0x66F4] None log = ([0x4E88, 0x5B9A, 0x5909, 0x66F4], log)" for log
    by (simp add: handleSpecialPatterns_def rewrite_pattern_def Let_def g
        greedy_dot_plus_def line_terminator_def upt_rec
        render_piece_def pattern_entries_def simple_command_def kana_def)
  show ?thesis
    by (simp add: wordConverter_convertText_def reschedule_words p h)
qed

text \<open>
  C10. The word pass applies each dictionary entry to the text the earlier entries have
  already rewritten. For the input ri-su-ke the fourth entry first produces its mapped
  value, which contains the later key su-ke-ju-u-ru; the entry of that key then rewrites
  it, so the output of the pass (and of the whole converter) is yo-tei-hen-kou and not the
  mapped value, and the log holds an entry for each of the two keys.
\<close>

theorem C10_replacement_rewritten_again:
  "convertWords sample_reschedule [] =
     ([0x4E88, 0x5B9A, 0x5909, 0x66F4],
      [\<lparr> entry_type = ''word'', entry_original = [0x30EA, 0x30B9, 0x30B1], entry_converted = [0x30B9, 0x30B1, 0x30B8, 0x30E5, 0x30FC, 0x30EB, 0x5909, 0x66F4],
         entry_count = Some 1, entry_reason = [0x30AB, 0x30B8, 0x30E5, 0x30A2, 0x30EB, 0x306A, 0x8868, 0x73FE, 0x3092, 0x4E01, 0x5BE7, 0x306A, 0x8A00, 0x8449, 0x306B, 0x5909, 0x63DB],
         entry_context = None \<rparr>,
       \<lparr> entry_type = ''word'', entry_original = [0x30B9, 0x30B1, 0x30B8, 0x30E5, 0x30FC, 0x30EB], entry_converted = [0x4E88, 0x5B9A],
         entry_count = Some 1, entry_reason = [0x30AB, 0x30B8, 0x30E5, 0x30A2, 0x30EB, 0x306A, 0x8868, 0x73FE, 0x3092, 0x4E01, 0x5BE7, 0x306A, 0x8A00, 0x8449, 0x306B, 0x5909, 0x63DB],
         entry_context = None \<rparr>])
   \<and> js_includes sample_reschedule [0x30EA, 0x30B9, 0x30B1]
   \<and> map_of conversion_words [0x30EA, 0x30B9, 0x30B1] = Some [0x30B9, 0x30B1, 0x30B8, 0x30E5, 0x30FC, 0x30EB, 0x5909, 0x66F4]
   \<and> js_includes [0x30B9, 0x30B1, 0x30B8, 0x30E5, 0x30FC, 0x30EB, 0x5909, 0x66F4] [0x30B9, 0x30B1, 0x30B8, 0x30E5, 0x30FC, 0x30EB]
   \<and> js_includes (fst (convertWords sample_reschedule [])) [0x4E88, 0x5B9A, 0x5909, 0x66F4]
   \<and> \<not> js_includes (fst (convertWords sample_reschedule [])) [0x30B9, 0x30B1, 0x30B8, 0x30E5, 0x30FC, 0x30EB, 0x5909, 0x66F4]
   \<and> wc_text (wordConverter_convertText sample_reschedule None) = [0x4E88, 0x5B9A, 0x5909, 0x66F4]"
proof -
  have "map_of conversion_words [0x30EA, 0x30B9, 0x30B1] = Some [0x30B9, 0x30B1, 0x30B8, 0x30E5, 0x30FC, 0x30EB, 0x5909, 0x66F4]"
    by (simp add: conversion_words_def)
  moreover have "js_includes sample_reschedule [0x30EA, 0x30B9, 0x30B1]"
    by (simp add: sample_reschedule_def)
  moreover have "js_includes [0x30B9, 0x30B1, 0x30B8, 0x30E5, 0x30FC, 0x30EB, 0x5909, 0x66F4] [0x30B9, 0x30B1, 0x30B8, 0x30E5, 0x30FC, 0x30EB]"
    by simp
  ultimately show ?thesis
    using reschedule_words reschedule_text by simp
qed

text \<open>
  C4 as stated fails for the dictionary word ri-su-ke: the converter's output for that
  input does not contain the polite form the dictionary maps it to.
\<close>

theorem C4_polite_form_counterexample:
  "js_includes sample_reschedule [0x30EA, 0x30B9, 0x30B1]
   \<and> map_of conversion_words [0x30EA, 0x30B9, 0x30B1] = Some [0x30B9, 0x30B1, 0x30B8, 0x30E5, 0x30FC, 0x30EB, 0x5909, 0x66F4]
   \<and> \<not> js_includes (wc_text (wordConverter_convertText sample_reschedule None)) [0x30B9, 0x30B1, 0x30B8, 0x30E5, 0x30FC, 0x30EB, 0x5909, 0x66F4]"
  by (simp add: reschedule_text) (simp add: sample_reschedule_def conversion_words_def)


section \<open>Properties of the conversion engine\<close>

lemma sort_key_first:
  assumes "sort_key f xs = y # ys"
  shows "y \<in> set xs \<and> (\<forall>x \<in> set xs. f y \<le> f x)"
proof -
  have s: "sorted (map f (sort_key f xs))" by (rule sorted_sort_key)
  have m: "set (sort_key f xs) = set xs" by simp
  from m assms have y: "y \<in> set xs" by (metis list.set_intros(1))
  have "\<forall>x \<in> set xs. f y \<le> f x"
  proof
    fix x assume "x \<in> set xs"
    then have "x \<in> set (y # ys)" using m assms by simp
    then show "f y \<le> f x" using s assms by auto
  qed
  with y show ?thesis by simp
qed

lemma sort_key_nonempty: "xs \<noteq> [] \<Longrightarrow> sort_key f xs \<noteq> []"
  by (metis length_0_conv length_sort)

lemma generateVariations_levels:
  "map v_level (fst (generateVariations t c b g)) = [2, 3, 4, 5, b, b]"
  by (simp add: generateVariations_def generateStyleVariations_def Let_def split: prod.splits)

lemma generateConversions_candidates:
  assumes "x \<in> set (fst (generateConversions t c T g))"
  shows "(approach x = ''level-variation'' \<and> confidence x = 0.8) \<or>
         (approach x \<noteq> ''level-variation'' \<and> level x = T)"
  using assms
  by (auto simp: generateConversions_def Let_def variation_candidate_def split: prod.splits if_splits)

lemma generateConversions_sentence:
  "\<exists>x \<in> set (fst (generateConversions t c T g)).
      approach x = ''sentence-generation'' \<and> level x = T \<and> confidence x = 0.9"
  by (auto simp: generateConversions_def Let_def split: prod.splits if_splits)

lemma score_sentence:
  assumes "approach x = ''sentence-generation''" "level x = determineTargetLevel st c opts" "confidence x = 0.9"
  shows "100 \<le> scoreConversion st x c opts"
proof -
  have a: "confidence x * 100 = 90" using assms(3) by simp
  have "scoreConversion st x c opts \<ge> confidence x * 100 + 10"
    using assms(1,2) by (simp add: scoreConversion_def Let_def)
  with a show ?thesis by linarith
qed

lemma score_variation:
  assumes "approach x = ''level-variation''" "confidence x = 0.8" "level x \<noteq> determineTargetLevel st c opts"
  shows "scoreConversion st x c opts < 100"
proof -
  have a: "confidence x * 100 = 80" using assms(2) by simp
  have b: "0 < \<bar>level x - determineTargetLevel st c opts\<bar> * 5" using assms(3) by simp
  have "scoreConversion st x c opts
      \<le> confidence x * 100 - \<bar>level x - determineTargetLevel st c opts\<bar> * 5 + 20"
    using assms(1) by (simp add: scoreConversion_def Let_def)
  with a b show ?thesis by linarith
qed

lemma selectBest_level:
  assumes np: "opt_preferredApproach opts = None"
    and T: "T = determineTargetLevel st c opts"
  shows "\<exists>best. selectBestConversion st (fst (generateConversions t c T g)) c opts = Some best
           \<and> best \<in> set (fst (generateConversions t c T g)) \<and> level best = T"
proof -
  let ?cs = "fst (generateConversions t c T g)"
  let ?f = "\<lambda>x. - scoreConversion st x c opts"
  from generateConversions_sentence[of t c T g]
  obtain sg where sg: "sg \<in> set ?cs" "approach sg = ''sentence-generation''" "level sg = T"
      "confidence sg = 0.9" by blast
  then have "?cs \<noteq> []" by auto
  then obtain best others where so: "sort_key ?f ?cs = best # others"
    using sort_key_nonempty[of ?cs ?f] by (cases "sort_key ?f ?cs") auto
  from sort_key_first[OF so] have bm: "best \<in> set ?cs" and le: "\<forall>x \<in> set ?cs. ?f best \<le> ?f x"
    by auto
  from le sg(1) have "scoreConversion st sg c opts \<le> scoreConversion st best c opts" by auto
  moreover have "100 \<le> scoreConversion st sg c opts"
    using score_sentence[of sg st c opts] sg T by simp
  ultimately have hi: "100 \<le> scoreConversion st best c opts" by simp
  have "level best = T"
  proof (rule ccontr)
    assume ne: "level best \<noteq> T"
    from generateConversions_candidates[OF bm] ne
    have "approach best = ''level-variation''" "confidence best = 0.8" by auto
    from score_variation[OF this, of st c opts] ne T hi show False by simp
  qed
  moreover have "selectBestConversion st ?cs c opts = Some best"
    using np so by (simp add: selectBestConversion_def)
  ultimately show ?thesis using bm by blast
qed

lemma convertText_body_level:
  assumes np: "opt_preferredApproach opts = None"
  shows "\<exists>r st' g'. convertText_body clk st g t (Some opts) = Inr (r, st', g')
           \<and> result_level r = determineTargetLevel st (analyzeContext (clock_hour clk) t) opts"
proof -
  let ?c = "analyzeContext (clock_hour clk) t"
  let ?T = "determineTargetLevel st ?c opts"
  obtain cs g1 where gc: "generateConversions t ?c ?T g = (cs, g1)" by (cases "generateConversions t ?c ?T g")
  from selectBest_level[OF np refl, where st=st and c="?c" and t=t and g=g] gc
  obtain best where b: "selectBestConversion st cs ?c opts = Some best" "level best = ?T" by auto
  show ?thesis
    using gc b by (simp add: convertText_body_def Let_def)
qed

lemma selectBest_some:
  "\<exists>best. selectBestConversion st (fst (generateConversions t c T g)) c opts = Some best"
proof -
  let ?cs = "fst (generateConversions t c T g)"
  let ?f = "\<lambda>x. - scoreConversion st x c opts"
  from generateConversions_sentence[of t c T g] have "?cs \<noteq> []" by auto
  then obtain best others where so: "sort_key ?f ?cs = best # others"
    using sort_key_nonempty[of ?cs ?f] by (cases "sort_key ?f ?cs") auto
  then show ?thesis
    by (auto simp: selectBestConversion_def split: option.splits)
qed

lemma convertText_body_returns:
  "\<exists>out. convertText_body clk st g t (Some opts) = Inr out"
proof -
  let ?c = "analyzeContext (clock_hour clk) t"
  let ?T = "determineTargetLevel st ?c opts"
  obtain cs g1 where gc: "generateConversions t ?c ?T g = (cs, g1)" by (cases "generateConversions t ?c ?T g")
  from selectBest_some[where st=st and c="?c" and t=t and g=g and T="?T" and opts=opts] gc
  obtain best where b: "selectBestConversion st cs ?c opts = Some best" by auto
  show ?thesis
    using gc b by (simp add: convertText_body_def Let_def)
qed


lemma generateVariations_length: "length (fst (generateVariations t c b g)) = 6"
proof -
  have "length (map v_level (fst (generateVariations t c b g))) = length [2, 3, 4, 5, b, b]"
    by (simp only: generateVariations_levels)
  then show ?thesis by simp
qed

text \<open>
  C1. For every text, in any engine state and whatever the clock and the random source
  give: with an options object the body of the conversion runs to its end without raising;
  whatever the body returns is what \<open>convertText\<close> returns; with \<open>null\<close> for the options
  the body raises, and whenever the body raises, \<open>convertText\<close> returns the fallback
  response built from the text and the error. That response has the text followed by
  wo-onegai-shimasu as its converted text, level 2, confidence 0.3, exactly one
  suggestion, of type error, and the message of the error in its metadata. Building it
  involves no operation that can raise.
\<close>

theorem C1_convert_never_throws:
  "(\<exists>out. convertText_body clk st g t (Some opts) = Inr out)
   \<and> (convertText_body clk st g t maybe_opts = Inr out \<longrightarrow>
        convertText clk st g t maybe_opts = out)
   \<and> (convertText_body clk st g t maybe_opts = Inl (e, st', g') \<longrightarrow>
        convertText clk st g t maybe_opts = (createFallbackResponse clk t e, st', g'))
   \<and> (\<exists>e'. convertText_body clk st g t None = Inl (e', st, g))
   \<and> converted (createFallbackResponse clk t e) = t @ [0x3092, 0x304A, 0x9858, 0x3044, 0x3057, 0x307E, 0x3059, 0x3002]
   \<and> result_level (createFallbackResponse clk t e) = 2
   \<and> result_confidence (result_analysis (createFallbackResponse clk t e)) = 0.3
   \<and> map suggestion_type (suggestions (createFallbackResponse clk t e)) = [''error'']
   \<and> error (result_metadata (createFallbackResponse clk t e)) = Some (error_message e)"
proof -
  have "\<exists>out. convertText_body clk st g t (Some opts) = Inr out"
    by (rule convertText_body_returns)
  moreover have "convertText_body clk st g t maybe_opts = Inr out \<longrightarrow>
        convertText clk st g t maybe_opts = out"
    by (simp add: convertText_def)
  moreover have "convertText_body clk st g t maybe_opts = Inl (e, st', g') \<longrightarrow>
        convertText clk st g t maybe_opts = (createFallbackResponse clk t e, st', g')"
    by (simp add: convertText_def)
  moreover have "\<exists>e'. convertText_body clk st g t None = Inl (e', st, g)"
    by (simp add: convertText_body_def)
  moreover have "converted (createFallbackResponse clk t e) = t @ [0x3092, 0x304A, 0x9858, 0x3044, 0x3057, 0x307E, 0x3059, 0x3002]"
    and "result_level (createFallbackResponse clk t e) = 2"
    and "result_confidence (result_analysis (createFallbackResponse clk t e)) = 0.3"
    and "map suggestion_type (suggestions (createFallbackResponse clk t e)) = [''error'']"
    and "error (result_metadata (createFallbackResponse clk t e)) = Some (error_message e)"
    by (simp_all add: createFallbackResponse_def plain_suggestion_def)
  ultimately show ?thesis by blast
qed

theorem C1_convert_never_throws_witness:
  "convertText_body sample_clock initial_engine zero_rng [] (Some no_options)
     = Inr (convertText sample_clock initial_engine zero_rng [] (Some no_options))
   \<and> convertText_body sample_clock initial_engine zero_rng [] None
     = Inl (TypeError [0x0043, 0x0061, 0x006E, 0x006E, 0x006F, 0x0074, 0x0020, 0x0072, 0x0065, 0x0061, 0x0064, 0x0020, 0x0070, 0x0072, 0x006F, 0x0070, 0x0065, 0x0072, 0x0074, 0x0069, 0x0065, 0x0073, 0x0020, 0x006F, 0x0066, 0x0020, 0x006E, 0x0075, 0x006C, 0x006C, 0x0020, 0x0028, 0x0072, 0x0065, 0x0061, 0x0064, 0x0069, 0x006E, 0x0067, 0x0020, 0x0027, 0x006C, 0x0065, 0x0076, 0x0065, 0x006C, 0x0027, 0x0029], initial_engine, zero_rng)
   \<and> convertText sample_clock initial_engine zero_rng [] None
     = (createFallbackResponse sample_clock []
          (TypeError [0x0043, 0x0061, 0x006E, 0x006E, 0x006F, 0x0074, 0x0020, 0x0072, 0x0065, 0x0061, 0x0064, 0x0020, 0x0070, 0x0072, 0x006F, 0x0070, 0x0065, 0x0072, 0x0074, 0x0069, 0x0065, 0x0073, 0x0020, 0x006F, 0x0066, 0x0020, 0x006E, 0x0075, 0x006C, 0x006C, 0x0020, 0x0028, 0x0072, 0x0065, 0x0061, 0x0064, 0x0069, 0x006E, 0x0067, 0x0020, 0x0027, 0x006C, 0x0065, 0x0076, 0x0065, 0x006C, 0x0027, 0x0029]),
        initial_engine, zero_rng)"
proof -
  let ?e = "TypeError [0x0043, 0x0061, 0x006E, 0x006E, 0x006F, 0x0074, 0x0020, 0x0072, 0x0065, 0x0061, 0x0064, 0x0020, 0x0070, 0x0072, 0x006F, 0x0070, 0x0065, 0x0072, 0x0074, 0x0069, 0x0065, 0x0073, 0x0020, 0x006F, 0x0066, 0x0020, 0x006E, 0x0075, 0x006C, 0x006C, 0x0020, 0x0028, 0x0072, 0x0065, 0x0061, 0x0064, 0x0069, 0x006E, 0x0067, 0x0020, 0x0027, 0x006C, 0x0065, 0x0076, 0x0065, 0x006C, 0x0027, 0x0029]"
  from C1_convert_never_throws[of sample_clock initial_engine zero_rng "[]" no_options]
  obtain out where o: "convertText_body sample_clock initial_engine zero_rng [] (Some no_options) = Inr out"
    by blast
  with C1_convert_never_throws[of sample_clock initial_engine zero_rng "[]" no_options "Some no_options" out]
  have a: "convertText sample_clock initial_engine zero_rng [] (Some no_options) = out" by blast
  have b: "convertText_body sample_clock initial_engine zero_rng [] None
     = Inl (?e, initial_engine, zero_rng)"
    by (simp add: convertText_body_def)
  with C1_convert_never_throws[of sample_clock initial_engine zero_rng "[]" no_options None _ ?e
      initial_engine zero_rng]
  have c: "convertText sample_clock initial_engine zero_rng [] None
     = (createFallbackResponse sample_clock [] ?e, initial_engine, zero_rng)" by blast
  from o a b c show ?thesis by simp
qed

lemma autoTargetLevel_formula:
  "autoTargetLevel st c
     = min 5 (max (if relationship c = ''superior'' \<or> formalityLevel c = ''very-casual''
                   then 4 else 3)
                  (defaultLevel (userPreferences st)))"
  by (simp add: autoTargetLevel_def Let_def max_def min_def)

text \<open>
  C2. For every context descriptor, options object and engine state: a level given in the
  options (an integer from 1 to 5; any number between 1 and 5 behaves alike) is returned
  outright. Otherwise, that is without a given level or with a number outside that range,
  the result starts at 3 and is only ever raised: to 4 when the relationship is superior or
  the formality level is very-casual, then to the learned preferred level
  (\<open>userPreferences.defaultLevel\<close>) when that is higher, and it is capped at 5; so it is
  at least 3 and at most 5, at least 4 for a superior and for very-casual texts, at least 2
  for a subordinate, at least 3 for urgent requests and for business situations, and at
  least the learned preferred level capped at 5. For the input a-pu-de-shi-to-i-te-ku-re-ru?
  with the options {level: 2} the level of the result is 2, in every engine state and
  whatever the clock and the random source give.
\<close>

theorem C2_target_level:
  "(1 \<le> l \<and> l \<le> 5 \<longrightarrow> determineTargetLevel st c (opts\<lparr>opt_level := Some l\<rparr>) = l)
   \<and> (\<not> (1 \<le> l \<and> l \<le> 5) \<longrightarrow>
        determineTargetLevel st c (opts\<lparr>opt_level := Some l\<rparr>) = autoTargetLevel st c)
   \<and> determineTargetLevel st c (opts\<lparr>opt_level := None\<rparr>) = autoTargetLevel st c
   \<and> autoTargetLevel st c
        = min 5 (max (if relationship c = ''superior'' \<or> formalityLevel c = ''very-casual''
                      then 4 else 3)
                     (defaultLevel (userPreferences st)))
   \<and> 3 \<le> autoTargetLevel st c \<and> autoTargetLevel st c \<le> 5
   \<and> (relationship c = ''superior'' \<longrightarrow> 4 \<le> autoTargetLevel st c)
   \<and> (relationship c = ''subordinate'' \<longrightarrow> 2 \<le> autoTargetLevel st c)
   \<and> (urgency c = ''urgent'' \<longrightarrow> 3 \<le> autoTargetLevel st c)
   \<and> (situation c = ''business'' \<longrightarrow> 3 \<le> autoTargetLevel st c)
   \<and> (formalityLevel c = ''very-casual'' \<longrightarrow> 4 \<le> autoTargetLevel st c)
   \<and> min 5 (defaultLevel (userPreferences st)) \<le> autoTargetLevel st c
   \<and> result_level (fst (convertText clk st g sample_update (Some level2_options))) = 2"
proof -
  have d1: "1 \<le> l \<and> l \<le> 5 \<longrightarrow> determineTargetLevel st c (opts\<lparr>opt_level := Some l\<rparr>) = l"
    by (auto simp: determineTargetLevel_def)
  have d2: "\<not> (1 \<le> l \<and> l \<le> 5) \<longrightarrow>
        determineTargetLevel st c (opts\<lparr>opt_level := Some l\<rparr>) = autoTargetLevel st c"
    by (auto simp: determineTargetLevel_def)
  have d3: "determineTargetLevel st c (opts\<lparr>opt_level := None\<rparr>) = autoTargetLevel st c"
    by (simp add: determineTargetLevel_def)
  note f = autoTargetLevel_formula[of st c]
  have b1: "3 \<le> autoTargetLevel st c" and b2: "autoTargetLevel st c \<le> 5"
    and b3: "relationship c = ''superior'' \<longrightarrow> 4 \<le> autoTargetLevel st c"
    and b4: "relationship c = ''subordinate'' \<longrightarrow> 2 \<le> autoTargetLevel st c"
    and b5: "urgency c = ''urgent'' \<longrightarrow> 3 \<le> autoTargetLevel st c"
    and b6: "situation c = ''business'' \<longrightarrow> 3 \<le> autoTargetLevel st c"
    and b7: "formalityLevel c = ''very-casual'' \<longrightarrow> 4 \<le> autoTargetLevel st c"
    and b8: "min 5 (defaultLevel (userPreferences st)) \<le> autoTargetLevel st c"
    unfolding f by (auto simp: max_def min_def)
  have np: "opt_preferredApproach level2_options = None" by (simp add: level2_options_def)
  from convertText_body_level[OF np, where clk=clk and st=st and g=g and t=sample_update]
  obtain r st' g' where r: "convertText_body clk st g sample_update (Some level2_options) = Inr (r, st', g')"
    "result_level r
       = determineTargetLevel st (analyzeContext (clock_hour clk) sample_update) level2_options"
    by blast
  have "determineTargetLevel st (analyzeContext (clock_hour clk) sample_update) level2_options = 2"
    by (simp add: determineTargetLevel_def level2_options_def)
  with r have s: "result_level (fst (convertText clk st g sample_update (Some level2_options))) = 2"
    by (simp add: convertText_def)
  from d1 d2 d3 f b1 b2 b3 b4 b5 b6 b7 b8 s show ?thesis by blast
qed

theorem C2_target_level_witness:
  "(1::real) \<le> 2 \<and> (2::real) \<le> 5
   \<and> determineTargetLevel initial_engine superior_context (no_options\<lparr>opt_level := Some 2\<rparr>) = 2
   \<and> \<not> ((1::real) \<le> 7 \<and> (7::real) \<le> 5)
   \<and> determineTargetLevel initial_engine superior_context (no_options\<lparr>opt_level := Some 7\<rparr>)
       = autoTargetLevel initial_engine superior_context
   \<and> relationship superior_context = ''superior'' \<and> urgency superior_context = ''urgent''
   \<and> situation superior_context = ''business''
   \<and> formalityLevel superior_context = ''very-casual''
   \<and> 4 \<le> autoTargetLevel initial_engine superior_context
   \<and> relationship subordinate_context = ''subordinate''
   \<and> 2 \<le> autoTargetLevel initial_engine subordinate_context"
proof -
  have h: "relationship superior_context = ''superior''" "urgency superior_context = ''urgent''"
    "situation superior_context = ''business''" "formalityLevel superior_context = ''very-casual''"
    "relationship subordinate_context = ''subordinate''"
    by (simp_all add: superior_context_def subordinate_context_def)
  have r: "(1::real) \<le> 2 \<and> (2::real) \<le> 5" "\<not> ((1::real) \<le> 7 \<and> (7::real) \<le> 5)" by simp_all
  from r(1) C2_target_level[of 2 initial_engine superior_context no_options]
  have a: "determineTargetLevel initial_engine superior_context (no_options\<lparr>opt_level := Some 2\<rparr>) = 2"
    by blast
  from r(2) C2_target_level[of 7 initial_engine superior_context no_options]
  have b: "determineTargetLevel initial_engine superior_context (no_options\<lparr>opt_level := Some 7\<rparr>)
       = autoTargetLevel initial_engine superior_context"
    by blast
  from h(1) C2_target_level[of 2 initial_engine superior_context no_options]
  have c: "4 \<le> autoTargetLevel initial_engine superior_context" by blast
  from h(5) C2_target_level[of 2 initial_engine subordinate_context no_options]
  have d: "2 \<le> autoTargetLevel initial_engine subordinate_context" by blast
  from h r a b c d show ?thesis by blast
qed

text \<open>
  C5 (as amended). For every text, context and base level \<open>generateVariations\<close> returns
  exactly six candidates: one for each of the levels 2, 3, 4 and 5, generated from the
  same text and context, followed by two style variants at the base level, the first
  generated with the situation forced to business and the relationship to superior, the
  second with the situation forced to casual and the relationship to colleague. The
  candidates are generated in that order, each drawing from the random source where the
  previous one left it.
\<close>

theorem C5_six_variations:
  "length (fst (generateVariations t c b g)) = 6
   \<and> map v_level (fst (generateVariations t c b g)) = [2, 3, 4, 5, b, b]
   \<and> map v_style (fst (generateVariations t c b g))
       = [None, None, None, None, Some ''business'', Some ''friendly'']
   \<and> (case generatePoliteVersion t c 2 g of (x2, g2) \<Rightarrow>
       case generatePoliteVersion t c 3 g2 of (x3, g3) \<Rightarrow>
       case generatePoliteVersion t c 4 g3 of (x4, g4) \<Rightarrow>
       case generatePoliteVersion t c 5 g4 of (x5, g5) \<Rightarrow>
       case generatePoliteVersion t
              (c\<lparr>situation := ''business'', relationship := ''superior''\<rparr>) b g5 of (xb, g6) \<Rightarrow>
       case generatePoliteVersion t
              (c\<lparr>situation := ''casual'', relationship := ''colleague''\<rparr>) b g6 of (xf, g7) \<Rightarrow>
         map v_text (fst (generateVariations t c b g)) = [x2, x3, x4, x5, xb, xf]
         \<and> snd (generateVariations t c b g) = g7)"
proof -
  have "map v_style (fst (generateVariations t c b g))
       = [None, None, None, None, Some ''business'', Some ''friendly'']"
    by (simp add: generateVariations_def generateStyleVariations_def Let_def split: prod.splits)
  moreover have "(case generatePoliteVersion t c 2 g of (x2, g2) \<Rightarrow>
       case generatePoliteVersion t c 3 g2 of (x3, g3) \<Rightarrow>
       case generatePoliteVersion t c 4 g3 of (x4, g4) \<Rightarrow>
       case generatePoliteVersion t c 5 g4 of (x5, g5) \<Rightarrow>
       case generatePoliteVersion t
              (c\<lparr>situation := ''business'', relationship := ''superior''\<rparr>) b g5 of (xb, g6) \<Rightarrow>
       case generatePoliteVersion t
              (c\<lparr>situation := ''casual'', relationship := ''colleague''\<rparr>) b g6 of (xf, g7) \<Rightarrow>
         map v_text (fst (generateVariations t c b g)) = [x2, x3, x4, x5, xb, xf]
         \<and> snd (generateVariations t c b g) = g7)"
    by (simp add: generateVariations_def generateStyleVariations_def Let_def split: prod.splits)
  ultimately show ?thesis
    using generateVariations_length[of t c b g] generateVariations_levels[of t c b g] by blast
qed

text \<open>
  C5 as stated fails: the number of candidates is not seven.
\<close>

theorem C5_seven_candidates_counterexample:
  "length (fst (generateVariations sample_request superior_context 3 zero_rng)) \<noteq> 7"
  by (simp add: generateVariations_length)

end
